theory Spec2Isabelle
  imports Main "HOL-Library.Word"
begin

unbundle bit_operations_syntax

section \<open>Identifiers, operators and the typed expression tree\<close>

text \<open>
  The code generator of \<^verbatim>\<open>internal/cgen\<close> (files \<^verbatim>\<open>builtin.go\<close> and \<^verbatim>\<open>expr.go\<close>)
  prints C text for a type-checked expression tree. A \<^verbatim>\<open>t.ID\<close> is identified with
  the text the token map gives it (\<^verbatim>\<open>ID.Str(g.tm)\<close>), so \<^verbatim>\<open>t.IDSet\<close> is \<open>''set''\<close>,
  \<^verbatim>\<open>t.IDCopyFromSlice\<close> is \<open>''copy_from_slice''\<close>, and the zero ID is the empty text.
  Operators are \<^verbatim>\<open>t.ID\<close>s as well, but several of them share one text (the
  disambiguated \<^verbatim>\<open>IDXBinaryPlus\<close> and \<^verbatim>\<open>IDXUnaryPlus\<close>), so the operator of a node
  is an enumeration of its own.
\<close>

type_synonym ID = string

type_synonym QID = "ID \<times> ID"

datatype operator =
    Op0
  | IDOpenParen | IDOpenBracket | IDDotDot | IDDot
  | IDXUnaryPlus | IDXUnaryMinus | IDXUnaryNot
  | IDXBinaryPlus | IDXBinaryMinus | IDXBinaryStar | IDXBinarySlash
  | IDXBinaryShiftL | IDXBinaryShiftR | IDXBinaryAmp | IDXBinaryPipe
  | IDXBinaryHat | IDXBinaryPercent
  | IDXBinaryTildeModPlus | IDXBinaryTildeModMinus | IDXBinaryTildeModStar
  | IDXBinaryTildeModShiftL | IDXBinaryTildeSatPlus | IDXBinaryTildeSatMinus
  | IDXBinaryNotEq | IDXBinaryLessThan | IDXBinaryLessEq | IDXBinaryEqEq
  | IDXBinaryGreaterEq | IDXBinaryGreaterThan | IDXBinaryAnd | IDXBinaryOr
  | IDXBinaryAs
  | IDXAssociativePlus | IDXAssociativeStar | IDXAssociativeAmp
  | IDXAssociativePipe | IDXAssociativeHat | IDXAssociativeAnd
  | IDXAssociativeOr
  | IDOtherOperator nat

definition IsXUnaryOp :: "operator \<Rightarrow> bool" where
  "IsXUnaryOp op = (op \<in> {IDXUnaryPlus, IDXUnaryMinus, IDXUnaryNot})"

definition IsXAssociativeOp :: "operator \<Rightarrow> bool" where
  "IsXAssociativeOp op =
     (op \<in> {IDXAssociativePlus, IDXAssociativeStar, IDXAssociativeAmp,
             IDXAssociativePipe, IDXAssociativeHat, IDXAssociativeAnd,
             IDXAssociativeOr})"

definition IsXBinaryOp :: "operator \<Rightarrow> bool" where
  "IsXBinaryOp op =
     (op \<in> {IDXBinaryPlus, IDXBinaryMinus, IDXBinaryStar, IDXBinarySlash,
             IDXBinaryShiftL, IDXBinaryShiftR, IDXBinaryAmp, IDXBinaryPipe,
             IDXBinaryHat, IDXBinaryPercent, IDXBinaryTildeModPlus,
             IDXBinaryTildeModMinus, IDXBinaryTildeModStar,
             IDXBinaryTildeModShiftL, IDXBinaryTildeSatPlus,
             IDXBinaryTildeSatMinus, IDXBinaryNotEq, IDXBinaryLessThan,
             IDXBinaryLessEq, IDXBinaryEqEq, IDXBinaryGreaterEq,
             IDXBinaryGreaterThan, IDXBinaryAnd, IDXBinaryOr, IDXBinaryAs})"

text \<open>
  \<^verbatim>\<open>a.TypeExpr\<close>: an optional decorator (the zero ID, \<open>''nptr''\<close>, \<open>''ptr''\<close>,
  \<open>''array''\<close>, \<open>''slice''\<close>, \<open>''table''\<close>) around an inner type, bottoming out in a
  qualified identifier. \<open>ArrayLength\<close> is the folded constant of the length expression.
\<close>

datatype typeExpr =
  TypeExpr (Decorator: ID) (QID: QID) (ArrayLength: "int option")
           (Inner: "typeExpr option") (IsRefined: bool)

definition IsSliceType :: "typeExpr \<Rightarrow> bool" where
  "IsSliceType typ = (Decorator typ = ''slice'')"

definition IsTableType :: "typeExpr \<Rightarrow> bool" where
  "IsTableType typ = (Decorator typ = ''table'')"

definition IsArrayType :: "typeExpr \<Rightarrow> bool" where
  "IsArrayType typ = (Decorator typ = ''array'')"

text \<open>
  \<^verbatim>\<open>a.Expr\<close>: operator, identifier, up to three operands (the right-hand one is a type
  for the \<^verbatim>\<open>as\<close> operator), the argument list (name and value of each \<^verbatim>\<open>a.Arg\<close>; the
  operands of an associative operator carry the zero name), the resolved type, the
  folded constant if there is one, and the effect and global-identifier flags.
\<close>

datatype expr =
  Expr (Operator: operator) (Ident: ID)
       (LHS: "expr option") (MHS: "expr option") (RHS: "expr option")
       (RHSType: "typeExpr option")
       (Args: "(ID \<times> expr) list")
       (MType: typeExpr) (ConstValue: "int option")
       (Coroutine: bool) (GlobalIdent: bool)

text \<open>
  \<^verbatim>\<open>Expr.IsSlice\<close> of \<^verbatim>\<open>lang/ast\<close>: the three operands of a slice node
  \<^verbatim>\<open>lhs[mhs .. rhs]\<close>, each possibly nil, or not ok for any other node.
\<close>

definition IsSlice :: "expr \<Rightarrow> (expr option \<times> expr option \<times> expr option) option" where
  "IsSlice n = (if Operator n = IDDotDot then Some (LHS n, MHS n, RHS n) else None)"

text \<open>
  Modelled from the spec: \<^verbatim>\<open>Expr.Eq\<close> is defined in package \<^verbatim>\<open>lang/ast\<close>, not in these
  files. It compares two nodes after constant folding (section 4.5): two nodes that both
  carry a folded constant are equal when the constants are, whatever their text; any
  other two nodes are equal when their operators, identifiers and effect flags agree and
  their operands and arguments are equal in turn (the type operand of \<^verbatim>\<open>as\<close> is compared
  as a type). The resolved types are not compared. \<open>EqO\<close> is the call on operands that
  may be nil: two nil operands are equal, a nil operand and a node are not.
\<close>

fun eqOpt :: "('a \<Rightarrow> bool) option \<Rightarrow> 'a option \<Rightarrow> bool" where
  "eqOpt None None = True"
| "eqOpt (Some f) (Some b) = f b"
| "eqOpt _ _ = False"

fun eqList :: "(ID \<times> ('a \<Rightarrow> bool)) list \<Rightarrow> (ID \<times> 'a) list \<Rightarrow> bool" where
  "eqList [] [] = True"
| "eqList (f # fs) (b # bs) = (snd f (snd b) \<and> eqList fs bs)"
| "eqList _ _ = False"

primrec Eq :: "expr \<Rightarrow> expr \<Rightarrow> bool" where
  "Eq (Expr op ident l m r rt as ty cv co gl) =
     (\<lambda>other.
        case (cv, ConstValue other) of
          (Some a, Some b) \<Rightarrow> a = b
        | _ \<Rightarrow>
            op = Operator other \<and> ident = Ident other \<and> co = Coroutine other
            \<and> eqOpt (map_option Eq l) (LHS other)
            \<and> eqOpt (map_option Eq m) (MHS other)
            \<and> (if op = IDXBinaryAs then rt = RHSType other
                else eqOpt (map_option Eq r) (RHS other))
            \<and> eqList (map (map_prod id Eq) as) (Args other))"

definition EqO :: "expr option \<Rightarrow> expr option \<Rightarrow> bool" where
  "EqO n other = eqOpt (map_option Eq n) other"

definition IsDQStrLiteral :: "ID \<Rightarrow> bool" where
  "IsDQStrLiteral x = (case x of [] \<Rightarrow> False | c # _ \<Rightarrow> c = CHR 0x22)"

section \<open>Errors, the generator and its per-function state\<close>

text \<open>
  The two sentinels of \<^verbatim>\<open>builtin.go\<close> are values of their own; every \<^verbatim>\<open>fmt.Errorf\<close> and
  \<^verbatim>\<open>errors.New\<close> at a return site is \<open>Errorf\<close> of its format text (the operands it
  formats come from printers outside these files and are not rendered). A Go run-time
  panic (an index out of range, a nil dereference) is \<open>Panic\<close>.
\<close>

datatype error =
    errNoSuchBuiltin
  | errOptimizationNotApplicable
  | Errorf string
  | Panic string

text \<open>
  \<^verbatim>\<open>g.currFunk\<close>: the temporary counter, the monotonic flags, the prologue buffer, the
  name and effect of the function being generated, and the suspension-point counter.
\<close>

record funk =
  tempW :: nat
  usesScratch :: bool
  usesEmptyIOBuffer :: bool
  bPrologue :: string
  FuncName :: ID
  FuncCoroutine :: bool
  coroSuspPoint :: nat

text \<open>
  The read-only part of \<^verbatim>\<open>gen\<close>: its maps and prefixes, and, as parameters, what
  these files use from \<^verbatim>\<open>lang/token\<close>, \<^verbatim>\<open>lang/ast\<close> and the rest of package \<^verbatim>\<open>cgen\<close>
  without defining it: the identifier and type classifications, \<^verbatim>\<open>sizeof\<close>,
  \<^verbatim>\<open>uintBits\<close> and the two limits \<^verbatim>\<open>a.MaxExprDepth\<close> and \<^verbatim>\<open>maxTemp\<close>.
  \<open>sizeof\<close> is \<open>None\<close> where the Go function returns its error.
  \<open>statusMap\<close> gives the \<^verbatim>\<open>cName\<close> of a status (empty when the key is absent),
  \<open>scalarConstsMap\<close> the folded value of a named constant, \<open>structMap\<close> the QID of
  a struct.
\<close>

record gen =
  statusMap :: "QID \<Rightarrow> string"
  scalarConstsMap :: "QID \<Rightarrow> int option"
  structMap :: "QID \<Rightarrow> QID option"
  privateDataFields :: "ID \<times> ID \<times> ID \<Rightarrow> bool"
  PKGPREFIX :: string
  pkgPrefix :: string
  MaxExprDepth :: nat
  maxTemp :: nat
  sizeof :: "typeExpr \<Rightarrow> nat option"
  uintBits :: "QID \<Rightarrow> nat"
  IsNumType :: "ID \<Rightarrow> bool"
  IsBuiltInCPUArch :: "ID \<Rightarrow> bool"
  IsBuiltInCPUArchARMNeon :: "ID \<Rightarrow> bool"
  IsNumTypeOrIdeal :: "typeExpr \<Rightarrow> bool"
  IsNullptr :: "typeExpr \<Rightarrow> bool"
  IsStatus :: "typeExpr \<Rightarrow> bool"
  IsBool :: "typeExpr \<Rightarrow> bool"
  IsIOTokenType :: "typeExpr \<Rightarrow> bool"
  IsEtcUtilityType :: "typeExpr \<Rightarrow> bool"

text \<open>The name prefixes of package \<^verbatim>\<open>cgen\<close>.\<close>

definition aPrefix :: string where "aPrefix = ''a_''"
definition fPrefix :: string where "fPrefix = ''f_''"
definition pPrefix :: string where "pPrefix = ''p_''"
definition sPrefix :: string where "sPrefix = ''s_''"
definition tPrefix :: string where "tPrefix = ''t_''"
definition vPrefix :: string where "vPrefix = ''v_''"
definition io0Prefix :: string where "io0Prefix = ''io0_''"
definition io1Prefix :: string where "io1Prefix = ''io1_''"
definition io2Prefix :: string where "io2Prefix = ''io2_''"
definition iopPrefix :: string where "iopPrefix = ''iop_''"

text \<open>
  What a call mutates: the function context and the output buffer \<^verbatim>\<open>b\<close>. A writer
  returns its error or result together with the state it leaves behind, since Go
  keeps the text already written when a call fails.
\<close>

record st =
  currFunk :: funk
  buf :: string

type_synonym 'a M = "st \<Rightarrow> (error + 'a) \<times> st"

definition return :: "'a \<Rightarrow> 'a M" where
  "return a = (\<lambda>s. (Inr a, s))"

definition throw :: "error \<Rightarrow> 'a M" where
  "throw e = (\<lambda>s. (Inl e, s))"

definition bind :: "'a M \<Rightarrow> ('a \<Rightarrow> 'b M) \<Rightarrow> 'b M" where
  "bind m f = (\<lambda>s. case m s of (Inl e, s') \<Rightarrow> (Inl e, s') | (Inr a, s') \<Rightarrow> f a s')"

definition seq :: "unit M \<Rightarrow> 'b M \<Rightarrow> 'b M" where
  "seq m k = bind m (\<lambda>_. k)"

text \<open>A block of statements, each of which may return early with an error.\<close>

fun seqs :: "unit M list \<Rightarrow> unit M" where
  "seqs [] = return ()"
| "seqs (m # ms) = seq m (seqs ms)"

definition gets :: "(st \<Rightarrow> 'a) \<Rightarrow> 'a M" where
  "gets f = (\<lambda>s. (Inr (f s), s))"

definition modify :: "(st \<Rightarrow> st) \<Rightarrow> unit M" where
  "modify f = (\<lambda>s. (Inr (), f s))"

definition lift :: "error + 'a \<Rightarrow> 'a M" where
  "lift r = (case r of Inl e \<Rightarrow> throw e | Inr a \<Rightarrow> return a)"

text \<open>\<^verbatim>\<open>b.writes\<close>, \<^verbatim>\<open>b.writeb\<close>: append to the output buffer.\<close>

definition writes :: "string \<Rightarrow> unit M" where
  "writes x = modify (\<lambda>s. s\<lparr>buf := buf s @ x\<rparr>)"

definition writeb :: "char \<Rightarrow> unit M" where
  "writeb c = modify (\<lambda>s. s\<lparr>buf := buf s @ [c]\<rparr>)"

text \<open>Dereferencing an operand that the tree may lack: Go panics on nil.\<close>

definition deref :: "'a option \<Rightarrow> 'a M" where
  "deref x = (case x of None \<Rightarrow> throw (Panic ''nil pointer dereference'')
                       | Some a \<Rightarrow> return a)"

text \<open>\<^verbatim>\<open>args[i]\<close>: Go panics when the index is out of range.\<close>

definition elemAt :: "'a list \<Rightarrow> nat \<Rightarrow> 'a M" where
  "elemAt xs i = (if i < length xs then return (xs ! i)
                 else throw (Panic ''index out of range''))"

section \<open>Printing numbers\<close>

definition digitChar :: "nat \<Rightarrow> char" where
  "digitChar d = ''0123456789ABCDEF'' ! d"

text \<open>\<^verbatim>\<open>%d\<close> of an unsigned number.\<close>

fun showNat :: "nat \<Rightarrow> string" where
  "showNat n = (if n < 10 then [digitChar n]
                else showNat (n div 10) @ [digitChar (n mod 10)])"

declare showNat.simps [simp del]

text \<open>\<^verbatim>\<open>big.Int.String\<close>: decimal, with a minus sign for a negative number.\<close>

definition showInt :: "int \<Rightarrow> string" where
  "showInt i = (if i < 0 then CHR ''-'' # showNat (nat (- i)) else showNat (nat i))"

text \<open>\<^verbatim>\<open>strings.ToUpper(mask.Text(16))\<close> of a non-negative number.\<close>

fun showHexUpper :: "nat \<Rightarrow> string" where
  "showHexUpper n = (if n < 16 then [digitChar n]
                     else showHexUpper (n div 16) @ [digitChar (n mod 16)])"

declare showHexUpper.simps [simp del]

section \<open>Receiver names\<close>

text \<open>
  \<^verbatim>\<open>recvName\<close>: a bare identifier gets the local-variable prefix, a field of \<^verbatim>\<open>args\<close>
  the argument prefix; anything else is an error made by \<^verbatim>\<open>fmt.Errorf\<close>.
\<close>

definition recvName :: "expr \<Rightarrow> error + string" where
  "recvName recv =
     (if Operator recv = Op0 then Inr (vPrefix @ Ident recv)
      else if Operator recv = IDDot then
        (case LHS recv of
           None \<Rightarrow> Inl (Panic ''nil pointer dereference'')
         | Some lhs \<Rightarrow>
             if Operator lhs = Op0 \<and> Ident lhs = ''args''
             then Inr (aPrefix @ Ident recv)
             else Inl (Errorf ''recvName: cannot cgen a %q expression''))
      else Inl (Errorf ''recvName: cannot cgen a %q expression''))"


section \<open>Small helpers for the statement blocks\<close>

definition whenM :: "bool \<Rightarrow> unit M \<Rightarrow> unit M" where
  "whenM c m = (if c then m else return ())"

text \<open>\<^verbatim>\<open>for i, o := range xs\<close>: the body runs on each element with its index, in order.\<close>

definition forEach :: "'a list \<Rightarrow> (nat \<Rightarrow> 'a \<Rightarrow> unit M) \<Rightarrow> unit M" where
  "forEach xs f = seqs (map (\<lambda>(i, x). f i x) (enumerate 0 xs))"

text \<open>\<^verbatim>\<open>args[i].AsArg().Value()\<close>.\<close>

definition argValue :: "(ID \<times> expr) list \<Rightarrow> nat \<Rightarrow> expr M" where
  "argValue args i = bind (elemAt args i) (\<lambda>a. return (snd a))"

text \<open>
  A call of \<^verbatim>\<open>g.writeExpr\<close> on an operand that may be nil: reading the constant of a nil
  node panics. The writers below take \<^verbatim>\<open>g.writeExpr\<close> as their first argument \<open>we\<close>
  (expression, side-effects-only flag, depth); \<open>writeExpr\<close> itself closes the recursion.
\<close>

type_synonym writer = "expr \<Rightarrow> bool \<Rightarrow> nat \<Rightarrow> unit M"

definition weO :: "writer \<Rightarrow> expr option \<Rightarrow> bool \<Rightarrow> nat \<Rightarrow> unit M" where
  "weO we x sideEffectsOnly depth = bind (deref x) (\<lambda>n. we n sideEffectsOnly depth)"

definition HasPrefix :: "string \<Rightarrow> string \<Rightarrow> bool" where
  "HasPrefix s p = (take (length p) s = p)"

definition HasSuffix :: "string \<Rightarrow> string \<Rightarrow> bool" where
  "HasSuffix s p = (length p \<le> length s \<and> drop (length s - length p) s = p)"

section \<open>The descriptor tables\<close>

text \<open>
  \<^verbatim>\<open>readMethods\<close>, \<^verbatim>\<open>peekMethods\<close> and \<^verbatim>\<open>writeFastMethods\<close> are arrays indexed by
  \<^verbatim>\<open>method - base\<close>, guarded by \<^verbatim>\<open>method >= base\<close> and \<^verbatim>\<open>m < len(table)\<close>; an entry
  that the array literal does not set is the zero descriptor. The identifiers of a
  family are numbered densely in \<^verbatim>\<open>lang/token\<close>, so the guarded array read is a lookup
  by identifier that gives the zero descriptor outside the family. A descriptor is
  \<open>(psize, n, endianness)\<close>.
\<close>

type_synonym descriptor = "nat \<times> nat \<times> char"

definition widthTable :: "string \<Rightarrow> (ID \<times> descriptor) list" where
  "widthTable verb =
     [(verb @ ''_u8'', (8, 8, CHR ''b'')),
      (verb @ ''_u16be'', (16, 16, CHR ''b'')),
      (verb @ ''_u16le'', (16, 16, CHR ''l'')),
      (verb @ ''_u8_as_u32'', (32, 8, CHR ''b'')),
      (verb @ ''_u16be_as_u32'', (32, 16, CHR ''b'')),
      (verb @ ''_u16le_as_u32'', (32, 16, CHR ''l'')),
      (verb @ ''_u24be_as_u32'', (32, 24, CHR ''b'')),
      (verb @ ''_u24le_as_u32'', (32, 24, CHR ''l'')),
      (verb @ ''_u32be'', (32, 32, CHR ''b'')),
      (verb @ ''_u32le'', (32, 32, CHR ''l'')),
      (verb @ ''_u8_as_u64'', (64, 8, CHR ''b'')),
      (verb @ ''_u16be_as_u64'', (64, 16, CHR ''b'')),
      (verb @ ''_u16le_as_u64'', (64, 16, CHR ''l'')),
      (verb @ ''_u24be_as_u64'', (64, 24, CHR ''b'')),
      (verb @ ''_u24le_as_u64'', (64, 24, CHR ''l'')),
      (verb @ ''_u32be_as_u64'', (64, 32, CHR ''b'')),
      (verb @ ''_u32le_as_u64'', (64, 32, CHR ''l'')),
      (verb @ ''_u40be_as_u64'', (64, 40, CHR ''b'')),
      (verb @ ''_u40le_as_u64'', (64, 40, CHR ''l'')),
      (verb @ ''_u48be_as_u64'', (64, 48, CHR ''b'')),
      (verb @ ''_u48le_as_u64'', (64, 48, CHR ''l'')),
      (verb @ ''_u56be_as_u64'', (64, 56, CHR ''b'')),
      (verb @ ''_u56le_as_u64'', (64, 56, CHR ''l'')),
      (verb @ ''_u64be'', (64, 64, CHR ''b'')),
      (verb @ ''_u64le'', (64, 64, CHR ''l''))]"

definition lookupDescriptor :: "(ID \<times> descriptor) list \<Rightarrow> ID \<Rightarrow> descriptor" where
  "lookupDescriptor table method =
     (case map_of table method of None \<Rightarrow> (0, 0, CHR 0x00) | Some p \<Rightarrow> p)"

definition readMethods :: "ID \<Rightarrow> descriptor" where
  "readMethods = lookupDescriptor (widthTable ''read'')"

definition peekMethods :: "ID \<Rightarrow> descriptor" where
  "peekMethods = lookupDescriptor (widthTable ''peek'')"

text \<open>\<^verbatim>\<open>writeFastMethods\<close> has no \<^verbatim>\<open>size\<close> field; it is kept equal to \<open>n\<close> here.\<close>

definition writeFastMethods :: "ID \<Rightarrow> descriptor" where
  "writeFastMethods = lookupDescriptor
     [(''write_u8_fast'', (8, 8, CHR ''b'')),
      (''write_u16be_fast'', (16, 16, CHR ''b'')),
      (''write_u16le_fast'', (16, 16, CHR ''l'')),
      (''write_u24be_fast'', (24, 24, CHR ''b'')),
      (''write_u24le_fast'', (24, 24, CHR ''l'')),
      (''write_u32be_fast'', (32, 32, CHR ''b'')),
      (''write_u32le_fast'', (32, 32, CHR ''l'')),
      (''write_u40be_fast'', (40, 40, CHR ''b'')),
      (''write_u40le_fast'', (40, 40, CHR ''l'')),
      (''write_u48be_fast'', (48, 48, CHR ''b'')),
      (''write_u48le_fast'', (48, 48, CHR ''l'')),
      (''write_u56be_fast'', (56, 56, CHR ''b'')),
      (''write_u56le_fast'', (56, 56, CHR ''l'')),
      (''write_u64be_fast'', (64, 64, CHR ''b'')),
      (''write_u64le_fast'', (64, 64, CHR ''l''))]"

text \<open>
  The two identifier ranges \<^verbatim>\<open>IDPeekU8 .. IDPeekU64LE\<close> and \<^verbatim>\<open>IDPokeU8 .. IDPokeU64LE\<close>
  that \<^verbatim>\<open>writeBuiltinSlice\<close> tests, as the identifiers they contain.
\<close>

definition inPeekRange :: "ID \<Rightarrow> bool" where
  "inPeekRange method = (method \<in> set (map fst (widthTable ''peek'')))"

definition inPokeRange :: "ID \<Rightarrow> bool" where
  "inPokeRange method =
     (method \<in> set [''poke_u8'', ''poke_u16be'', ''poke_u16le'', ''poke_u24be'',
                    ''poke_u24le'', ''poke_u32be'', ''poke_u32le'', ''poke_u40be'',
                    ''poke_u40le'', ''poke_u48be'', ''poke_u48le'', ''poke_u56be'',
                    ''poke_u56le'', ''poke_u64be'', ''poke_u64le''])"

text \<open>\<^verbatim>\<open>cTypeNames\<close>, read under the guard \<^verbatim>\<open>key < len(cTypeNames)\<close>; empty when unset.\<close>

definition cTypeNames :: "ID \<Rightarrow> string" where
  "cTypeNames key =
     (case map_of
        [(''i8'', ''int8_t''), (''i16'', ''int16_t''), (''i32'', ''int32_t''),
         (''i64'', ''int64_t''), (''u8'', ''uint8_t''), (''u16'', ''uint16_t''),
         (''u32'', ''uint32_t''), (''u64'', ''uint64_t''), (''bool'', ''bool''),
         (''io_reader'', ''wuffs_base__io_buffer*''),
         (''io_writer'', ''wuffs_base__io_buffer*''),
         (''token_reader'', ''wuffs_base__token_buffer*''),
         (''token_writer'', ''wuffs_base__token_buffer*''),
         (''arm_crc32_u32'', ''uint32_t''),
         (''arm_neon_u8x8'', ''uint8x8_t''), (''arm_neon_u16x4'', ''uint16x4_t''),
         (''arm_neon_u32x2'', ''uint32x2_t''), (''arm_neon_u64x1'', ''uint64x1_t''),
         (''arm_neon_u8x16'', ''uint8x16_t''), (''arm_neon_u16x8'', ''uint16x8_t''),
         (''arm_neon_u32x4'', ''uint32x4_t''), (''arm_neon_u64x2'', ''uint64x2_t''),
         (''x86_m128i'', ''__m128i'')] key
      of None \<Rightarrow> [] | Some s \<Rightarrow> s)"

definition noSuchCOperator :: string where
  "noSuchCOperator = '' no_such_C_operator ''"

text \<open>
  \<^verbatim>\<open>cOpName\<close> on the operators of an expression node. (The table also names the
  assignment operators, which are operators of statements and never of an \<^verbatim>\<open>Expr\<close>.)
  The result is never empty: an operator without an entry gives \<open>noSuchCOperator\<close>.
\<close>

definition cOpName :: "operator \<Rightarrow> string" where
  "cOpName x =
     (case x of
        IDXBinaryPlus \<Rightarrow> '' + '' | IDXBinaryMinus \<Rightarrow> '' - ''
      | IDXBinaryStar \<Rightarrow> '' * '' | IDXBinarySlash \<Rightarrow> '' / ''
      | IDXBinaryShiftL \<Rightarrow> '' << '' | IDXBinaryShiftR \<Rightarrow> '' >> ''
      | IDXBinaryAmp \<Rightarrow> '' & '' | IDXBinaryPipe \<Rightarrow> '' | ''
      | IDXBinaryHat \<Rightarrow> '' ^ '' | IDXBinaryPercent \<Rightarrow> '' % ''
      | IDXBinaryTildeModPlus \<Rightarrow> '' + '' | IDXBinaryTildeModMinus \<Rightarrow> '' - ''
      | IDXBinaryTildeModStar \<Rightarrow> '' * '' | IDXBinaryTildeModShiftL \<Rightarrow> '' << ''
      | IDXBinaryTildeSatPlus \<Rightarrow> noSuchCOperator
      | IDXBinaryTildeSatMinus \<Rightarrow> noSuchCOperator
      | IDXBinaryNotEq \<Rightarrow> '' != '' | IDXBinaryLessThan \<Rightarrow> '' < ''
      | IDXBinaryLessEq \<Rightarrow> '' <= '' | IDXBinaryEqEq \<Rightarrow> '' == ''
      | IDXBinaryGreaterEq \<Rightarrow> '' >= '' | IDXBinaryGreaterThan \<Rightarrow> '' > ''
      | IDXBinaryAnd \<Rightarrow> '' && '' | IDXBinaryOr \<Rightarrow> '' || ''
      | IDXBinaryAs \<Rightarrow> noSuchCOperator
      | IDXAssociativePlus \<Rightarrow> '' + '' | IDXAssociativeStar \<Rightarrow> '' * ''
      | IDXAssociativeAmp \<Rightarrow> '' & '' | IDXAssociativePipe \<Rightarrow> '' | ''
      | IDXAssociativeHat \<Rightarrow> '' ^ '' | IDXAssociativeAnd \<Rightarrow> '' && ''
      | IDXAssociativeOr \<Rightarrow> '' || ''
      | IDXUnaryPlus \<Rightarrow> '' + '' | IDXUnaryMinus \<Rightarrow> '' - ''
      | IDXUnaryNot \<Rightarrow> '' ! ''
      | _ \<Rightarrow> noSuchCOperator)"

section \<open>Type names\<close>

definition packagePrefix :: "gen \<Rightarrow> QID \<Rightarrow> string" where
  "packagePrefix g qid =
     (if fst qid \<noteq> [] then ''wuffs_'' @ fst qid @ ''__'' else pkgPrefix g)"

definition maxNumPointers :: nat where
  "maxNumPointers = 16"

text \<open>The loop that steps \<^verbatim>\<open>x\<close> over the array decorators.\<close>

fun skipArrays :: "typeExpr option \<Rightarrow> typeExpr option" where
  "skipArrays None = None"
| "skipArrays (Some (TypeExpr d q al inn r)) =
     (if d = ''array'' then skipArrays inn else Some (TypeExpr d q al inn r))"

text \<open>The loop that counts pointer decorators down to the innermost type.\<close>

fun countPointers :: "typeExpr option \<Rightarrow> nat \<Rightarrow> error + (nat \<times> typeExpr option)" where
  "countPointers None numPointers = Inr (numPointers, None)"
| "countPointers (Some (TypeExpr d q al inn r)) numPointers =
     (if inn = None then Inr (numPointers, Some (TypeExpr d q al inn r))
      else if d = ''nptr'' \<or> d = ''ptr'' then
        (if numPointers = maxNumPointers
         then Inl (Errorf ''cannot convert Wuffs type %q to C: too many ptr's'')
         else countPointers inn (numPointers + 1))
      else Inl (Errorf ''cannot convert Wuffs type %q to C''))"

text \<open>The loop that prints one bracketed length for each array decorator.\<close>

fun writeArrayLengths :: "typeExpr option \<Rightarrow> unit M" where
  "writeArrayLengths None = return ()"
| "writeArrayLengths (Some (TypeExpr d q al inn r)) =
     (if d = ''array'' then
        seqs [writeb CHR ''['',
              bind (deref al) (\<lambda>cv. writes (showInt cv)),
              writeb CHR '']'',
              writeArrayLengths inn]
      else return ())"

definition writeVarName :: "string \<Rightarrow> string \<Rightarrow> unit M" where
  "writeVarName varNamePrefix varName =
     whenM (varNamePrefix \<noteq> [])
       (seqs [writeb CHR '' '', writes varNamePrefix, writes varName])"

definition writeCTypeName :: "gen \<Rightarrow> typeExpr \<Rightarrow> string \<Rightarrow> string \<Rightarrow> unit M" where
  "writeCTypeName g n varNamePrefix varName =
     (if IsSliceType n then
        bind (deref (Inner n)) (\<lambda>oo.
          if Decorator oo = [] \<and> QID oo = (''base'', ''u8'') \<and> \<not> IsRefined oo
          then seqs [writes ''wuffs_base__slice_u8'', writeVarName varNamePrefix varName]
          else throw (Errorf ''cannot convert Wuffs type %q to C''))
      else if IsTableType n then
        bind (deref (Inner n)) (\<lambda>oo.
          if Decorator oo = [] \<and> QID oo = (''base'', ''u8'') \<and> \<not> IsRefined oo
          then seqs [writes ''wuffs_base__table_u8'', writeVarName varNamePrefix varName]
          else throw (Errorf ''cannot convert Wuffs type %q to C''))
      else
        bind (lift (countPointers (skipArrays (Some n)) 0)) (\<lambda>(numPointers, innermost).
        bind (deref innermost) (\<lambda>inner.
          let qid = QID inner;
              s = (if fst qid = ''base'' then cTypeNames (snd qid) else [])
          in seqs [if s \<noteq> [] then writes s
                   else writes (packagePrefix g qid @ snd qid),
                   writes (replicate numPointers CHR ''*''),
                   writeVarName varNamePrefix varName,
                   writeArrayLengths (Some n)])))"

text \<open>
  Modelled from the spec: \<^verbatim>\<open>writeCoroSuspPoint\<close> is defined in another file of package
  \<^verbatim>\<open>cgen\<close>. It emits the numbered marker at which a later invocation of the generated
  function re-enters (section 4.3), and fails when a function needs more suspension
  points than the counter can number.
\<close>

definition writeCoroSuspPoint :: "bool \<Rightarrow> unit M" where
  "writeCoroSuspPoint maybeSuspend =
     seqs [modify (\<lambda>s. s\<lparr>currFunk := (currFunk s)\<lparr>coroSuspPoint := coroSuspPoint (currFunk s) + 1\<rparr>\<rparr>),
           bind (gets (\<lambda>s. coroSuspPoint (currFunk s))) (\<lambda>p.
             if p = 0xFFFFFFFF
             then throw (Errorf ''too many coroutine suspension points required'')
             else writes (''WUFFS_BASE__COROUTINE_SUSPENSION_POINT''
                          @ (if maybeSuspend then ''_MAYBE_SUSPEND'' else [])
                          @ ''('' @ showNat p @ '');\<newline>''))]"

section \<open>The builtin writers of builtin.go\<close>

definition emptyStructOpen :: "bool \<Rightarrow> unit M" where
  "emptyStructOpen sideEffectsOnly = whenM (\<not> sideEffectsOnly) (writes ''('')"

definition emptyStructClose :: "bool \<Rightarrow> unit M" where
  "emptyStructClose sideEffectsOnly =
     whenM (\<not> sideEffectsOnly) (writes '', wuffs_base__make_empty_struct())'')"

definition writeArgs :: "writer \<Rightarrow> (ID \<times> expr) list \<Rightarrow> nat \<Rightarrow> unit M" where
  "writeArgs we args depth =
     seqs [whenM (length args \<ge> 4) (writeb CHR 0x0A),
           forEach args (\<lambda>i oo.
             seqs [whenM (i > 0)
                     (if length args \<ge> 4 then writes '',\<newline>'' else writes '', ''),
                   we (snd oo) False depth]),
           writes '')'']"

definition writeBuiltinIO :: "expr \<Rightarrow> ID \<Rightarrow> (ID \<times> expr) list \<Rightarrow> nat \<Rightarrow> unit M" where
  "writeBuiltinIO recv method args depth =
     (if method = ''length'' then
        bind (lift (recvName recv)) (\<lambda>rName.
          writes (''((uint64_t)('' @ io2Prefix @ rName @ '' - '' @ iopPrefix @ rName @ ''))''))
      else throw errNoSuchBuiltin)"

definition writeBuiltinIOReader ::
  "writer \<Rightarrow> expr \<Rightarrow> ID \<Rightarrow> (ID \<times> expr) list \<Rightarrow> bool \<Rightarrow> nat \<Rightarrow> unit M" where
  "writeBuiltinIOReader we recv method args sideEffectsOnly depth =
     bind (lift (recvName recv)) (\<lambda>rName.
       if method = ''valid_utf_8_length'' then
         seqs [writes (''((uint64_t)(wuffs_base__utf_8__longest_valid_prefix('' @ iopPrefix @ rName
                       @ '',\<newline>((size_t)(wuffs_base__u64__min(((uint64_t)('' @ io2Prefix @ rName
                       @ '' - '' @ iopPrefix @ rName @ '')), ''),
               bind (argValue args 0) (\<lambda>x. we x False depth),
               writes ''))))))'']
       else if method = ''undo_byte'' then
         seqs [emptyStructOpen sideEffectsOnly,
               writes (iopPrefix @ rName @ ''--''),
               emptyStructClose sideEffectsOnly]
       else if method = ''can_undo_byte'' then
         writes (''('' @ iopPrefix @ rName @ '' > '' @ io1Prefix @ rName @ '')'')
       else if method = ''limited_copy_u32_to_slice'' then
         seqs [writes (''wuffs_base__io_reader__limited_copy_u32_to_slice(\<newline>&'' @ iopPrefix @ rName
                       @ '', '' @ io2Prefix @ rName @ '',''),
               writeArgs we args depth]
       else if method = ''count_since'' then
         seqs [writes ''wuffs_base__io__count_since('',
               bind (argValue args 0) (\<lambda>x. we x False depth),
               writes ('', ((uint64_t)('' @ iopPrefix @ rName @ '' - '' @ io0Prefix @ rName @ '')))'')]
       else if method = ''is_closed'' then
         writes (''('' @ rName @ '' && '' @ rName @ ''->meta.closed)'')
       else if method = ''mark'' then
         writes (''((uint64_t)('' @ iopPrefix @ rName @ '' - '' @ io0Prefix @ rName @ ''))'')
       else if method = ''match7'' then
         seqs [writes (''wuffs_base__io_reader__match7('' @ iopPrefix @ rName @ '', ''
                       @ io2Prefix @ rName @ '', '' @ rName @ '',''),
               bind (argValue args 0) (\<lambda>x. we x False depth),
               writeb CHR '')'']
       else if method = ''peek_u64le_at'' then
         seqs [writes (''wuffs_base__peek_u64le__no_bounds_check('' @ iopPrefix @ rName @ '' + ''),
               bind (argValue args 0) (\<lambda>x. we x False depth),
               writeb CHR '')'']
       else if method = ''position'' then
         writes (''wuffs_base__u64__sat_add('' @ rName @ ''->meta.pos, ((uint64_t)(''
                 @ iopPrefix @ rName @ '' - '' @ io0Prefix @ rName @ '')))'')
       else if method = ''since'' then
         seqs [writes ''wuffs_base__io__since('',
               bind (argValue args 0) (\<lambda>x. we x False depth),
               writes ('', ((uint64_t)('' @ iopPrefix @ rName @ '' - '' @ io0Prefix @ rName
                       @ '')), '' @ io0Prefix @ rName @ '')'')]
       else if method = ''skip_u32_fast'' then
         seqs [emptyStructOpen sideEffectsOnly,
               writes (iopPrefix @ rName @ '' += ''),
               bind (argValue args 0) (\<lambda>x. we x False depth),
               emptyStructClose sideEffectsOnly]
       else
         (case peekMethods method of (psize, n, endianness) \<Rightarrow>
            if n \<noteq> 0 then
              seqs [whenM (psize \<noteq> n) (writes (''((uint'' @ showNat psize @ ''_t)('')),
                    writes (''wuffs_base__peek_u'' @ showNat n @ [endianness]
                            @ ''e__no_bounds_check('' @ iopPrefix @ rName @ '')''),
                    whenM (psize \<noteq> n) (writes ''))'')]
            else writeBuiltinIO recv method args depth))"

definition isLimitedCopyU32FromHistory :: "ID \<Rightarrow> bool" where
  "isLimitedCopyU32FromHistory method =
     (method = ''limited_copy_u32_from_history''
      \<or> method = ''limited_copy_u32_from_history_8_byte_chunks_distance_1_fast''
      \<or> method = ''limited_copy_u32_from_history_8_byte_chunks_fast''
      \<or> method = ''limited_copy_u32_from_history_fast'')"

definition writeBuiltinIOWriter ::
  "writer \<Rightarrow> expr \<Rightarrow> ID \<Rightarrow> (ID \<times> expr) list \<Rightarrow> bool \<Rightarrow> nat \<Rightarrow> unit M" where
  "writeBuiltinIOWriter we recv method args sideEffectsOnly depth =
     bind (lift (recvName recv)) (\<lambda>rName.
       if isLimitedCopyU32FromHistory method then
         seqs [writes (''wuffs_base__io_writer__'' @ method @ ''(\<newline>&'' @ iopPrefix @ rName
                       @ '', '' @ io0Prefix @ rName @ '', '' @ io2Prefix @ rName),
               forEach args (\<lambda>i oo. seqs [writes '', '', we (snd oo) False depth]),
               writeb CHR '')'']
       else if method = ''limited_copy_u32_from_reader'' then
         bind (argValue args 1) (\<lambda>reader.
         bind (lift (recvName reader)) (\<lambda>readerName.
           seqs [writes (''wuffs_base__io_writer__limited_copy_u32_from_reader(\<newline>&'' @ iopPrefix
                         @ rName @ '', '' @ io2Prefix @ rName @ '',''),
                 bind (argValue args 0) (\<lambda>x. we x False depth),
                 writes ('', &'' @ iopPrefix @ readerName @ '', '' @ io2Prefix @ readerName @ '')'')]))
       else if method = ''copy_from_slice'' then
         seqs [writes (''wuffs_base__io_writer__copy_from_slice(&'' @ iopPrefix @ rName
                       @ '', '' @ io2Prefix @ rName @ '',''),
               writeArgs we args depth]
       else if method = ''limited_copy_u32_from_slice'' then
         seqs [writes (''wuffs_base__io_writer__limited_copy_u32_from_slice(\<newline>&'' @ iopPrefix
                       @ rName @ '', '' @ io2Prefix @ rName @ '',''),
               writeArgs we args depth]
       else if method = ''count_since'' then
         seqs [writes ''wuffs_base__io__count_since('',
               bind (argValue args 0) (\<lambda>x. we x False depth),
               writes ('', ((uint64_t)('' @ iopPrefix @ rName @ '' - '' @ io0Prefix @ rName @ '')))'')]
       else if method = ''history_length'' \<or> method = ''mark'' then
         writes (''((uint64_t)('' @ iopPrefix @ rName @ '' - '' @ io0Prefix @ rName @ ''))'')
       else if method = ''position'' then
         writes (''wuffs_base__u64__sat_add('' @ rName @ ''->meta.pos, ((uint64_t)(''
                 @ iopPrefix @ rName @ '' - '' @ io0Prefix @ rName @ '')))'')
       else if method = ''since'' then
         seqs [writes ''wuffs_base__io__since('',
               bind (argValue args 0) (\<lambda>x. we x False depth),
               writes ('', ((uint64_t)('' @ iopPrefix @ rName @ '' - '' @ io0Prefix @ rName
                       @ '')), '' @ io0Prefix @ rName @ '')'')]
       else
         (case writeFastMethods method of (psize, n, endianness) \<Rightarrow>
            if n \<noteq> 0 then
              seqs [writes (''(wuffs_base__poke_u'' @ showNat n @ [endianness]
                            @ ''e__no_bounds_check('' @ iopPrefix @ rName @ '', ''),
                    bind (argValue args 0) (\<lambda>x. we x False depth),
                    writes (''), '' @ iopPrefix @ rName @ '' += '' @ showNat (n div 8)),
                    whenM (\<not> sideEffectsOnly) (writes '', wuffs_base__make_empty_struct()''),
                    writes '')'']
            else writeBuiltinIO recv method args depth))"

text \<open>
  \<^verbatim>\<open>cv == nil || cv.Sign() != 0\<close>: the sub-field is printed unless it is the constant 0.
\<close>

definition notConstZero :: "expr \<Rightarrow> bool" where
  "notConstZero x = (case ConstValue x of None \<Rightarrow> True | Some cv \<Rightarrow> cv \<noteq> 0)"

definition writeBuiltinTokenWriter ::
  "writer \<Rightarrow> expr \<Rightarrow> ID \<Rightarrow> (ID \<times> expr) list \<Rightarrow> nat \<Rightarrow> unit M" where
  "writeBuiltinTokenWriter we recv method args depth =
     (if method = ''write_simple_token_fast'' \<or> method = ''write_extended_token_fast'' then
        bind (lift (recvName recv)) (\<lambda>rName.
          seqs [writes (''*iop_'' @ rName @ ''++ = wuffs_base__make_token(\<newline>''),
                if method = ''write_simple_token_fast'' then
                  seqs [writes ''(((uint64_t)('',
                        bind (argValue args 0) (\<lambda>x.
                          whenM (notConstZero x)
                            (seqs [we x False depth,
                                   writes '')) << WUFFS_BASE__TOKEN__VALUE_MAJOR__SHIFT) |\<newline>(((uint64_t)(''])),
                        bind (argValue args 1) (\<lambda>x. we x False depth),
                        writes '')) << WUFFS_BASE__TOKEN__VALUE_MINOR__SHIFT) |\<newline>(((uint64_t)('']
                else
                  seqs [writes ''(~'',
                        bind (argValue args 0) (\<lambda>x. we x False depth),
                        writes '' << WUFFS_BASE__TOKEN__VALUE_EXTENSION__SHIFT) |\<newline>(((uint64_t)(''],
                (if length args < 2 then throw (Panic ''index out of range'')
                 else bind (argValue args (length args - 2)) (\<lambda>x.
                   whenM (notConstZero x)
                     (seqs [we x False depth,
                            writes '')) << WUFFS_BASE__TOKEN__CONTINUED__SHIFT) |\<newline>(((uint64_t)('']))),
                bind (argValue args (length args - 1)) (\<lambda>x. we x False depth),
                writes '')) << WUFFS_BASE__TOKEN__LENGTH__SHIFT))''])
      else writeBuiltinIO recv method args depth)"

definition sixtyFour :: int where "sixtyFour = 64"
definition eight :: int where "eight = 8"
definition one :: int where "one = 1"
definition zero :: int where "zero = 0"
definition maxInt64 :: int where "maxInt64 = 2 ^ 63 - 1"

text \<open>
  \<^verbatim>\<open>sz, err := g.sizeof(typ)\<close>. The error is made by \<^verbatim>\<open>sizeof\<close>, outside these files; it
  is an error of its own and neither of the two sentinels.
\<close>

definition sizeofM :: "gen \<Rightarrow> typeExpr \<Rightarrow> nat M" where
  "sizeofM g typ = (case sizeof g typ of None \<Rightarrow> throw (Errorf ''unknown sizeof for %q'')
                                      | Some sz \<Rightarrow> return sz)"

definition writeSizeofBits :: "gen \<Rightarrow> typeExpr \<Rightarrow> unit M" where
  "writeSizeofBits g typ = bind (sizeofM g typ) (\<lambda>sz. writes (showNat (8 * sz)))"

definition writeBuiltinNumType ::
  "writer \<Rightarrow> gen \<Rightarrow> expr \<Rightarrow> ID \<Rightarrow> (ID \<times> expr) list \<Rightarrow> nat \<Rightarrow> unit M" where
  "writeBuiltinNumType we g recv method args depth =
     (if method = ''low_bits'' then
        seqs [writes ''(('',
              we recv False depth,
              writes '') & '',
              bind (argValue args 0) (\<lambda>x.
                case ConstValue x of
                  Some cv \<Rightarrow>
                    if cv \<ge> 0 \<and> cv \<le> sixtyFour
                    then writes (''0x'' @ showHexUpper (2 ^ nat cv - 1))
                    else seqs [bind (sizeofM g (MType recv)) (\<lambda>sz.
                                 writes (''WUFFS_BASE__LOW_BITS_MASK__U'' @ showNat (8 * sz) @ ''('')),
                               we x False depth,
                               writes '')'']
                | None \<Rightarrow>
                    seqs [bind (sizeofM g (MType recv)) (\<lambda>sz.
                            writes (''WUFFS_BASE__LOW_BITS_MASK__U'' @ showNat (8 * sz) @ ''('')),
                          we x False depth,
                          writes '')'']),
              writes '')'']
      else if method = ''high_bits'' then
        seqs [writes ''(('',
              we recv False depth,
              writes '') >> ('',
              writeSizeofBits g (MType recv),
              writes '' - ('',
              bind (argValue args 0) (\<lambda>x. we x False depth),
              writes '')))'']
      else if method = ''max'' then
        seqs [writes ''wuffs_base__u'',
              writeSizeofBits g (MType recv),
              writes ''__max('',
              we recv False depth,
              writes '', '',
              bind (argValue args 0) (\<lambda>x. we x False depth),
              writes '')'']
      else if method = ''min'' then
        seqs [writes ''wuffs_base__u'',
              writeSizeofBits g (MType recv),
              writes ''__min('',
              we recv False depth,
              writes '', '',
              bind (argValue args 0) (\<lambda>x. we x False depth),
              writes '')'']
      else throw errNoSuchBuiltin)"

text \<open>
  \<^verbatim>\<open>if err := f(); err != sentinel { return err }\<close>: a result other than the given
  sentinel (success included) is returned as it is; on the sentinel the code after the
  test runs, from the state the failed call left.
\<close>

definition unlessErr :: "error \<Rightarrow> unit M \<Rightarrow> unit M \<Rightarrow> unit M" where
  "unlessErr sentinel m k =
     (\<lambda>s. case m s of (Inl e, s') \<Rightarrow> if e = sentinel then k s' else (Inl e, s')
                    | (Inr u, s') \<Rightarrow> (Inr u, s'))"

text \<open>
  \<^verbatim>\<open>matchFooIndexIndexPlus8\<close>: \<^verbatim>\<open>foo[index .. index + 8]\<close> or \<^verbatim>\<open>foo[.. 8]\<close>; a nil
  \<open>foo\<close> means no match. The left operand of the upper bound is compared with the
  lower bound by \<^verbatim>\<open>Expr.Eq\<close>.
\<close>

definition matchFooIndexIndexPlus8 :: "expr \<Rightarrow> error + (expr option \<times> expr option)" where
  "matchFooIndexIndexPlus8 n =
     (case IsSlice n of
        None \<Rightarrow> Inr (None, None)
      | Some (foo, index, rhs0) \<Rightarrow>
          (case rhs0 of
             None \<Rightarrow> Inr (None, None)
           | Some rhs \<Rightarrow>
               (case index of
                  None \<Rightarrow>
                    (if ConstValue rhs = Some eight then Inr (foo, index) else Inr (None, None))
                | Some i \<Rightarrow>
                    if Operator rhs \<noteq> IDXBinaryPlus \<or> \<not> EqO (LHS rhs) (Some i) then Inr (None, None)
                    else (case RHS rhs of
                            None \<Rightarrow> Inl (Panic ''nil pointer dereference'')
                          | Some rhs' \<Rightarrow>
                              if ConstValue rhs' = Some eight then Inr (foo, index)
                              else Inr (None, None)))))"

definition writeBuiltinSliceCopyFromSlice8 ::
  "writer \<Rightarrow> expr \<Rightarrow> ID \<Rightarrow> (ID \<times> expr) list \<Rightarrow> nat \<Rightarrow> unit M" where
  "writeBuiltinSliceCopyFromSlice8 we recv method args depth =
     (if method \<noteq> ''copy_from_slice'' \<or> length args \<noteq> 1
      then throw errOptimizationNotApplicable
      else
        bind (lift (matchFooIndexIndexPlus8 recv)) (\<lambda>(foo0, fIndex).
        bind (lift (matchFooIndexIndexPlus8 (snd (args ! 0)))) (\<lambda>(bar0, bIndex).
          case (foo0, bar0) of
            (Some foo, Some bar) \<Rightarrow>
              seqs [writes ''memcpy(('',
                    we foo False depth,
                    whenM (IsSliceType (MType foo)) (writes ''.ptr''),
                    (case fIndex of None \<Rightarrow> return ()
                     | Some i \<Rightarrow> seqs [writes '')+('', we i False depth]),
                    writes ''), ('',
                    we bar False depth,
                    whenM (IsSliceType (MType bar)) (writes ''.ptr''),
                    (case bIndex of None \<Rightarrow> return ()
                     | Some i \<Rightarrow> seqs [writes '')+('', we i False depth]),
                    writes ''), 8)'']
          | _ \<Rightarrow> throw errOptimizationNotApplicable)))"

text \<open>\<^verbatim>\<open>s[:strings.Index(s, "_as_")]\<close>, or \<open>s\<close> itself when \<^verbatim>\<open>"_as_"\<close> does not occur.\<close>

fun cutAtAs :: "string \<Rightarrow> string" where
  "cutAtAs [] = []"
| "cutAtAs (c # cs) = (if HasPrefix (c # cs) ''_as_'' then [] else c # cutAtAs cs)"

definition writeBuiltinSlice ::
  "writer \<Rightarrow> expr \<Rightarrow> ID \<Rightarrow> (ID \<times> expr) list \<Rightarrow> bool \<Rightarrow> nat \<Rightarrow> unit M" where
  "writeBuiltinSlice we recv method args sideEffectsOnly depth =
     (if method = ''copy_from_slice'' then
        unlessErr errOptimizationNotApplicable
          (writeBuiltinSliceCopyFromSlice8 we recv method args depth)
          (seqs [writes ''wuffs_base__slice_u8__copy_from_slice('',
                 we recv False depth,
                 writes '', '',
                 writeArgs we args depth])
      else if method = ''length'' then
        seqs [writes ''((uint64_t)('', we recv False depth, writes ''.len))'']
      else if method = ''uintptr_low_12_bits'' then
        seqs [writes ''((uint32_t)(0xFFF & (uintptr_t)('', we recv False depth, writes ''.ptr)))'']
      else if method = ''suffix'' then
        seqs [writes ''wuffs_base__slice_u8__suffix('',
              we recv False depth,
              writes '', '',
              writeArgs we args depth]
      else if inPeekRange method then
        seqs [writes (''wuffs_base__'' @ cutAtAs method @ ''__no_bounds_check(''),
              we recv False depth,
              writes ''.ptr)'']
      else if inPokeRange method then
        seqs [emptyStructOpen sideEffectsOnly,
              writes (''wuffs_base__'' @ method @ ''__no_bounds_check(''),
              we recv False depth,
              writes ''.ptr, '',
              bind (argValue args 0) (\<lambda>x. we x False depth),
              writes '')'',
              emptyStructClose sideEffectsOnly]
      else throw errNoSuchBuiltin)"

definition writeBuiltinTable ::
  "writer \<Rightarrow> expr \<Rightarrow> ID \<Rightarrow> (ID \<times> expr) list \<Rightarrow> bool \<Rightarrow> nat \<Rightarrow> unit M" where
  "writeBuiltinTable we recv method args sideEffectsOnly depth =
     (if method = ''row'' then
        seqs [writes ''wuffs_base__table_u8__row('',
              we recv False depth,
              writes '', '',
              writeArgs we args depth]
      else
        (let field = (if method = ''height'' then ''height''
                      else if method = ''stride'' then ''stride''
                      else if method = ''width'' then ''width''
                      else [])
         in if field \<noteq> [] then
              seqs [writes ''((uint64_t)('', we recv False depth, writes (''.'' @ field @ ''))'')]
            else throw errNoSuchBuiltin))"

definition writeExprDotPtr :: "writer \<Rightarrow> expr \<Rightarrow> bool \<Rightarrow> nat \<Rightarrow> unit M" where
  "writeExprDotPtr we n sideEffectsOnly depth =
     (case IsSlice n of
        Some (arrayOrSlice0, lo, hi) \<Rightarrow>
          bind (deref arrayOrSlice0) (\<lambda>arrayOrSlice.
            seqs [we arrayOrSlice sideEffectsOnly depth,
                  whenM (IsSliceType (MType arrayOrSlice)) (writes ''.ptr''),
                  (case lo of None \<Rightarrow> return ()
                   | Some l \<Rightarrow> seqs [writes '' + '', we l sideEffectsOnly depth])])
      | None \<Rightarrow>
          seqs [we n sideEffectsOnly depth,
                whenM (IsSliceType (MType n)) (writes ''.ptr'')])"

definition writeBuiltinCPUArchARMCRC32 ::
  "writer \<Rightarrow> expr \<Rightarrow> ID \<Rightarrow> (ID \<times> expr) list \<Rightarrow> bool \<Rightarrow> nat \<Rightarrow> unit M" where
  "writeBuiltinCPUArchARMCRC32 we recv method args sideEffectsOnly depth =
     (let methodStr = method in
      if methodStr = ''make_u32'' then bind (argValue args 0) (\<lambda>x. we x False depth)
      else if methodStr = ''value'' then we recv False depth
      else
        seqs [writes ''__'', writes methodStr, writes ''('',
              we recv False depth,
              forEach args (\<lambda>i oo. seqs [writes '', '', we (snd oo) False depth]),
              writes '')''])"

definition neonMultipleBefore :: "string \<Rightarrow> string" where
  "neonMultipleBefore methodStr =
     (if methodStr = ''make_u8x8_multiple'' then ''((uint8x8_t){''
      else if methodStr = ''make_u16x4_multiple'' then ''((uint16x4_t){''
      else if methodStr = ''make_u32x2_multiple'' then ''((uint32x2_t){''
      else if methodStr = ''make_u64x1_multiple'' then ''((uint64x1_t){''
      else if methodStr = ''make_u8x16_multiple'' then ''((uint8x16_t){''
      else if methodStr = ''make_u16x8_multiple'' then ''((uint16x8_t){''
      else if methodStr = ''make_u32x4_multiple'' then ''((uint32x4_t){''
      else if methodStr = ''make_u64x2_multiple'' then ''((uint64x2_t){''
      else [])"

definition neonMakeBefore :: "string \<Rightarrow> (string \<times> bool) option" where
  "neonMakeBefore methodStr =
     (if methodStr = ''make_u8x8_repeat'' then Some (''vdup_n_u8('', False)
      else if methodStr = ''make_u16x4_repeat'' then Some (''vdup_n_u16('', False)
      else if methodStr = ''make_u32x2_repeat'' then Some (''vdup_n_u32('', False)
      else if methodStr = ''make_u64x1_repeat'' then Some (''vdup_n_u64('', False)
      else if methodStr = ''make_u8x16_repeat'' then Some (''vdupq_n_u8('', False)
      else if methodStr = ''make_u16x8_repeat'' then Some (''vdupq_n_u16('', False)
      else if methodStr = ''make_u32x4_repeat'' then Some (''vdupq_n_u32('', False)
      else if methodStr = ''make_u64x2_repeat'' then Some (''vdupq_n_u64('', False)
      else if methodStr = ''make_u8x8_slice64'' then Some (''vld1_u8('', True)
      else if methodStr = ''make_u8x16_slice128'' then Some (''vld1q_u8('', True)
      else None)"

definition neonAsName :: "ID \<Rightarrow> string \<Rightarrow> string" where
  "neonAsName recvId methodStr =
     (if recvId = ''arm_neon_u8x8'' then
        (if methodStr = ''as_u16x4'' then ''vreinterpret_u16_u8''
         else if methodStr = ''as_u32x2'' then ''vreinterpret_u32_u8''
         else if methodStr = ''as_u64x1'' then ''vreinterpret_u64_u8''
         else methodStr)
      else if recvId = ''arm_neon_u16x4'' then ''vreinterpret_u8_u16''
      else if recvId = ''arm_neon_u32x2'' then ''vreinterpret_u8_u32''
      else if recvId = ''arm_neon_u64x1'' then ''vreinterpret_u8_u64''
      else if recvId = ''arm_neon_u8x16'' then
        (if methodStr = ''as_u16x8'' then ''vreinterpretq_u16_u8''
         else if methodStr = ''as_u32x4'' then ''vreinterpretq_u32_u8''
         else if methodStr = ''as_u64x2'' then ''vreinterpretq_u64_u8''
         else methodStr)
      else if recvId = ''arm_neon_u16x8'' then ''vreinterpretq_u8_u16''
      else if recvId = ''arm_neon_u32x4'' then ''vreinterpretq_u8_u32''
      else if recvId = ''arm_neon_u64x2'' then ''vreinterpretq_u8_u64''
      else methodStr)"

definition writeBuiltinCPUArchARMNeon ::
  "writer \<Rightarrow> expr \<Rightarrow> ID \<Rightarrow> (ID \<times> expr) list \<Rightarrow> bool \<Rightarrow> nat \<Rightarrow> unit M" where
  "writeBuiltinCPUArchARMNeon we recv method args sideEffectsOnly depth =
     (let methodStr = method in
      if HasPrefix methodStr ''make_'' then
        bind (if HasSuffix methodStr ''_multiple''
              then return (neonMultipleBefore methodStr, ''})'', False)
              else (case neonMakeBefore methodStr of
                      Some (before, ptr) \<Rightarrow> return (before, '')'', ptr)
                    | None \<Rightarrow> throw (Errorf ''internal error: unsupported cpu_arch method %q'')))
          (\<lambda>(before, after, ptr).
             seqs [writes before,
                   forEach args (\<lambda>i oo.
                     seqs [whenM (i > 0) (writes '', ''),
                           if ptr then writeExprDotPtr we (snd oo) False depth
                           else we (snd oo) False depth]),
                   writes after])
      else
        (let methodStr' = (if HasPrefix methodStr ''as_''
                           then neonAsName (snd (QID (MType recv))) methodStr
                           else methodStr)
         in seqs [writes methodStr', writes ''('',
                  we recv False depth,
                  forEach args (\<lambda>i oo. seqs [writes '', '', we (snd oo) False depth]),
                  writes '')'']))"

definition x86Make :: "string \<Rightarrow> (string \<times> string \<times> bool) option" where
  "x86Make methodStr =
     (if methodStr = ''make_m128i_multiple_u8'' then Some (''_mm_set_epi8'', ''int8_t'', False)
      else if methodStr = ''make_m128i_multiple_u16'' then Some (''_mm_set_epi16'', ''int16_t'', False)
      else if methodStr = ''make_m128i_multiple_u32'' then Some (''_mm_set_epi32'', ''int32_t'', False)
      else if methodStr = ''make_m128i_multiple_u64'' then Some (''_mm_set_epi64x'', ''int64_t'', False)
      else if methodStr = ''make_m128i_repeat_u8'' then Some (''_mm_set1_epi8'', ''int8_t'', False)
      else if methodStr = ''make_m128i_repeat_u16'' then Some (''_mm_set1_epi16'', ''int16_t'', False)
      else if methodStr = ''make_m128i_repeat_u32'' then Some (''_mm_set1_epi32'', ''int32_t'', False)
      else if methodStr = ''make_m128i_repeat_u64'' then Some (''_mm_set1_epi64x'', ''int64_t'', False)
      else if methodStr = ''make_m128i_single_u32'' then Some (''_mm_cvtsi32_si128'', ''int32_t'', False)
      else if methodStr = ''make_m128i_single_u64'' then Some (''_mm_cvtsi64x_si128'', ''int64_t'', False)
      else if methodStr = ''make_m128i_slice128''
        then Some (''_mm_lddqu_si128'', ''const __m128i*)(const void*'', True)
      else if methodStr = ''make_m128i_zeroes'' then Some (''_mm_setzero_si128'', [], False)
      else None)"

definition writeBuiltinCPUArchX86 ::
  "writer \<Rightarrow> gen \<Rightarrow> expr \<Rightarrow> ID \<Rightarrow> (ID \<times> expr) list \<Rightarrow> bool \<Rightarrow> nat \<Rightarrow> unit M" where
  "writeBuiltinCPUArchX86 we g recv method args sideEffectsOnly depth =
     (let methodStr = method in
      if HasPrefix methodStr ''make_'' then
        (case x86Make methodStr of
           None \<Rightarrow> throw (Errorf ''internal error: unsupported cpu_arch method %q'')
         | Some (fName, tName, ptr) \<Rightarrow>
             seqs [writes (fName @ ''(''),
                   forEach (rev args) (\<lambda>i oo.
                     seqs [whenM (i > 0) (writes '', ''),
                           writes (''('' @ tName @ '')(''),
                           if ptr then writeExprDotPtr we (snd oo) False depth
                           else we (snd oo) False depth,
                           writes '')'']),
                   writes '')''])
      else if HasPrefix methodStr ''store_'' then
        seqs [emptyStructOpen sideEffectsOnly,
              (if methodStr = ''store_slice64'' then writes ''_mm_storeu_si64((void*)(''
               else if methodStr = ''store_slice128'' then writes ''_mm_storeu_si128((__m128i*)(void*)(''
               else return ()),
              bind (argValue args 0) (\<lambda>x. writeExprDotPtr we x False depth),
              writes ''), '',
              we recv False depth,
              writes '')'',
              emptyStructClose sideEffectsOnly]
      else if HasPrefix methodStr ''truncate_u'' then
        (let sz = drop (length ''truncate_u'') methodStr in
         seqs [writes (''((uint'' @ sz @ ''_t)(_mm_cvtsi128_si'' @ sz @ ''(''),
               we recv False depth,
               writes '')))''])
      else if HasPrefix methodStr ''_mm_extract_epi'' then
        (let sz = drop (length ''_mm_extract_epi'') methodStr in
         seqs [writes (''((uint'' @ sz @ ''_t)(_mm_extract_epi'' @ sz @ ''(''),
               we recv False depth,
               writes '', '',
               writes ''(int32_t)('',
               bind (argValue args 0) (\<lambda>x. we x False depth),
               writes ''))))''])
      else
        seqs [writes methodStr, writes ''('',
              we recv False depth,
              forEach args (\<lambda>i oo.
                seqs [writes '', '',
                      whenM (IsNumTypeOrIdeal g (MType (snd oo))) (writes ''(int32_t)(''),
                      we (snd oo) False depth,
                      whenM (IsNumTypeOrIdeal g (MType (snd oo))) (writes '')'')]),
              writes '')''])"

definition writeBuiltinCPUArch ::
  "writer \<Rightarrow> gen \<Rightarrow> expr \<Rightarrow> ID \<Rightarrow> (ID \<times> expr) list \<Rightarrow> bool \<Rightarrow> nat \<Rightarrow> unit M" where
  "writeBuiltinCPUArch we g recv method args sideEffectsOnly depth =
     (let id = snd (QID (MType recv)) in
      if id = ''arm_crc32_utility'' \<or> id = ''arm_crc32_u32''
      then writeBuiltinCPUArchARMCRC32 we recv method args sideEffectsOnly depth
      else if IsBuiltInCPUArchARMNeon g id
      then writeBuiltinCPUArchARMNeon we recv method args sideEffectsOnly depth
      else if id = ''x86_sse42_utility'' \<or> id = ''x86_m128i''
      then writeBuiltinCPUArchX86 we g recv method args sideEffectsOnly depth
      else throw (Errorf ''internal error: unsupported cpu_arch method %s.%s''))"

text \<open>The declaration that the first use of the empty I/O buffer hoists into the prologue.\<close>

definition emptyIOBufferDecl :: string where
  "emptyIOBufferDecl = ''wuffs_base__io_buffer empty_io_buffer = wuffs_base__empty_io_buffer();\<newline>\<newline>''"

text \<open>
  \<^verbatim>\<open>if !g.currFunk.usesEmptyIOBuffer { ... }\<close>: set the flag and append the declaration
  to \<^verbatim>\<open>g.currFunk.bPrologue\<close>, unless the flag is set already.
\<close>

definition declareEmptyIOBuffer :: "unit M" where
  "declareEmptyIOBuffer =
     bind (gets (\<lambda>s. usesEmptyIOBuffer (currFunk s))) (\<lambda>used.
       whenM (\<not> used)
         (modify (\<lambda>s. s\<lparr>currFunk := (currFunk s)
            \<lparr>usesEmptyIOBuffer := True,
             bPrologue := bPrologue (currFunk s) @ emptyIOBufferDecl\<rparr>\<rparr>)))"

definition writeBuiltinCall :: "writer \<Rightarrow> gen \<Rightarrow> expr \<Rightarrow> bool \<Rightarrow> nat \<Rightarrow> unit M" where
  "writeBuiltinCall we g n sideEffectsOnly depth =
     (if Operator n \<noteq> IDOpenParen then throw errNoSuchBuiltin
      else
        bind (deref (LHS n)) (\<lambda>method.
        bind (deref (LHS method)) (\<lambda>recv.
          let recvTyp = MType recv in
          if Decorator recvTyp = ''nptr'' \<or> Decorator recvTyp = ''ptr'' then
            (if Ident method \<noteq> ''set'' then throw errNoSuchBuiltin
             else
               bind (lift (recvName recv)) (\<lambda>rName.
               bind (deref (Inner recvTyp)) (\<lambda>inner.
               bind (if QID inner = (''base'', ''image_config'')
                     then seq (writes (''wuffs_base__image_config__set(\<newline>'' @ rName))
                              (return (- 1))
                     else if QID inner = (''base'', ''frame_config'')
                     then seq (writes (''wuffs_base__frame_config__set(\<newline>'' @ rName))
                              (return 1)
                     else throw errNoSuchBuiltin)
                 (\<lambda>u64ToFlicksIndex.
                    seqs [forEach (Args n) (\<lambda>i oo.
                            seqs [writes '',\<newline>'',
                                  whenM (int i = u64ToFlicksIndex)
                                    (if fst oo \<noteq> ''duration''
                                     then throw (Errorf ''cgen: internal error: inconsistent frame_config.set argument'')
                                     else writes ''((wuffs_base__flicks)(''),
                                  we (snd oo) False depth,
                                  whenM (int i = u64ToFlicksIndex) (writes ''))'')]),
                          writeb CHR '')'']))))
          else if Decorator recvTyp = ''slice'' then
            writeBuiltinSlice we recv (Ident method) (Args n) sideEffectsOnly depth
          else if Decorator recvTyp = ''table'' then
            writeBuiltinTable we recv (Ident method) (Args n) sideEffectsOnly depth
          else if Decorator recvTyp \<noteq> [] then throw errNoSuchBuiltin
          else
            (let qid = QID recvTyp in
             if fst qid \<noteq> ''base'' then throw errNoSuchBuiltin
             else if IsNumType g (snd qid) then
               writeBuiltinNumType we g recv (Ident method) (Args n) depth
             else if IsBuiltInCPUArch g (snd qid) then
               writeBuiltinCPUArch we g recv (Ident method) (Args n) sideEffectsOnly depth
             else if snd qid = ''io_reader'' then
               writeBuiltinIOReader we recv (Ident method) (Args n) sideEffectsOnly depth
             else if snd qid = ''io_writer'' then
               writeBuiltinIOWriter we recv (Ident method) (Args n) sideEffectsOnly depth
             else if snd qid = ''pixel_swizzler'' then
               (if Ident method = ''limited_swizzle_u32_interleaved_from_reader''
                   \<or> Ident method = ''swizzle_interleaved_from_reader'' then
                  seqs [writes ''wuffs_base__pixel_swizzler__'',
                        (if Ident method = ''limited_swizzle_u32_interleaved_from_reader''
                         then writes ''limited_swizzle_u32_interleaved_from_reader''
                         else writes ''swizzle_interleaved_from_reader''),
                        writes ''(\<newline>&'',
                        we recv False depth,
                        (let args = Args n in
                         if args = [] then throw (Panic ''slice bounds out of range'')
                         else
                           seqs [forEach (butlast args) (\<lambda>i oo.
                                   seqs [writes '',\<newline>'', we (snd oo) False depth]),
                                 bind (lift (recvName (snd (last args)))) (\<lambda>readerArgName.
                                   writes ('',\<newline>&'' @ iopPrefix @ readerArgName @ '',\<newline>''
                                           @ io2Prefix @ readerArgName @ '')''))])]
                else throw errNoSuchBuiltin)
             else if snd qid = ''token_writer'' then
               writeBuiltinTokenWriter we recv (Ident method) (Args n) depth
             else if snd qid = ''utility'' then
               (if Ident method = ''cpu_arch_is_32_bit'' then writes ''(sizeof(void*) == 4)''
                else if Ident method = ''empty_io_reader'' \<or> Ident method = ''empty_io_writer'' then
                  seqs [declareEmptyIOBuffer, writes ''&empty_io_buffer'']
                else throw errNoSuchBuiltin)
             else throw errNoSuchBuiltin))))"

section \<open>Suspension points\<close>

definition scratchName :: "funk \<Rightarrow> string" where
  "scratchName f = ''self->private_data.'' @ sPrefix @ FuncName f @ ''[0].scratch''"

definition shortRead :: "string \<Rightarrow> string" where
  "shortRead name =
     ''if (WUFFS_BASE__UNLIKELY(iop_'' @ name @ '' == io2_'' @ name @ '')) {\<newline>''
     @ ''status = wuffs_base__make_status(wuffs_base__suspension__short_read);\<newline>''
     @ ''goto suspend;\<newline>}\<newline>''"

text \<open>\<^verbatim>\<open>temp := g.currFunk.tempW; g.currFunk.tempW++\<close>, after the test against \<^verbatim>\<open>maxTemp\<close>.\<close>

definition newTemp :: "gen \<Rightarrow> nat M" where
  "newTemp g =
     bind (gets (\<lambda>s. tempW (currFunk s))) (\<lambda>temp.
       if temp > maxTemp g then throw (Errorf ''too many temporary variables required'')
       else seq (modify (\<lambda>s. s\<lparr>currFunk := (currFunk s)\<lparr>tempW := temp + 1\<rparr>\<rparr>))
                (return temp))"

definition setUsesScratch :: "unit M" where
  "setUsesScratch = modify (\<lambda>s. s\<lparr>currFunk := (currFunk s)\<lparr>usesScratch := True\<rparr>\<rparr>)"

definition writeReadUxxAsUyy ::
  "gen \<Rightarrow> expr \<Rightarrow> string \<Rightarrow> nat \<Rightarrow> nat \<Rightarrow> char \<Rightarrow> unit M" where
  "writeReadUxxAsUyy g n preName xx yy endianness =
     (if xx mod 8 \<noteq> 0 \<or> xx < 16 \<or> xx > 64
      then throw (Errorf ''internal error: bad writeReadUXX size %d'')
      else if endianness \<noteq> CHR ''b'' \<and> endianness \<noteq> CHR ''l''
      then throw (Errorf ''internal error: bad writeReadUXX endianness %q'')
      else
        bind (newTemp g) (\<lambda>temp.
        seqs [writeCTypeName g (MType n) tPrefix (showNat temp),
              writes '';\<newline>'',
              bind (deref (LHS n)) (\<lambda>method.
              bind (deref (LHS method)) (\<lambda>recv.
              bind (lift (recvName recv)) (\<lambda>rName.
              seq setUsesScratch
              (bind (gets (\<lambda>s. scratchName (currFunk s))) (\<lambda>scratch.
              seqs [writes (''if (WUFFS_BASE__LIKELY(io2_'' @ rName @ '' - iop_'' @ rName
                            @ '' >= '' @ showNat (xx div 8) @ '')) {\<newline>''),
                    writes (tPrefix @ showNat temp @ '' = ''),
                    whenM (xx \<noteq> yy) (writes (''((uint'' @ showNat yy @ ''_t)('')),
                    writes (''wuffs_base__peek_u'' @ showNat xx @ [endianness]
                            @ ''e__no_bounds_check(iop_'' @ rName @ '')''),
                    whenM (xx \<noteq> yy) (writes ''))''),
                    writes ('';\<newline>iop_'' @ rName @ '' += '' @ showNat (xx div 8) @ '';\<newline>''),
                    writes ''} else {\<newline>'',
                    writes (scratch @ '' = 0;\<newline>''),
                    writeCoroSuspPoint False,
                    writes ''while (true) {\<newline>'',
                    writes (shortRead preName),
                    writes (''uint64_t* scratch = &'' @ scratch @ '';\<newline>''),
                    writes (''uint32_t num_bits_'' @ showNat temp @ '' = ((uint32_t)(*scratch''),
                    (if endianness = CHR ''b'' then
                       seqs [writes '' & 0xFF));\<newline>*scratch >>= 8;\<newline>*scratch <<= 8;\<newline>'',
                             writes (''*scratch |= ((uint64_t)(*'' @ iopPrefix @ preName
                                     @ ''++)) << (56 - num_bits_'' @ showNat temp @ '');\<newline>'')]
                     else
                       seqs [writes '' >> 56));\<newline>*scratch <<= 8;\<newline>*scratch >>= 8;\<newline>'',
                             writes (''*scratch |= ((uint64_t)(*'' @ iopPrefix @ preName
                                     @ ''++)) << num_bits_'' @ showNat temp @ '';\<newline>'')]),
                    writes (''if (num_bits_'' @ showNat temp @ '' == '' @ showNat (xx - 8)
                            @ '') {\<newline>'' @ tPrefix @ showNat temp @ '' = ((uint''
                            @ showNat yy @ ''_t)(''),
                    (if endianness = CHR ''b''
                     then writes (''*scratch >> '' @ showNat (64 - xx) @ ''));\<newline>'')
                     else writes ''*scratch));\<newline>''),
                    writes ''break;\<newline>'',
                    writes ''}\<newline>'',
                    writes (''num_bits_'' @ showNat temp @ '' += 8;\<newline>''),
                    (if endianness = CHR ''b''
                     then writes (''*scratch |= ((uint64_t)(num_bits_'' @ showNat temp @ ''));\<newline>'')
                     else writes (''*scratch |= ((uint64_t)(num_bits_'' @ showNat temp @ '')) << 56;\<newline>'')),
                    writes ''}\<newline>}\<newline>''])))))]))"

definition writeBuiltinQuestionCall :: "writer \<Rightarrow> gen \<Rightarrow> expr \<Rightarrow> nat \<Rightarrow> unit M" where
  "writeBuiltinQuestionCall we g n depth =
     (if Operator n \<noteq> IDOpenParen \<or> \<not> Coroutine n then throw errNoSuchBuiltin
      else
        bind (deref (LHS n)) (\<lambda>method.
        bind (deref (LHS method)) (\<lambda>recv.
          let recvTyp = MType recv in
          if \<not> IsIOTokenType g recvTyp then throw errNoSuchBuiltin
          else
            bind (lift (recvName recv)) (\<lambda>rName.
              if snd (QID recvTyp) = ''io_reader'' then
                (if Ident method = ''read_u8'' \<or> Ident method = ''read_u8_as_u32''
                    \<or> Ident method = ''read_u8_as_u64'' then
                   seqs [writeCoroSuspPoint False,
                         bind (newTemp g) (\<lambda>temp.
                           seqs [writes (shortRead rName),
                                 writeCTypeName g (MType n) tPrefix (showNat temp),
                                 writes ('' = *iop_'' @ rName @ ''++;\<newline>'')])]
                 else if Ident method = ''skip'' \<or> Ident method = ''skip_u32'' then
                   bind (argValue (Args n) 0) (\<lambda>x.
                     if ConstValue x = Some one then
                       seqs [writeCoroSuspPoint False,
                             writes (shortRead rName),
                             writes (''iop_'' @ rName @ ''++;\<newline>'')]
                     else
                       seq setUsesScratch
                       (bind (gets (\<lambda>s. scratchName (currFunk s))) (\<lambda>scratch.
                        seqs [writes (scratch @ '' = ''),
                              we x False depth,
                              writes '';\<newline>'',
                              writeCoroSuspPoint False,
                              writes (''if ('' @ scratch @ '' > ((uint64_t)(io2_'' @ rName
                                      @ '' - iop_'' @ rName @ ''))) {\<newline>''),
                              writes (scratch @ '' -= ((uint64_t)(io2_'' @ rName
                                      @ '' - iop_'' @ rName @ ''));\<newline>''),
                              writes (''iop_'' @ rName @ '' = io2_'' @ rName @ '';\<newline>''),
                              writes (''status = wuffs_base__make_status(wuffs_base__suspension__short_read);\<newline>''
                                      @ ''goto suspend;\<newline>}\<newline>''),
                              writes (''iop_'' @ rName @ '' += '' @ scratch @ '';\<newline>'')])))
                 else
                   (case readMethods (Ident method) of (psize, pn, endianness) \<Rightarrow>
                      if pn \<noteq> 0 then
                        seqs [writeCoroSuspPoint False,
                              writeReadUxxAsUyy g n rName pn psize endianness]
                      else throw errNoSuchBuiltin))
              else if snd (QID recvTyp) = ''io_writer'' then
                (if Ident method = ''write_u8'' then
                   seq setUsesScratch
                   (bind (gets (\<lambda>s. scratchName (currFunk s))) (\<lambda>scratch.
                    seqs [writes (scratch @ '' = ''),
                          bind (argValue (Args n) 0) (\<lambda>x. we x False depth),
                          writes '';\<newline>'',
                          writeCoroSuspPoint False,
                          writes (''if (iop_'' @ rName @ '' == io2_'' @ rName @ '') {\<newline>''
                                  @ ''status = wuffs_base__make_status(wuffs_base__suspension__short_write);\<newline>''
                                  @ ''goto suspend;\<newline>}\<newline>''
                                  @ ''*iop_'' @ rName @ ''++ = ((uint8_t)('' @ scratch @ ''));\<newline>'')]))
                 else throw errNoSuchBuiltin)
              else throw errNoSuchBuiltin))))"

section \<open>The expression writer of expr.go\<close>

definition isPtr :: "typeExpr \<Rightarrow> bool" where
  "isPtr typ = (Decorator typ = ''nptr'' \<or> Decorator typ = ''ptr'')"

definition privateImplData :: "gen \<Rightarrow> typeExpr \<Rightarrow> ID \<Rightarrow> string M" where
  "privateImplData g typ0 fieldName =
     bind (if isPtr typ0 then deref (Inner typ0) else return typ0) (\<lambda>typ.
       case structMap g (QID typ) of
         Some qid \<Rightarrow>
           if privateDataFields g (fst qid, snd qid, fieldName)
           then return ''private_data'' else return ''private_impl''
       | None \<Rightarrow> return ''private_impl'')"

definition writeExprUnaryOp :: "writer \<Rightarrow> expr \<Rightarrow> nat \<Rightarrow> unit M" where
  "writeExprUnaryOp we n depth =
     (let opName = cOpName (Operator n) in
      if opName = [] then throw (Errorf ''unrecognized operator %q'')
      else seqs [writes opName, weO we (RHS n) False depth])"

definition writeExprRepr :: "writer \<Rightarrow> gen \<Rightarrow> expr option \<Rightarrow> nat \<Rightarrow> unit M" where
  "writeExprRepr we g n0 depth =
     bind (deref n0) (\<lambda>n.
       let isStatus = IsStatus g (MType n);
           op = Operator n
       in bind (if isStatus \<and> (op = Op0 \<or> op = IDDot) \<and> IsDQStrLiteral (Ident n) then
                  bind (if op = IDDot
                        then bind (deref (LHS n)) (\<lambda>l. return (Ident l, Ident n))
                        else return ([], Ident n)) (\<lambda>qid.
                    if statusMap g qid \<noteq> []
                    then seq (writes (statusMap g qid)) (return True)
                    else return False)
                else return False) (\<lambda>done.
            if done then return ()
            else seqs [we n False depth, whenM isStatus (writes ''.repr'')]))"

definition writeExprAs :: "writer \<Rightarrow> gen \<Rightarrow> expr option \<Rightarrow> typeExpr option \<Rightarrow> nat \<Rightarrow> unit M" where
  "writeExprAs we g lhs rhs depth =
     seqs [writes ''(('',
           bind (deref rhs) (\<lambda>typ. writeCTypeName g typ [] []),
           writes '')('',
           weO we lhs False depth,
           writes ''))'']"

definition isSat :: "operator \<Rightarrow> bool" where
  "isSat op = (op = IDXBinaryTildeSatPlus \<or> op = IDXBinaryTildeSatMinus)"

definition isTildeMod :: "operator \<Rightarrow> bool" where
  "isTildeMod op =
     (op = IDXBinaryTildeModPlus \<or> op = IDXBinaryTildeModMinus
      \<or> op = IDXBinaryTildeModStar \<or> op = IDXBinaryTildeModShiftL)"

definition isShift :: "operator \<Rightarrow> bool" where
  "isShift op =
     (op = IDXBinaryTildeModShiftL \<or> op = IDXBinaryShiftL \<or> op = IDXBinaryShiftR)"

definition writeExprBinaryOp :: "writer \<Rightarrow> gen \<Rightarrow> expr \<Rightarrow> nat \<Rightarrow> unit M" where
  "writeExprBinaryOp we g n depth =
     (let op = Operator n in
      if op = IDXBinaryAs then writeExprAs we g (LHS n) (RHSType n) depth
      else
        bind (if isSat op then
                (let uBits = uintBits g (QID (MType n)) in
                 if uBits = 0 then throw (Errorf ''unsupported tilde-operator type %q'')
                 else seq (writes (''wuffs_base__u'' @ showNat uBits @ ''__sat_''
                                   @ (if op \<noteq> IDXBinaryTildeSatPlus then ''sub'' else ''add'')))
                          (return '', ''))
              else return [])
          (\<lambda>opName0.
        bind (if isShift op
              then bind (deref (LHS n)) (\<lambda>lhs. return (ConstValue lhs \<noteq> None))
              else return False)
          (\<lambda>lhsCast.
        let tildeMod = isTildeMod op;
            opName = (if opName0 = [] then cOpName op else opName0)
        in if opName = [] then throw (Errorf ''unrecognized operator %q'')
           else
             seqs [writeb CHR ''('',
                   whenM tildeMod
                     (seqs [writeb CHR ''('', writeCTypeName g (MType n) [] [], writes '')(''  ]),
                   whenM lhsCast
                     (seqs [writes ''(('',
                            bind (deref (LHS n)) (\<lambda>lhs. writeCTypeName g (MType lhs) [] []),
                            writes '')('']),
                   writeExprRepr we g (LHS n) depth,
                   whenM lhsCast (writes ''))''),
                   writes opName,
                   writeExprRepr we g (RHS n) depth,
                   whenM tildeMod (writeb CHR '')''),
                   writeb CHR '')''])))"

text \<open>\<^verbatim>\<open>strings.TrimRight(opName, " ")\<close>.\<close>

definition trimRightSpaces :: "string \<Rightarrow> string" where
  "trimRightSpaces x = rev (dropWhile (\<lambda>c. c = CHR '' '') (rev x))"

definition writeExprAssociativeOp :: "writer \<Rightarrow> expr \<Rightarrow> nat \<Rightarrow> unit M" where
  "writeExprAssociativeOp we n depth =
     (let opName0 = cOpName (Operator n) in
      if opName0 = [] then throw (Errorf ''unrecognized operator %q'')
      else
        (let opName = (if length (Args n) > 3 then trimRightSpaces opName0 @ ''\<newline>''
                       else opName0)
         in seqs [writeb CHR ''('',
                  forEach (Args n) (\<lambda>i oo.
                    seqs [whenM (i \<noteq> 0) (writes opName), we (snd oo) False depth]),
                  writeb CHR '')'']))"

definition writeExprUserDefinedCall :: "writer \<Rightarrow> gen \<Rightarrow> expr \<Rightarrow> nat \<Rightarrow> unit M" where
  "writeExprUserDefinedCall we g n depth =
     bind (deref (LHS n)) (\<lambda>method.
     bind (deref (LHS method)) (\<lambda>recv.
     bind (if isPtr (MType recv)
           then bind (deref (Inner (MType recv))) (\<lambda>t. return (t, []))
           else return (MType recv, ''&''))
       (\<lambda>(recvTyp, addr).
          if Decorator recvTyp \<noteq> []
          then throw (Errorf ''cannot generate user-defined method call %q for receiver type %q'')
          else
            (let qid = QID recvTyp in
             seqs [writes (packagePrefix g qid @ snd qid @ ''__'' @ Ident method @ ''(''),
                   whenM (\<not> IsEtcUtilityType g recvTyp)
                     (seqs [writes addr,
                            we recv False depth,
                            whenM (length (Args n) > 0) (writes '', '')]),
                   writeArgs we (Args n) depth]))))"

text \<open>
  The branch of \<^verbatim>\<open>writeExprOther\<close> for a call of \<^verbatim>\<open>reset\<close> that is not a builtin: the
  receiver is initialized again, and the status is ignored.
\<close>

definition writeExprReset :: "writer \<Rightarrow> gen \<Rightarrow> expr \<Rightarrow> nat \<Rightarrow> unit M" where
  "writeExprReset we g method depth =
     bind (deref (LHS method)) (\<lambda>recv.
     bind (if isPtr (MType recv)
           then bind (deref (Inner (MType recv))) (\<lambda>t. return (t, []))
           else return (MType recv, ''&''))
       (\<lambda>(recvTyp, addr).
          if Decorator recvTyp \<noteq> []
          then throw (Errorf ''cannot generate reset method call %q for receiver type %q'')
          else
            (let qid = QID recvTyp in
             seqs [writes (''wuffs_base__ignore_status('' @ packagePrefix g qid @ snd qid
                           @ ''__initialize('' @ addr),
                   we recv False depth,
                   writes ('', sizeof ('' @ packagePrefix g qid @ snd qid
                           @ ''), WUFFS_VERSION, 0))'')])))"

definition writeExprOther :: "writer \<Rightarrow> gen \<Rightarrow> expr \<Rightarrow> bool \<Rightarrow> nat \<Rightarrow> unit M" where
  "writeExprOther we g n sideEffectsOnly depth =
     (if Operator n = Op0 then
        (let ident = Ident n in
         if ident = ''this'' then writes ''self''
         else if ident = ''coroutine_resumed'' then
           bind (gets currFunk) (\<lambda>f.
             if FuncCoroutine f
             then writes (''(self->private_impl.'' @ pPrefix @ FuncName f @ ''[0] != 0)'')
             else writes ''false'')
         else if IsDQStrLiteral ident then
           (if statusMap g ([], ident) \<noteq> []
            then seqs [writes ''wuffs_base__make_status('',
                       writes (statusMap g ([], ident)),
                       writes '')'']
            else throw (Errorf ''unrecognized status %s''))
         else
           (case scalarConstsMap g ([], ident) of
              Some c \<Rightarrow> writes (showInt c)
            | None \<Rightarrow>
                seqs [if GlobalIdent n then writes (PKGPREFIX g) else writes vPrefix,
                      writes ident]))
      else if Operator n = IDOpenParen then
        unlessErr errNoSuchBuiltin
          (writeBuiltinCall we g n sideEffectsOnly depth)
          (bind (deref (LHS n)) (\<lambda>method.
             if Ident method = ''reset'' then writeExprReset we g method depth
             else writeExprUserDefinedCall we g n depth))
      else if Operator n = IDOpenBracket then
        seqs [weO we (LHS n) False depth,
              bind (deref (LHS n)) (\<lambda>l. whenM (IsSliceType (MType l)) (writes ''.ptr'')),
              writeb CHR ''['',
              weO we (RHS n) False depth,
              writeb CHR '']'']
      else if Operator n = IDDotDot then
        bind (deref (LHS n)) (\<lambda>lhs.
          let lhsIsArray = IsArrayType (MType lhs);
              mcv = (if lhsIsArray then (case MHS n of None \<Rightarrow> None | Some m \<Rightarrow> ConstValue m)
                     else None);
              rcv = (if lhsIsArray then (case RHS n of None \<Rightarrow> None | Some r \<Rightarrow> ConstValue r)
                     else None);
              mhs = (if mcv \<noteq> None then None else MHS n);
              rhs = (if rcv \<noteq> None then None else RHS n);
              comma = (case (mhs, rhs) of
                         (Some m, Some r) \<Rightarrow>
                           if Operator m \<noteq> Op0 \<and> Operator r \<noteq> Op0 then '',\<newline>'' else '', ''
                       | _ \<Rightarrow> '', '')
          in seqs [(if mhs \<noteq> None \<and> rhs = None then writes ''wuffs_base__slice_u8__subslice_i(''
                    else if mhs = None \<and> rhs \<noteq> None then writes ''wuffs_base__slice_u8__subslice_j(''
                    else if mhs \<noteq> None \<and> rhs \<noteq> None then writes ''wuffs_base__slice_u8__subslice_ij(''
                    else return ()),
                   whenM lhsIsArray
                     (seqs [writes ''wuffs_base__make_slice_u8('',
                            whenM (mcv \<noteq> None) (writeb CHR ''('')]),
                   we lhs False depth,
                   whenM lhsIsArray
                     (seqs [(case mcv of None \<Rightarrow> return ()
                             | Some m \<Rightarrow> seqs [writes '') + '', writes (showInt m)]),
                            writes comma,
                            bind (deref (ArrayLength (MType lhs))) (\<lambda>length0.
                              let length1 = (case rcv of None \<Rightarrow> length0 | Some r \<Rightarrow> r);
                                  length2 = (case mcv of None \<Rightarrow> length1 | Some m \<Rightarrow> length1 - m)
                              in writes (showInt length2)),
                            writeb CHR '')'']),
                   (case mhs of None \<Rightarrow> return ()
                    | Some m \<Rightarrow> seqs [writes comma, we m False depth]),
                   (case rhs of None \<Rightarrow> return ()
                    | Some r \<Rightarrow> seqs [writes comma, we r False depth]),
                   whenM (mhs \<noteq> None \<or> rhs \<noteq> None) (writeb CHR '')'')])
      else if Operator n = IDDot then
        bind (deref (LHS n)) (\<lambda>lhs.
          if Ident lhs = ''args'' then seqs [writes aPrefix, writes (Ident n)]
          else if Operator lhs = Op0 \<and> IsDQStrLiteral (Ident n) then
            (if statusMap g (Ident lhs, Ident n) \<noteq> []
             then seqs [writes ''wuffs_base__make_status('',
                        writes (statusMap g (Ident lhs, Ident n)),
                        writes '')'']
             else throw (Errorf ''unrecognized status %s''))
          else
            seqs [we lhs False depth,
                  (if isPtr (MType lhs) then writes ''->'' else writes ''.''),
                  bind (privateImplData g (MType lhs) (Ident n)) writes,
                  writeb CHR ''.'',
                  writes fPrefix,
                  writes (Ident n)])
      else throw (Errorf ''unrecognized token (0x%X) for writeExprOther''))"

text \<open>
  The body of \<^verbatim>\<open>writeExpr\<close>: the depth test, the increment, the folded constant, and
  the dispatch on the operator class. Every recursive call goes through \<open>we\<close>.
\<close>

definition writeExprBody :: "writer \<Rightarrow> gen \<Rightarrow> expr \<Rightarrow> bool \<Rightarrow> nat \<Rightarrow> unit M" where
  "writeExprBody we g n sideEffectsOnly depth0 =
     (if depth0 > MaxExprDepth g then throw (Errorf ''expression recursion depth too large'')
      else
        (let depth = depth0 + 1 in
         case ConstValue n of
           Some cv \<Rightarrow>
             (let typ = MType n in
              if IsNumTypeOrIdeal g typ then
                seqs [writes (showInt cv), whenM (cv > maxInt64) (writeb CHR ''u'')]
              else if IsNullptr g typ then writes ''NULL''
              else if IsStatus g typ then writes ''wuffs_base__make_status(NULL)''
              else if \<not> IsBool g typ then
                throw (Errorf ''cannot generate C expression for %v constant of type %q'')
              else if cv = zero then writes ''false''
              else if cv = one then writes ''true''
              else throw (Errorf ''%v has type bool but constant value %v is neither 0 or 1''))
         | None \<Rightarrow>
             (let op = Operator n in
              if IsXUnaryOp op then writeExprUnaryOp we n depth
              else if IsXBinaryOp op then writeExprBinaryOp we g n depth
              else if IsXAssociativeOp op then writeExprAssociativeOp we n depth
              else writeExprOther we g n sideEffectsOnly depth)))"

text \<open>
  \<^verbatim>\<open>writeExpr\<close>. The recursion of the Go code is bounded by its own depth test: a call
  at depth \<open>d\<close> recurses only at depth \<open>d + 1\<close> and fails at once when
  \<open>d > MaxExprDepth\<close>. It is therefore defined by recursion on the number of levels
  that remain below the ceiling, \<open>MaxExprDepth + 2 - d\<close>; the level that is never
  reached fails like the depth test does.
\<close>

primrec writeExprLevels :: "nat \<Rightarrow> gen \<Rightarrow> writer" where
  "writeExprLevels 0 g = (\<lambda>n sideEffectsOnly depth.
     throw (Errorf ''expression recursion depth too large''))"
| "writeExprLevels (Suc k) g = (\<lambda>n sideEffectsOnly depth.
     writeExprBody (writeExprLevels k g) g n sideEffectsOnly depth)"

definition writeExpr :: "gen \<Rightarrow> writer" where
  "writeExpr g n sideEffectsOnly depth =
     writeExprLevels (MaxExprDepth g + 2 - depth) g n sideEffectsOnly depth"

section \<open>Concrete trees and a concrete generator\<close>

text \<open>
  Constructors for the nodes that the examples below use: a type of the base package, an
  identifier, a literal with its folded constant, a field selection, a method call
  \<^verbatim>\<open>recv.method(args)\<close> (a call node whose left operand is the selection of the method
  on the receiver) and a slice \<^verbatim>\<open>lhs[mhs .. rhs]\<close>.
\<close>

definition baseType :: "ID \<Rightarrow> typeExpr" where
  "baseType name = TypeExpr [] (''base'', name) None None False"

definition sliceU8 :: typeExpr where
  "sliceU8 = TypeExpr ''slice'' ([], []) None (Some (baseType ''u8'')) False"

definition ptrTo :: "typeExpr \<Rightarrow> typeExpr" where
  "ptrTo t = TypeExpr ''ptr'' ([], []) None (Some t) False"

definition mkIdent :: "ID \<Rightarrow> typeExpr \<Rightarrow> expr" where
  "mkIdent name typ = Expr Op0 name None None None None [] typ None False False"

definition mkConst :: "int \<Rightarrow> typeExpr \<Rightarrow> expr" where
  "mkConst cv typ = Expr Op0 (showInt cv) None None None None [] typ (Some cv) False False"

definition mkDot :: "expr \<Rightarrow> ID \<Rightarrow> typeExpr \<Rightarrow> expr" where
  "mkDot lhs name typ = Expr IDDot name (Some lhs) None None None [] typ None False False"

definition mkCall :: "expr \<Rightarrow> ID \<Rightarrow> (ID \<times> expr) list \<Rightarrow> typeExpr \<Rightarrow> bool \<Rightarrow> expr" where
  "mkCall recv method args typ coroutine =
     Expr IDOpenParen []
       (Some (Expr IDDot method (Some recv) None None None [] typ None False False))
       None None None args typ None coroutine False"

definition mkSlice :: "expr \<Rightarrow> expr option \<Rightarrow> expr option \<Rightarrow> expr" where
  "mkSlice lhs mhs rhs = Expr IDDotDot [] (Some lhs) mhs rhs None [] sliceU8 None False False"

definition mkPlus :: "expr \<Rightarrow> expr \<Rightarrow> expr" where
  "mkPlus l r = Expr IDXBinaryPlus [] (Some l) None (Some r) None [] (MType l) None False False"

text \<open>\<open>k\<close> unary minus signs around \<open>x\<close>.\<close>

primrec nestUnary :: "nat \<Rightarrow> expr \<Rightarrow> expr" where
  "nestUnary 0 x = x"
| "nestUnary (Suc k) x =
     Expr IDXUnaryMinus [] None None (Some (nestUnary k x)) None [] (MType x) None False False"

text \<open>
  A generator for a package \<^verbatim>\<open>test\<close> with the classifications of the base vocabulary:
  the eight numeric types, the CPU-architecture types, \<^verbatim>\<open>sizeof\<close> of the unsigned
  types, and the limits 255 and 10000.
\<close>

definition numTypes :: "ID list" where
  "numTypes = [''i8'', ''i16'', ''i32'', ''i64'', ''u8'', ''u16'', ''u32'', ''u64'']"

definition neonTypes :: "ID list" where
  "neonTypes = [''arm_neon_u8x8'', ''arm_neon_u16x4'', ''arm_neon_u32x2'', ''arm_neon_u64x1'',
                ''arm_neon_u8x16'', ''arm_neon_u16x8'', ''arm_neon_u32x4'', ''arm_neon_u64x2'']"

definition isBase :: "typeExpr \<Rightarrow> ID list \<Rightarrow> bool" where
  "isBase typ names = (Decorator typ = [] \<and> fst (QID typ) = ''base'' \<and> snd (QID typ) \<in> set names)"

definition testGen :: gen where
  "testGen = \<lparr>
     statusMap = (\<lambda>qid. []),
     scalarConstsMap = (\<lambda>qid. None),
     structMap = (\<lambda>qid. None),
     privateDataFields = (\<lambda>qqid. False),
     PKGPREFIX = ''WUFFS_TEST__'',
     pkgPrefix = ''wuffs_test__'',
     MaxExprDepth = 255,
     maxTemp = 10000,
     sizeof = (\<lambda>typ. if isBase typ [''u8''] then Some 1
                     else if isBase typ [''u16''] then Some 2
                     else if isBase typ [''u32''] then Some 4
                     else if isBase typ [''u64''] then Some 8
                     else None),
     uintBits = (\<lambda>qid. if qid = (''base'', ''u8'') then 8
                      else if qid = (''base'', ''u16'') then 16
                      else if qid = (''base'', ''u32'') then 32
                      else if qid = (''base'', ''u64'') then 64
                      else 0),
     IsNumType = (\<lambda>x. x \<in> set numTypes),
     IsBuiltInCPUArch = (\<lambda>x. x \<in> set ([''arm_crc32_utility'', ''arm_crc32_u32'',
                                         ''x86_sse42_utility'', ''x86_m128i''] @ neonTypes)),
     IsBuiltInCPUArchARMNeon = (\<lambda>x. x \<in> set neonTypes),
     IsNumTypeOrIdeal = (\<lambda>typ. isBase typ numTypes),
     IsNullptr = (\<lambda>typ. isBase typ [''nullptr'']),
     IsStatus = (\<lambda>typ. isBase typ [''status'']),
     IsBool = (\<lambda>typ. isBase typ [''bool'']),
     IsIOTokenType = (\<lambda>typ. isBase typ [''io_reader'', ''io_writer'', ''token_reader'', ''token_writer'']),
     IsEtcUtilityType = (\<lambda>typ. isBase typ [''utility'', ''arm_crc32_utility'', ''x86_sse42_utility''])
   \<rparr>"

definition st0 :: st where
  "st0 = \<lparr>currFunk = \<lparr>tempW = 0, usesScratch = False, usesEmptyIOBuffer = False,
                      bPrologue = [], FuncName = ''decode'', FuncCoroutine = True,
                      coroSuspPoint = 0\<rparr>,
          buf = []\<rparr>"

section \<open>Which lowerings need the name of the receiver\<close>

text \<open>
  The dispatch paths of \<^verbatim>\<open>writeBuiltinCall\<close> that call \<^verbatim>\<open>recvName\<close> on the receiver before
  anything is written: \<^verbatim>\<open>set\<close> on a pointer receiver, every method of an I/O reader or
  writer, and the token writer's two token methods and \<^verbatim>\<open>length\<close>.
\<close>

definition needsRecvName :: "gen \<Rightarrow> typeExpr \<Rightarrow> ID \<Rightarrow> bool" where
  "needsRecvName g recvTyp method =
     ((isPtr recvTyp \<and> method = ''set'')
      \<or> (Decorator recvTyp = [] \<and> fst (QID recvTyp) = ''base''
          \<and> \<not> IsNumType g (snd (QID recvTyp)) \<and> \<not> IsBuiltInCPUArch g (snd (QID recvTyp))
          \<and> (snd (QID recvTyp) = ''io_reader'' \<or> snd (QID recvTyp) = ''io_writer''
              \<or> (snd (QID recvTyp) = ''token_writer''
                  \<and> (method = ''write_simple_token_fast'' \<or> method = ''write_extended_token_fast''
                      \<or> method = ''length'')))))"

section \<open>Reading the emitted mask\<close>

text \<open>The number that a C hexadecimal literal with upper-case digits denotes.\<close>

definition hexDigitValue :: "char \<Rightarrow> nat" where
  "hexDigitValue c = length (takeWhile (\<lambda>d. d \<noteq> c) ''0123456789ABCDEF'')"

definition hexValue :: "string \<Rightarrow> nat" where
  "hexValue x = foldl (\<lambda>a c. 16 * a + hexDigitValue c) 0 x"

text \<open>
  Modelled from the spec: \<^verbatim>\<open>WUFFS_BASE__LOW_BITS_MASK__U8\<close>, \<^verbatim>\<open>U16\<close>, \<^verbatim>\<open>U32\<close> and \<^verbatim>\<open>U64\<close>
  are macros of the C runtime library, which is not part of these files. Section 8 gives
  their value: a mask equal to \<^verbatim>\<open>(1<<k)-1\<close>, computed at the width of the receiver.
\<close>

definition LOW_BITS_MASK :: "nat \<Rightarrow> 'a::len word" where
  "LOW_BITS_MASK n = push_bit n 1 - 1"

section \<open>The discipline of a writer\<close>

text \<open>
  The two sentinels are control signals between the writers; every other error is
  reported. A state \<open>extends\<close> another when the output buffer has only been appended
  to, the empty-I/O-buffer flag and the scratch flag have not been cleared, and the
  prologue has grown by the declaration of the empty I/O buffer exactly if that flag
  went from unset to set. A writer is \<open>okS S\<close> when every run of it extends the state
  and, if it ends in a signal, that signal is in \<open>S\<close> and the state is as it was.
  A step is \<open>pureM\<close> when it leaves the state alone and raises no signal.
\<close>

definition signal :: "error \<Rightarrow> bool" where
  "signal e = (e = errNoSuchBuiltin \<or> e = errOptimizationNotApplicable)"

definition extends :: "st \<Rightarrow> st \<Rightarrow> bool" where
  "extends s s' =
     (take (length (buf s)) (buf s') = buf s
      \<and> (usesEmptyIOBuffer (currFunk s) \<longrightarrow> usesEmptyIOBuffer (currFunk s'))
      \<and> bPrologue (currFunk s')
          = bPrologue (currFunk s)
            @ (if \<not> usesEmptyIOBuffer (currFunk s) \<and> usesEmptyIOBuffer (currFunk s')
               then emptyIOBufferDecl else [])
      \<and> (usesScratch (currFunk s) \<longrightarrow> usesScratch (currFunk s')))"

definition okS :: "error set \<Rightarrow> 'a M \<Rightarrow> bool" where
  "okS S m = (\<forall>s. extends s (snd (m s))
                  \<and> (\<forall>e. fst (m s) = Inl e \<longrightarrow> signal e \<longrightarrow> e \<in> S \<and> snd (m s) = s))"

definition pureM :: "'a M \<Rightarrow> bool" where
  "pureM m = (\<forall>s. snd (m s) = s \<and> (\<forall>e. fst (m s) = Inl e \<longrightarrow> \<not> signal e))"

text \<open>
  A call \<^verbatim>\<open>this.foo(r: this.util.empty_io_reader(), w: this.util.empty_io_writer())\<close> of a
  user-defined method of the struct \<^verbatim>\<open>decoder\<close>, with two uses of the empty I/O buffer.
\<close>

definition utilRecv :: expr where
  "utilRecv = mkDot (mkIdent ''this'' (TypeExpr [] ([], ''decoder'') None None False)) ''util''
                 (baseType ''utility'')"

definition twoEmptyBuffers :: expr where
  "twoEmptyBuffers =
     mkCall (mkIdent ''this'' (TypeExpr [] ([], ''decoder'') None None False)) ''foo''
       [(''r'', mkCall utilRecv ''empty_io_reader'' [] (baseType ''io_reader'') False),
        (''w'', mkCall utilRecv ''empty_io_writer'' [] (baseType ''io_writer'') False)]
       (baseType ''empty_struct'') False"

text \<open>
  Calls on a local variable \<^verbatim>\<open>x\<close> of the struct \<^verbatim>\<open>decoder\<close> of the package being
  generated: \<^verbatim>\<open>x.reset()\<close> and a user-defined \<^verbatim>\<open>x.foo()\<close>; and the builtin call
  \<^verbatim>\<open>y.low_bits(n: 3)\<close> on an 8-bit local variable.
\<close>

definition decoderType :: typeExpr where
  "decoderType = TypeExpr [] ([], ''decoder'') None None False"

definition resetCall :: expr where
  "resetCall = mkCall (mkIdent ''x'' decoderType) ''reset'' [] (baseType ''empty_struct'') False"

definition fooCall :: expr where
  "fooCall = mkCall (mkIdent ''x'' decoderType) ''foo'' [] (baseType ''empty_struct'') False"

definition lowBitsCall :: expr where
  "lowBitsCall = mkCall (mkIdent ''y'' (baseType ''u8'')) ''low_bits''
                   [(''n'', mkConst 3 (baseType ''u8''))] (baseType ''u8'') False"

section \<open>The 8-byte copy\<close>




definition genericCopyLowering :: "writer \<Rightarrow> expr \<Rightarrow> (ID \<times> expr) list \<Rightarrow> nat \<Rightarrow> unit M" where
  "genericCopyLowering we recv args depth =
     seqs [writes ''wuffs_base__slice_u8__copy_from_slice('',
           we recv False depth,
           writes '', '',
           writeArgs we args depth]"





text \<open>
  Calls of \<^verbatim>\<open>set\<close> on the pointer argument \<^verbatim>\<open>args.dst\<close>: on a frame config with the
  argument named \<^verbatim>\<open>duration\<close> in first, second and third place, on an image config, on a
  pointer to another type, and a call of another method.
\<close>

definition fcRecv :: expr where
  "fcRecv = mkDot (mkIdent ''args'' (baseType ''u8'')) ''dst'' (ptrTo (baseType ''frame_config''))"

definition icRecv :: expr where
  "icRecv = mkDot (mkIdent ''args'' (baseType ''u8'')) ''dst'' (ptrTo (baseType ''image_config''))"

definition pbRecv :: expr where
  "pbRecv = mkDot (mkIdent ''args'' (baseType ''u8'')) ''dst'' (ptrTo (baseType ''pixel_buffer''))"

definition fcDurationFirst :: expr where
  "fcDurationFirst = mkCall fcRecv ''set'' [(''duration'', mkIdent ''d'' (baseType ''u64''))]
                       (baseType ''empty_struct'') False"

definition fcDurationThird :: expr where
  "fcDurationThird = mkCall fcRecv ''set''
     [(''bounds'', mkIdent ''b'' (baseType ''rect_ie_u32'')),
      (''index'', mkIdent ''i'' (baseType ''u64'')),
      (''duration'', mkIdent ''d'' (baseType ''u64''))]
     (baseType ''empty_struct'') False"

definition fcDurationSecond :: expr where
  "fcDurationSecond = mkCall fcRecv ''set''
     [(''bounds'', mkIdent ''b'' (baseType ''rect_ie_u32'')),
      (''duration'', mkIdent ''d'' (baseType ''u64'')),
      (''index'', mkIdent ''i'' (baseType ''u64''))]
     (baseType ''empty_struct'') False"

definition icSet :: expr where
  "icSet = mkCall icRecv ''set'' [(''width'', mkIdent ''w'' (baseType ''u32''))]
             (baseType ''empty_struct'') False"

definition pbSet :: expr where
  "pbSet = mkCall pbRecv ''set'' [] (baseType ''empty_struct'') False"

definition fcOther :: expr where
  "fcOther = mkCall fcRecv ''foo'' [] (baseType ''empty_struct'') False"

text \<open>
  Suspending calls on the reader argument \<^verbatim>\<open>args.src\<close>: a skip of the constant one, a skip
  of a variable count, and a read of one byte.
\<close>

definition srcReader :: expr where
  "srcReader = mkDot (mkIdent ''args'' (baseType ''u8'')) ''src'' (baseType ''io_reader'')"

definition skipOne :: expr where
  "skipOne = mkCall srcReader ''skip_u32'' [(''n'', mkConst 1 (baseType ''u32''))]
               (baseType ''empty_struct'') True"

definition skipMany :: expr where
  "skipMany = mkCall srcReader ''skip'' [(''n'', mkIdent ''n'' (baseType ''u64''))]
                (baseType ''empty_struct'') True"

definition readByte :: expr where
  "readByte = mkCall srcReader ''read_u8'' [] (baseType ''u8'') True"

text \<open>
  The path of \<^verbatim>\<open>writeBuiltinQuestionCall\<close> to the switch on the methods of an I/O reader:
  a coroutine call whose receiver is an I/O reader with the name \<open>rn\<close>.
\<close>

definition isReaderCall :: "gen \<Rightarrow> expr \<Rightarrow> expr \<Rightarrow> expr \<Rightarrow> string \<Rightarrow> bool" where
  "isReaderCall g n mth recv rn =
     (Operator n = IDOpenParen \<and> Coroutine n \<and> LHS n = Some mth \<and> LHS mth = Some recv
      \<and> IsIOTokenType g (MType recv) \<and> snd (QID (MType recv)) = ''io_reader''
      \<and> recvName recv = Inr rn)"

text \<open>
  What the skip branch prints after its suspension point, for the scratch slot
  \<open>scratch\<close> and the receiver name \<open>rn\<close>.
\<close>

definition skipLoopText :: "string \<Rightarrow> string \<Rightarrow> string" where
  "skipLoopText scratch rn =
     ''if ('' @ scratch @ '' > ((uint64_t)(io2_'' @ rn @ '' - iop_'' @ rn @ ''))) {\<newline>''
     @ scratch @ '' -= ((uint64_t)(io2_'' @ rn @ '' - iop_'' @ rn @ ''));\<newline>''
     @ ''iop_'' @ rn @ '' = io2_'' @ rn @ '';\<newline>''
     @ ''status = wuffs_base__make_status(wuffs_base__suspension__short_read);\<newline>''
     @ ''goto suspend;\<newline>}\<newline>''
     @ ''iop_'' @ rn @ '' += '' @ scratch @ '';\<newline>''"

text \<open>A writer that leaves the function context as it is.\<close>

definition keepsFunk :: "'a M \<Rightarrow> bool" where
  "keepsFunk m = (\<forall>s. currFunk (snd (m s)) = currFunk s)"

text \<open>
  The five shift macros of the token format, \<^verbatim>\<open>WUFFS_BASE__TOKEN__VALUE_MAJOR__SHIFT\<close> and
  the others. The C runtime defines them, not these files; they are parameters here.
\<close>

record tokenLayout =
  VALUE_MAJOR__SHIFT :: nat
  VALUE_MINOR__SHIFT :: nat
  VALUE_EXTENSION__SHIFT :: nat
  CONTINUED__SHIFT :: nat
  LENGTH__SHIFT :: nat

text \<open>The macro that a sub-field is shifted by, its name in the C text and its value.\<close>

datatype shiftName = ShValueMajor | ShValueMinor | ShValueExtension | ShContinued | ShLength

fun macroName :: "shiftName \<Rightarrow> string" where
  "macroName ShValueMajor = ''WUFFS_BASE__TOKEN__VALUE_MAJOR__SHIFT''"
| "macroName ShValueMinor = ''WUFFS_BASE__TOKEN__VALUE_MINOR__SHIFT''"
| "macroName ShValueExtension = ''WUFFS_BASE__TOKEN__VALUE_EXTENSION__SHIFT''"
| "macroName ShContinued = ''WUFFS_BASE__TOKEN__CONTINUED__SHIFT''"
| "macroName ShLength = ''WUFFS_BASE__TOKEN__LENGTH__SHIFT''"

fun shiftOf :: "tokenLayout \<Rightarrow> shiftName \<Rightarrow> nat" where
  "shiftOf L ShValueMajor = VALUE_MAJOR__SHIFT L"
| "shiftOf L ShValueMinor = VALUE_MINOR__SHIFT L"
| "shiftOf L ShValueExtension = VALUE_EXTENSION__SHIFT L"
| "shiftOf L ShContinued = CONTINUED__SHIFT L"
| "shiftOf L ShLength = LENGTH__SHIFT L"

text \<open>
  The token expression as a tree. A sub-field is either the cast of an argument to
  \<^verbatim>\<open>uint64_t\<close> shifted by a macro, or the complement of an argument shifted by a macro.
  \<open>tokenFields\<close> lists the sub-fields that \<^verbatim>\<open>writeBuiltinTokenWriter\<close> prints, in its order:
  the major value unless it is the constant zero, then the minor value, or else the
  complemented extension value; the continuation flag (the last argument but one) unless
  it is the constant zero; the length (the last argument).
\<close>

datatype cfield = CastShl expr shiftName | NotShl expr shiftName

definition tokenFields :: "ID \<Rightarrow> expr list \<Rightarrow> cfield list" where
  "tokenFields mth xs =
     (if mth = ''write_simple_token_fast'' then
        (if notConstZero (xs ! 0) then [CastShl (xs ! 0) ShValueMajor] else [])
        @ [CastShl (xs ! 1) ShValueMinor]
      else [NotShl (xs ! 0) ShValueExtension])
     @ (if notConstZero (xs ! (length xs - 2)) then [CastShl (xs ! (length xs - 2)) ShContinued] else [])
     @ [CastShl (xs ! (length xs - 1)) ShLength]"

text \<open>The C text of the tree, with \<open>argText\<close> giving the text of each argument.\<close>

fun renderField :: "(expr \<Rightarrow> string) \<Rightarrow> cfield \<Rightarrow> string" where
  "renderField argText (CastShl x nm) = ''(((uint64_t)('' @ argText x @ '')) << '' @ macroName nm @ '')''"
| "renderField argText (NotShl x nm) = ''(~'' @ argText x @ '' << '' @ macroName nm @ '')''"

fun joinOr :: "string list \<Rightarrow> string" where
  "joinOr [] = []"
| "joinOr [x] = x"
| "joinOr (x # y # ys) = x @ '' |\<newline>'' @ joinOr (y # ys)"

definition renderToken :: "(expr \<Rightarrow> string) \<Rightarrow> string \<Rightarrow> cfield list \<Rightarrow> string" where
  "renderToken argText rn fs =
     ''*iop_'' @ rn @ ''++ = wuffs_base__make_token(\<newline>'' @ joinOr (map (renderField argText) fs) @ '')''"

text \<open>
  The value of the tree in C, with \<open>val\<close> giving the value of each argument; \<^verbatim>\<open>|\<close> is the
  bitwise or. A cast sub-field \<^verbatim>\<open>(((uint64_t)(arg)) << SHIFT)\<close> is computed at \<^verbatim>\<open>uint64_t\<close>
  whatever the type of the argument. The complement and the shift of \<^verbatim>\<open>(~arg << SHIFT)\<close>
  have the type of the argument, since there is no cast: they are computed at 64 bits for
  an argument that is not a folded constant and has the type \<^verbatim>\<open>base.u64\<close>, which is
  printed as an expression of type \<^verbatim>\<open>uint64_t\<close>. A folded constant is printed as a
  literal, whose type C chooses by its size and whose complement is negative at a signed
  type, where C leaves the shift undefined: the sub-field has no value then, nor for an
  argument of another type.
\<close>

definition isU64 :: "expr \<Rightarrow> bool" where
  "isU64 x = (ConstValue x = None \<and> Decorator (MType x) = [] \<and> QID (MType x) = (''base'', ''u64''))"

fun evalField :: "tokenLayout \<Rightarrow> (expr \<Rightarrow> 64 word) \<Rightarrow> cfield \<Rightarrow> 64 word option" where
  "evalField L val (CastShl x nm) = Some (push_bit (shiftOf L nm) (val x))"
| "evalField L val (NotShl x nm) =
     (if isU64 x then Some (push_bit (shiftOf L nm) (NOT (val x))) else None)"

fun evalFields :: "tokenLayout \<Rightarrow> (expr \<Rightarrow> 64 word) \<Rightarrow> cfield list \<Rightarrow> 64 word option" where
  "evalFields L val [] = Some 0"
| "evalFields L val (f # fs) =
     (case (evalField L val f, evalFields L val fs) of
        (Some a, Some b) \<Rightarrow> Some (a OR b)
      | _ \<Rightarrow> None)"

text \<open>
  A layout whose fields do not overlap, and a call of \<^verbatim>\<open>write_simple_token_fast\<close> on the
  token writer \<^verbatim>\<open>args.dst\<close> with the constants 0, 5, 1 and 10. \<open>exampleVal\<close> gives each
  constant argument the value of its constant and every other argument the value 3.
\<close>

definition exampleLayout :: tokenLayout where
  "exampleLayout = \<lparr>VALUE_MAJOR__SHIFT = 42, VALUE_MINOR__SHIFT = 17, VALUE_EXTENSION__SHIFT = 17,
                   CONTINUED__SHIFT = 16, LENGTH__SHIFT = 0\<rparr>"

definition tokenDst :: expr where
  "tokenDst = mkDot (mkIdent ''args'' (baseType ''u8'')) ''dst'' (baseType ''token_writer'')"

definition simpleTokenArgs :: "(ID \<times> expr) list" where
  "simpleTokenArgs =
     [(''value_major'', mkConst 0 (baseType ''u32'')),
      (''value_minor'', mkConst 5 (baseType ''u32'')),
      (''continued'', mkConst 1 (baseType ''u32'')),
      (''length'', mkConst 10 (baseType ''u32''))]"

definition exampleVal :: "expr \<Rightarrow> 64 word" where
  "exampleVal x = (case ConstValue x of None \<Rightarrow> 3 | Some cv \<Rightarrow> word_of_int cv)"

text \<open>
  The loop that \<^verbatim>\<open>writeReadUxxAsUyy\<close> prints, as a tree: the C expressions and the
  statements of its body. \<open>CScratch\<close> is \<^verbatim>\<open>*scratch\<close>, \<open>CNumBits t\<close> the counter
  \<^verbatim>\<open>num_bits_t\<close>, \<open>CNextByte p\<close> the read \<^verbatim>\<open>*iop_p++\<close> of the byte at the cursor, \<open>CCast w e\<close>
  the cast \<^verbatim>\<open>((uintw_t)(e))\<close>; \<open>SCommit t k e\<close> is the statement
  \<^verbatim>\<open>if (num_bits_t == k) { t_t = e; break; }\<close>.
\<close>

datatype cexpr =
    CScratch
  | CNumBits nat
  | CNextByte string
  | CDec nat
  | CHexFF
  | CCast nat cexpr
  | CParen cexpr
  | CAnd cexpr cexpr
  | CShr cexpr cexpr
  | CShl cexpr cexpr
  | CSub cexpr cexpr

datatype cstmt =
    SScratchPtr string
  | SDeclNumBits nat cexpr
  | SShr nat
  | SShl nat
  | SOr cexpr
  | SAddNumBits nat nat
  | SCommit nat nat cexpr

text \<open>
  The meaning of the body in C. The state is the scratch slot (\<^verbatim>\<open>uint64_t\<close>), the counter
  (\<^verbatim>\<open>uint32_t\<close>), the temporary, and the byte at the cursor. A cast to \<^verbatim>\<open>uintw_t\<close> keeps the
  low \<open>w\<close> bits; the difference of the constant 56 and the counter is computed at 32
  bits; a shift moves its 64-bit left operand by the value of its right operand.
  Running a statement gives the new state and whether the loop was left by \<^verbatim>\<open>break\<close>.
\<close>

record cstate =
  scratchV :: "64 word"
  numBitsV :: "32 word"
  tempV :: "64 word"
  inByte :: "8 word"

fun evalE :: "cstate \<Rightarrow> cexpr \<Rightarrow> 64 word" where
  "evalE c CScratch = scratchV c"
| "evalE c (CNumBits t) = ucast (numBitsV c)"
| "evalE c (CNextByte p) = ucast (inByte c)"
| "evalE c (CDec k) = of_nat k"
| "evalE c CHexFF = 255"
| "evalE c (CCast w e) = take_bit w (evalE c e)"
| "evalE c (CParen e) = evalE c e"
| "evalE c (CAnd a b) = evalE c a AND evalE c b"
| "evalE c (CShr a b) = drop_bit (unat (evalE c b)) (evalE c a)"
| "evalE c (CShl a b) = push_bit (unat (evalE c b)) (evalE c a)"
| "evalE c (CSub a b) = take_bit 32 (evalE c a - evalE c b)"

fun execS :: "cstmt \<Rightarrow> cstate \<Rightarrow> cstate \<times> bool" where
  "execS (SScratchPtr nm) c = (c, False)"
| "execS (SDeclNumBits t e) c = (c\<lparr>numBitsV := ucast (evalE c e)\<rparr>, False)"
| "execS (SShr k) c = (c\<lparr>scratchV := drop_bit k (scratchV c)\<rparr>, False)"
| "execS (SShl k) c = (c\<lparr>scratchV := push_bit k (scratchV c)\<rparr>, False)"
| "execS (SOr e) c = (c\<lparr>scratchV := scratchV c OR evalE c e\<rparr>, False)"
| "execS (SAddNumBits t k) c = (c\<lparr>numBitsV := numBitsV c + of_nat k\<rparr>, False)"
| "execS (SCommit t k e) c =
     (if numBitsV c = of_nat k then (c\<lparr>tempV := evalE c e\<rparr>, True) else (c, False))"

fun execBody :: "cstmt list \<Rightarrow> cstate \<Rightarrow> cstate \<times> bool" where
  "execBody [] c = (c, False)"
| "execBody (x # xs) c =
     (case execS x c of (c', True) \<Rightarrow> (c', True) | (c', False) \<Rightarrow> execBody xs c')"

text \<open>
  The body of the loop after its test for an available byte, for the scratch slot
  \<open>scratch\<close>, the receiver name \<open>preName\<close>, the temporary \<open>temp\<close>, the widths \<open>xx\<close> and \<open>yy\<close>
  and the endianness.
\<close>

definition loopBody :: "string \<Rightarrow> string \<Rightarrow> nat \<Rightarrow> nat \<Rightarrow> nat \<Rightarrow> char \<Rightarrow> cstmt list" where
  "loopBody scratch preName temp xx yy endianness =
     [SScratchPtr scratch,
      SDeclNumBits temp
        (CCast 32 (if endianness = CHR ''b'' then CAnd CScratch CHexFF
                   else CShr CScratch (CDec 56))),
      (if endianness = CHR ''b'' then SShr 8 else SShl 8),
      (if endianness = CHR ''b'' then SShl 8 else SShr 8),
      SOr (CShl (CCast 64 (CNextByte preName))
             (if endianness = CHR ''b'' then CParen (CSub (CDec 56) (CNumBits temp))
              else CNumBits temp)),
      SCommit temp (xx - 8)
        (CCast yy (if endianness = CHR ''b'' then CShr CScratch (CDec (64 - xx)) else CScratch)),
      SAddNumBits temp 8,
      SOr (if endianness = CHR ''b'' then CCast 64 (CNumBits temp)
           else CShl (CCast 64 (CNumBits temp)) (CDec 56))]"

text \<open>
  One pass of the loop over a byte either commits a value (\<open>Done\<close>) or goes on with a new
  scratch slot (\<open>More\<close>). One invocation of the generated function runs the loop on the
  bytes available to it; when they are used up it suspends with the short-read status
  and the scratch slot as it is. Modelled from the spec: a later invocation re-enters at
  the suspension point, which is before the loop and after the assignment of 0 to the
  scratch slot, and finds the scratch slot as the earlier invocation left it (section
  4.3). \<open>resume\<close> runs the invocations on the lists of bytes available to each.
\<close>

datatype outcome = More "64 word" | Done "64 word"

definition loopIter :: "cstmt list \<Rightarrow> 64 word \<Rightarrow> 8 word \<Rightarrow> outcome" where
  "loopIter body scratch byte =
     (case execBody body \<lparr>scratchV = scratch, numBitsV = 0, tempV = 0, inByte = byte\<rparr> of
        (c, True) \<Rightarrow> Done (tempV c)
      | (c, False) \<Rightarrow> More (scratchV c))"

fun runChunk :: "cstmt list \<Rightarrow> 64 word \<Rightarrow> 8 word list \<Rightarrow> outcome" where
  "runChunk body S [] = More S"
| "runChunk body S (b # bs) =
     (case loopIter body S b of Done v \<Rightarrow> Done v | More S' \<Rightarrow> runChunk body S' bs)"

fun resume :: "cstmt list \<Rightarrow> 64 word \<Rightarrow> 8 word list list \<Rightarrow> outcome" where
  "resume body S [] = More S"
| "resume body S (c # cs) =
     (case runChunk body S c of Done v \<Rightarrow> Done v | More S' \<Rightarrow> resume body S' cs)"

text \<open>
  Modelled from the spec: \<^verbatim>\<open>wuffs_base__peek_uXXbe__no_bounds_check\<close> and
  \<^verbatim>\<open>wuffs_base__peek_uXXle__no_bounds_check\<close> belong to the C runtime. They read the first
  \<open>XX / 8\<close> bytes at the cursor as a big-endian and as a little-endian number.
\<close>

definition peekBE :: "8 word list \<Rightarrow> 64 word" where
  "peekBE bs = foldl (\<lambda>acc b. push_bit 8 acc OR ucast b) 0 bs"

fun peekLE :: "8 word list \<Rightarrow> 64 word" where
  "peekLE [] = 0"
| "peekLE (b # bs) = ucast b OR push_bit 8 (peekLE bs)"

definition peek :: "char \<Rightarrow> nat \<Rightarrow> 8 word list \<Rightarrow> 64 word" where
  "peek endianness k bs = (if endianness = CHR ''b'' then peekBE (take k bs) else peekLE (take k bs))"

text \<open>
  The whole read, on the lists of bytes available at each invocation. The first
  invocation takes the fast path when \<open>xx / 8\<close> bytes are available: one peek, cast to
  \<^verbatim>\<open>uintyy_t\<close> when the widths differ. Otherwise it assigns 0 to the scratch slot and
  enters the loop, which the later invocations resume.
\<close>

definition readUxx ::
  "string \<Rightarrow> string \<Rightarrow> nat \<Rightarrow> nat \<Rightarrow> nat \<Rightarrow> char \<Rightarrow> 8 word list list \<Rightarrow> outcome" where
  "readUxx scratch preName temp xx yy endianness chunks =
     (case chunks of
        [] \<Rightarrow> More 0
      | c # cs \<Rightarrow>
          if xx div 8 \<le> length c
          then Done (if xx \<noteq> yy then take_bit yy (peek endianness (xx div 8) c)
                     else peek endianness (xx div 8) c)
          else resume (loopBody scratch preName temp xx yy endianness) 0 (c # cs))"

text \<open>
  The scratch slot after the bytes \<open>ds\<close> have been consumed: big-endian, their value in
  the high bits and the count of bits in the low byte; little-endian, their value in
  the low bits and the count of bits in the high byte.
\<close>

definition invBE :: "8 word list \<Rightarrow> 64 word" where
  "invBE ds = push_bit (64 - 8 * length ds) (peekBE ds) OR of_nat (8 * length ds)"

definition invLE :: "8 word list \<Rightarrow> 64 word" where
  "invLE ds = peekLE ds OR push_bit 56 (of_nat (8 * length ds))"

text \<open>
  The C text of the tree.
\<close>

fun renderE :: "cexpr \<Rightarrow> string" where
  "renderE CScratch = ''*scratch''"
| "renderE (CNumBits t) = ''num_bits_'' @ showNat t"
| "renderE (CNextByte p) = ''*'' @ iopPrefix @ p @ ''++''"
| "renderE (CDec k) = showNat k"
| "renderE CHexFF = ''0xFF''"
| "renderE (CCast w e) = ''((uint'' @ showNat w @ ''_t)('' @ renderE e @ ''))''"
| "renderE (CParen e) = ''('' @ renderE e @ '')''"
| "renderE (CAnd a b) = renderE a @ '' & '' @ renderE b"
| "renderE (CShr a b) = renderE a @ '' >> '' @ renderE b"
| "renderE (CShl a b) = renderE a @ '' << '' @ renderE b"
| "renderE (CSub a b) = renderE a @ '' - '' @ renderE b"

fun renderS :: "cstmt \<Rightarrow> string" where
  "renderS (SScratchPtr nm) = ''uint64_t* scratch = &'' @ nm @ '';\<newline>''"
| "renderS (SDeclNumBits t e) = ''uint32_t num_bits_'' @ showNat t @ '' = '' @ renderE e @ '';\<newline>''"
| "renderS (SShr k) = ''*scratch >>= '' @ showNat k @ '';\<newline>''"
| "renderS (SShl k) = ''*scratch <<= '' @ showNat k @ '';\<newline>''"
| "renderS (SOr e) = ''*scratch |= '' @ renderE e @ '';\<newline>''"
| "renderS (SAddNumBits t k) = ''num_bits_'' @ showNat t @ '' += '' @ showNat k @ '';\<newline>''"
| "renderS (SCommit t k e) =
     ''if (num_bits_'' @ showNat t @ '' == '' @ showNat k @ '') {\<newline>''
     @ tPrefix @ showNat t @ '' = '' @ renderE e @ '';\<newline>break;\<newline>}\<newline>''"

definition renderBody :: "cstmt list \<Rightarrow> string" where
  "renderBody xs = concat (map renderS xs)"

text \<open>
  The text of the fast path: the test for \<open>xx / 8\<close> available bytes, the assignment of the
  peek to the temporary, with a cast when the widths differ, and the advance of the
  cursor.
\<close>

definition fastPathText :: "string \<Rightarrow> nat \<Rightarrow> nat \<Rightarrow> nat \<Rightarrow> char \<Rightarrow> string" where
  "fastPathText rn temp xx yy endianness =
     ''if (WUFFS_BASE__LIKELY(io2_'' @ rn @ '' - iop_'' @ rn @ '' >= '' @ showNat (xx div 8)
     @ '')) {\<newline>'' @ tPrefix @ showNat temp @ '' = ''
     @ (if xx \<noteq> yy then ''((uint'' @ showNat yy @ ''_t)('' else [])
     @ ''wuffs_base__peek_u'' @ showNat xx @ [endianness] @ ''e__no_bounds_check(iop_'' @ rn @ '')''
     @ (if xx \<noteq> yy then ''))'' else [])
     @ '';\<newline>iop_'' @ rn @ '' += '' @ showNat (xx div 8) @ '';\<newline>''"

text \<open>
  The call \<^verbatim>\<open>args.src.read_u24be_as_u32?()\<close>.
\<close>

definition readU24 :: expr where
  "readU24 = mkCall srcReader ''read_u24be_as_u32'' [] (baseType ''u32'') True"

section \<open>Running the writers\<close>

lemma bind_return [simp]: "bind (return a) f = f a"
  by (simp add: bind_def return_def)

lemma bind_throw [simp]: "bind (throw e) f = throw e"
  by (simp add: bind_def throw_def)

lemma seq_throw [simp]: "seq (throw e) k = throw e"
  by (simp add: seq_def)

lemma seq_return [simp]: "seq (return ()) k = k"
  by (simp add: seq_def)

lemma lift_Inl [simp]: "lift (Inl e) = throw e"
  by (simp add: lift_def)

lemma lift_Inr [simp]: "lift (Inr a) = return a"
  by (simp add: lift_def)

lemma deref_None [simp]: "deref None = throw (Panic ''nil pointer dereference'')"
  by (simp add: deref_def)

lemma deref_Some [simp]: "deref (Some a) = return a"
  by (simp add: deref_def)

lemma throw_apply: "throw e s = (Inl e, s)"
  by (simp add: throw_def)

lemma return_apply: "return a s = (Inr a, s)"
  by (simp add: return_def)

lemma writes_apply: "writes x s = (Inr (), s\<lparr>buf := buf s @ x\<rparr>)"
  by (simp add: writes_def modify_def)

lemma writeb_apply: "writeb c s = (Inr (), s\<lparr>buf := buf s @ [c]\<rparr>)"
  by (simp add: writeb_def modify_def)

lemma gets_apply: "gets f s = (Inr (f s), s)"
  by (simp add: gets_def)

lemma modify_apply: "modify f s = (Inr (), f s)"
  by (simp add: modify_def)

lemma bind_apply:
  "bind m f s = (case m s of (Inl e, s') \<Rightarrow> (Inl e, s') | (Inr a, s') \<Rightarrow> f a s')"
  by (simp add: bind_def)

lemma seq_apply:
  "seq m k s = (case m s of (Inl e, s') \<Rightarrow> (Inl e, s') | (Inr a, s') \<Rightarrow> k s')"
  by (simp add: seq_def bind_def)

lemma unlessErr_apply:
  "unlessErr e m k s =
     (case m s of (Inl e', s') \<Rightarrow> if e' = e then k s' else (Inl e', s')
                | (Inr u, s') \<Rightarrow> (Inr u, s'))"
  by (simp add: unlessErr_def)

text \<open>
  Congruence rules that keep the simplifier at the head of a block: the continuation of
  a bind and the branches of a conditional are simplified only once they run.
\<close>

lemma bind_weak_cong: "m = m' \<Longrightarrow> bind m f = bind m' f"
  by simp

lemma seq_weak_cong: "m = m' \<Longrightarrow> seq m k = seq m' k"
  by simp

lemma unlessErr_weak_cong: "m = m' \<Longrightarrow> unlessErr e m k = unlessErr e m' k"
  by simp

lemmas lazy_cong = bind_weak_cong seq_weak_cong if_weak_cong unlessErr_weak_cong

text \<open>The equations that run a block on a state, and the definitions of the examples.\<close>

lemmas apply_simps =
  throw_apply return_apply writes_apply writeb_apply gets_apply modify_apply
  bind_apply seq_apply unlessErr_apply

lemmas mk_defs =
  baseType_def sliceU8_def ptrTo_def mkIdent_def mkConst_def mkDot_def mkCall_def
  mkSlice_def mkPlus_def

lemmas gen_defs = testGen_def isBase_def numTypes_def neonTypes_def

lemmas prefix_defs =
  aPrefix_def fPrefix_def pPrefix_def sPrefix_def tPrefix_def vPrefix_def
  io0Prefix_def io1Prefix_def io2Prefix_def iopPrefix_def

section \<open>The recursion of the expression writer\<close>

lemmas leaf_defs = weO_def writeArgs_def

lemmas builtin_defs =
  writeBuiltinIOReader_def writeBuiltinIOWriter_def writeBuiltinTokenWriter_def
  writeBuiltinNumType_def writeBuiltinSliceCopyFromSlice8_def writeBuiltinSlice_def
  writeBuiltinTable_def writeExprDotPtr_def writeBuiltinCPUArchARMCRC32_def
  writeBuiltinCPUArchARMNeon_def writeBuiltinCPUArchX86_def writeBuiltinCPUArch_def
  writeBuiltinCall_def

lemmas expr_defs =
  writeExprUnaryOp_def writeExprRepr_def writeExprAs_def writeExprBinaryOp_def
  writeExprAssociativeOp_def writeExprUserDefinedCall_def writeExprReset_def writeExprOther_def

text \<open>
  The body of \<open>writeExpr\<close> at depth \<open>d\<close> uses its recursive entry point at depth
  \<open>d + 1\<close> only.
\<close>

lemma writeExprBody_cong:
  assumes "\<And>x se. we1 x se (Suc depth0) = we2 x se (Suc depth0)"
  shows "writeExprBody we1 g n se depth0 = writeExprBody we2 g n se depth0"
  unfolding writeExprBody_def expr_defs builtin_defs leaf_defs Let_def
  by (simp only: assms Suc_eq_plus1[symmetric])

lemma writeExprBody_too_deep:
  "depth > MaxExprDepth g \<Longrightarrow>
   writeExprBody we g n se depth = throw (Errorf ''expression recursion depth too large'')"
  by (simp add: writeExprBody_def)

text \<open>The recursion equation of \<open>writeExpr\<close>: the Go function, with itself for \<open>we\<close>.\<close>

lemma writeExpr_unfold:
  "writeExpr g n se depth = writeExprBody (writeExpr g) g n se depth"
proof (cases "depth > MaxExprDepth g")
  case True
  then show ?thesis
    by (cases "MaxExprDepth g + 2 - depth") (simp_all add: writeExpr_def writeExprBody_too_deep)
next
  case False
  then have k: "MaxExprDepth g + 2 - depth = Suc (MaxExprDepth g + 2 - Suc depth)"
    by arith
  have "writeExpr g n se depth
        = writeExprBody (writeExprLevels (MaxExprDepth g + 2 - Suc depth) g) g n se depth"
    by (simp only: writeExpr_def k writeExprLevels.simps)
  also have "\<dots> = writeExprBody (writeExpr g) g n se depth"
    by (rule writeExprBody_cong) (simp add: writeExpr_def)
  finally show ?thesis .
qed

lemma nestUnary_too_deep:
  "MaxExprDepth g < depth + k \<Longrightarrow>
   fst (writeExpr g (nestUnary k x) se depth s)
     = Inl (Errorf ''expression recursion depth too large'')"
proof (induction k arbitrary: depth s se)
  case 0
  then show ?case
    by (subst writeExpr_unfold) (simp add: writeExprBody_too_deep throw_apply)
next
  case (Suc k)
  show ?case
  proof (cases "depth > MaxExprDepth g")
    case True
    then show ?thesis
      by (subst writeExpr_unfold) (simp add: writeExprBody_too_deep throw_apply)
  next
    case False
    have "MaxExprDepth g < Suc depth + k"
      using Suc.prems by simp
    from Suc.IH [OF this]
    have ih: "\<And>s se. fst (writeExpr g (nestUnary k x) se (Suc depth) s)
                 = Inl (Errorf ''expression recursion depth too large'')" .
    show ?thesis
      using False ih [of False "s\<lparr>buf := buf s @ '' - ''\<rparr>"]
      by (subst writeExpr_unfold)
         (auto simp add: writeExprBody_def IsXUnaryOp_def writeExprUnaryOp_def cOpName_def
            weO_def seq_apply writes_apply split: prod.splits sum.splits)
  qed
qed

text \<open>
  C7. The expression writer fails with its reported error, writing nothing, whenever it
  is entered above the depth ceiling; it is its own body applied to itself, and that
  body calls the writer recursively at the next depth only, so no run nests deeper than
  the ceiling allows and the writer returns on every tree; and a tree that nests more
  operators than remain below the ceiling is answered by that error.
\<close>

theorem writeExpr_depth_ceiling:
  "(MaxExprDepth g < depth \<longrightarrow>
      writeExpr g n se depth s = (Inl (Errorf ''expression recursion depth too large''), s))
   \<and> writeExpr g n se depth = writeExprBody (writeExpr g) g n se depth
   \<and> ((\<forall>x se'. we1 x se' (Suc depth) = we2 x se' (Suc depth)) \<longrightarrow>
        writeExprBody we1 g n se depth = writeExprBody we2 g n se depth)
   \<and> (MaxExprDepth g < depth + k \<longrightarrow>
        fst (writeExpr g (nestUnary k x) se depth s)
          = Inl (Errorf ''expression recursion depth too large''))"
proof (intro conjI impI)
  assume "MaxExprDepth g < depth"
  then show "writeExpr g n se depth s = (Inl (Errorf ''expression recursion depth too large''), s)"
    by (subst writeExpr_unfold) (simp add: writeExprBody_too_deep throw_apply)
next
  show "writeExpr g n se depth = writeExprBody (writeExpr g) g n se depth"
    by (rule writeExpr_unfold)
next
  assume "\<forall>x se'. we1 x se' (Suc depth) = we2 x se' (Suc depth)"
  then show "writeExprBody we1 g n se depth = writeExprBody we2 g n se depth"
    by (intro writeExprBody_cong) simp
next
  assume "MaxExprDepth g < depth + k"
  then show "fst (writeExpr g (nestUnary k x) se depth s)
               = Inl (Errorf ''expression recursion depth too large'')"
    by (rule nestUnary_too_deep)
qed

theorem writeExpr_depth_ceiling_witness:
  "MaxExprDepth testGen < 256
   \<and> writeExpr testGen (mkIdent ''x'' (baseType ''u32'')) False 256 st0
       = (Inl (Errorf ''expression recursion depth too large''), st0)
   \<and> (\<forall>x se'. writeExpr testGen x se' (Suc 256) = writeExprLevels 0 testGen x se' (Suc 256))
   \<and> writeExprBody (writeExpr testGen) testGen (mkIdent ''x'' (baseType ''u32'')) False 256
       = writeExprBody (writeExprLevels 0 testGen) testGen (mkIdent ''x'' (baseType ''u32'')) False 256
   \<and> MaxExprDepth testGen < 0 + 256
   \<and> fst (writeExpr testGen (nestUnary 256 (mkIdent ''x'' (baseType ''u32''))) False 0 st0)
       = Inl (Errorf ''expression recursion depth too large'')"
proof -
  have h: "MaxExprDepth testGen < 256"
    by (simp add: testGen_def)
  have h': "MaxExprDepth testGen < 0 + 256"
    by (simp add: testGen_def)
  have a: "\<forall>x se'. writeExpr testGen x se' (Suc 256) = writeExprLevels 0 testGen x se' (Suc 256)"
    by (simp add: writeExpr_def testGen_def)
  have 1: "writeExpr testGen (mkIdent ''x'' (baseType ''u32'')) False 256 st0
             = (Inl (Errorf ''expression recursion depth too large''), st0)"
    using h writeExpr_depth_ceiling [of testGen 256 _ False st0] by blast
  have 2: "writeExprBody (writeExpr testGen) testGen (mkIdent ''x'' (baseType ''u32'')) False 256
       = writeExprBody (writeExprLevels 0 testGen) testGen (mkIdent ''x'' (baseType ''u32'')) False 256"
    using a writeExpr_depth_ceiling
      [of testGen 256 _ False st0 "writeExpr testGen" "writeExprLevels 0 testGen"]
    by blast
  have 3: "fst (writeExpr testGen (nestUnary 256 (mkIdent ''x'' (baseType ''u32''))) False 0 st0)
       = Inl (Errorf ''expression recursion depth too large'')"
    using h' writeExpr_depth_ceiling [of testGen 0 _ False st0 _ _ 256] by blast
  show ?thesis
    using h h' a 1 2 3 by blast
qed

section \<open>The name of the receiver\<close>

lemma recvName_not_signal:
  "recvName recv = Inl e \<Longrightarrow> e \<noteq> errNoSuchBuiltin \<and> e \<noteq> errOptimizationNotApplicable"
  by (auto simp: recvName_def split: if_splits option.splits)

lemma writeBuiltinCall_recvName_error:
  assumes "Operator n = IDOpenParen" "LHS n = Some mth" "LHS mth = Some recv"
    "needsRecvName g (MType recv) (Ident mth)" "recvName recv = Inl e"
  shows "writeBuiltinCall we g n se depth s = (Inl e, s)"
  using assms unfolding needsRecvName_def isPtr_def
  apply (elim disjE conjE)
  apply (simp_all add: writeBuiltinCall_def writeBuiltinIOReader_def writeBuiltinIOWriter_def
      writeBuiltinTokenWriter_def writeBuiltinIO_def Let_def throw_apply cong: lazy_cong)
  done

lemma writeExpr_recvName_error:
  assumes "Operator n = IDOpenParen" "ConstValue n = None" "LHS n = Some mth"
    "LHS mth = Some recv" "needsRecvName g (MType recv) (Ident mth)"
    "recvName recv = Inl e" "depth \<le> MaxExprDepth g"
  shows "writeExpr g n se depth s = (Inl e, s)"
proof -
  have "writeBuiltinCall (writeExpr g) g n se (depth + 1) s = (Inl e, s)"
    using assms by (intro writeBuiltinCall_recvName_error) auto
  moreover have "e \<noteq> errNoSuchBuiltin"
    using assms recvName_not_signal by blast
  ultimately show ?thesis
    using assms
    by (subst writeExpr_unfold)
       (simp add: writeExprBody_def IsXUnaryOp_def IsXBinaryOp_def IsXAssociativeOp_def
          writeExprOther_def unlessErr_apply Let_def cong: lazy_cong)
qed

lemma writeBuiltinQuestionCall_recvName_error:
  assumes "Operator n = IDOpenParen" "Coroutine n" "LHS n = Some mth" "LHS mth = Some recv"
    "IsIOTokenType g (MType recv)" "recvName recv = Inl e"
  shows "writeBuiltinQuestionCall we g n depth s = (Inl e, s)"
  using assms by (simp add: writeBuiltinQuestionCall_def Let_def throw_apply cong: lazy_cong)

text \<open>
  C10. The name of a receiver is the local-variable prefix and the identifier for a bare
  identifier, the argument prefix and the field for a field of \<^verbatim>\<open>args\<close>, and for every
  other shape an error that is neither the not-a-builtin nor the
  optimization-not-applicable sentinel. A builtin call whose lowering needs that name
  (\<open>needsRecvName\<close>) and whose receiver has no name makes the expression writer return
  that error with nothing written, so the user-defined-call fallback is not taken; the
  suspending I/O calls fail in the same way.
\<close>

theorem recvName_shapes:
  "(Operator recv = Op0 \<longrightarrow> recvName recv = Inr (vPrefix @ Ident recv))
   \<and> (Operator recv = IDDot \<and> LHS recv = Some lhs \<and> Operator lhs = Op0 \<and> Ident lhs = ''args''
        \<longrightarrow> recvName recv = Inr (aPrefix @ Ident recv))
   \<and> (Operator recv \<noteq> Op0
        \<and> \<not> (Operator recv = IDDot
              \<and> (\<exists>l. LHS recv = Some l \<and> Operator l = Op0 \<and> Ident l = ''args''))
        \<longrightarrow> (\<exists>e. recvName recv = Inl e \<and> e \<noteq> errNoSuchBuiltin
                  \<and> e \<noteq> errOptimizationNotApplicable))
   \<and> (Operator n = IDOpenParen \<and> ConstValue n = None \<and> LHS n = Some mth
        \<and> LHS mth = Some recv \<and> needsRecvName g (MType recv) (Ident mth)
        \<and> recvName recv = Inl e \<and> depth \<le> MaxExprDepth g
        \<longrightarrow> writeExpr g n se depth s = (Inl e, s))
   \<and> (Operator n = IDOpenParen \<and> Coroutine n \<and> LHS n = Some mth \<and> LHS mth = Some recv
        \<and> IsIOTokenType g (MType recv) \<and> recvName recv = Inl e
        \<longrightarrow> writeBuiltinQuestionCall we g n depth s = (Inl e, s))"
proof (intro conjI impI)
  assume "Operator recv = Op0"
  then show "recvName recv = Inr (vPrefix @ Ident recv)"
    by (simp add: recvName_def)
next
  assume "Operator recv = IDDot \<and> LHS recv = Some lhs \<and> Operator lhs = Op0 \<and> Ident lhs = ''args''"
  then show "recvName recv = Inr (aPrefix @ Ident recv)"
    by (simp add: recvName_def)
next
  assume a: "Operator recv \<noteq> Op0
        \<and> \<not> (Operator recv = IDDot
              \<and> (\<exists>l. LHS recv = Some l \<and> Operator l = Op0 \<and> Ident l = ''args''))"
  then have "\<exists>e. recvName recv = Inl e"
    by (cases "LHS recv") (auto simp: recvName_def)
  then obtain e where "recvName recv = Inl e" ..
  then show "\<exists>e. recvName recv = Inl e \<and> e \<noteq> errNoSuchBuiltin \<and> e \<noteq> errOptimizationNotApplicable"
    using recvName_not_signal by blast
next
  assume "Operator n = IDOpenParen \<and> ConstValue n = None \<and> LHS n = Some mth
        \<and> LHS mth = Some recv \<and> needsRecvName g (MType recv) (Ident mth)
        \<and> recvName recv = Inl e \<and> depth \<le> MaxExprDepth g"
  then show "writeExpr g n se depth s = (Inl e, s)"
    by (intro writeExpr_recvName_error [where mth = mth and recv = recv]) simp_all
next
  assume "Operator n = IDOpenParen \<and> Coroutine n \<and> LHS n = Some mth \<and> LHS mth = Some recv
        \<and> IsIOTokenType g (MType recv) \<and> recvName recv = Inl e"
  then show "writeBuiltinQuestionCall we g n depth s = (Inl e, s)"
    by (intro writeBuiltinQuestionCall_recvName_error [where mth = mth and recv = recv])
       simp_all
qed

theorem recvName_shapes_witness:
  "recvName (mkIdent ''src'' (baseType ''io_reader'')) = Inr ''v_src''
   \<and> recvName (mkDot (mkIdent ''args'' (baseType ''u8'')) ''src'' (baseType ''io_reader''))
       = Inr ''a_src''
   \<and> (\<exists>e. recvName (mkDot (mkIdent ''this'' (baseType ''u8'')) ''src'' (baseType ''io_reader''))
             = Inl e
           \<and> e \<noteq> errNoSuchBuiltin \<and> e \<noteq> errOptimizationNotApplicable)
   \<and> writeExpr testGen
        (mkCall (mkDot (mkIdent ''this'' (baseType ''u8'')) ''src'' (baseType ''io_reader''))
           ''length'' [] (baseType ''u64'') False) False 0 st0
       = (Inl (Errorf ''recvName: cannot cgen a %q expression''), st0)
   \<and> writeBuiltinQuestionCall (writeExpr testGen) testGen
        (mkCall (mkDot (mkIdent ''this'' (baseType ''u8'')) ''src'' (baseType ''io_reader''))
           ''read_u8'' [] (baseType ''u8'') True) 0 st0
       = (Inl (Errorf ''recvName: cannot cgen a %q expression''), st0)"
proof -
  let ?bad = "mkDot (mkIdent ''this'' (baseType ''u8'')) ''src'' (baseType ''io_reader'')"
  let ?m1 = "Expr IDDot ''length'' (Some ?bad) None None None [] (baseType ''u64'') None False False"
  let ?m2 = "Expr IDDot ''read_u8'' (Some ?bad) None None None [] (baseType ''u8'') None False False"
  have bad: "recvName ?bad = Inl (Errorf ''recvName: cannot cgen a %q expression'')"
    by (simp add: recvName_def mkDot_def mkIdent_def)
  have 1: "recvName (mkIdent ''src'' (baseType ''io_reader'')) = Inr ''v_src''"
    using recvName_shapes [where recv = "mkIdent ''src'' (baseType ''io_reader'')"]
    by (simp add: mkIdent_def vPrefix_def)
  have 2: "recvName (mkDot (mkIdent ''args'' (baseType ''u8'')) ''src'' (baseType ''io_reader''))
             = Inr ''a_src''"
    using recvName_shapes
      [where recv = "mkDot (mkIdent ''args'' (baseType ''u8'')) ''src'' (baseType ''io_reader'')"
         and lhs = "mkIdent ''args'' (baseType ''u8'')"]
    by (simp add: mkIdent_def mkDot_def aPrefix_def)
  have 3: "\<exists>e. recvName ?bad = Inl e \<and> e \<noteq> errNoSuchBuiltin \<and> e \<noteq> errOptimizationNotApplicable"
    using recvName_shapes [where recv = ?bad]
    by (simp add: mkIdent_def mkDot_def)
  have 4: "writeExpr testGen (mkCall ?bad ''length'' [] (baseType ''u64'') False) False 0 st0
             = (Inl (Errorf ''recvName: cannot cgen a %q expression''), st0)"
    using bad recvName_shapes
      [where recv = ?bad and n = "mkCall ?bad ''length'' [] (baseType ''u64'') False"
         and mth = ?m1 and g = testGen and depth = 0 and se = False and s = st0
         and e = "Errorf ''recvName: cannot cgen a %q expression''"]
    by (simp add: mkCall_def mkDot_def mkIdent_def needsRecvName_def baseType_def testGen_def
          numTypes_def neonTypes_def)
  have 5: "writeBuiltinQuestionCall (writeExpr testGen) testGen
             (mkCall ?bad ''read_u8'' [] (baseType ''u8'') True) 0 st0
             = (Inl (Errorf ''recvName: cannot cgen a %q expression''), st0)"
    using bad recvName_shapes
      [where recv = ?bad and n = "mkCall ?bad ''read_u8'' [] (baseType ''u8'') True"
         and mth = ?m2 and g = testGen and depth = 0 and s = st0
         and we = "writeExpr testGen"
         and e = "Errorf ''recvName: cannot cgen a %q expression''"]
    by (simp add: mkCall_def mkDot_def mkIdent_def baseType_def testGen_def isBase_def)
  show ?thesis
    using 1 2 3 4 5 by blast
qed

section \<open>low_bits\<close>

lemma hexDigitValue_digitChar: "d < 16 \<Longrightarrow> hexDigitValue (digitChar d) = d"
  unfolding eval_nat_numeral BitM.simps less_Suc_eq
  by (elim disjE) (simp_all add: hexDigitValue_def digitChar_def)

lemma hexValue_snoc: "hexValue (x @ [c]) = 16 * hexValue x + hexDigitValue c"
  by (simp add: hexValue_def)

lemma hexValue_showHexUpper: "hexValue (showHexUpper n) = n"
proof (induction n rule: showHexUpper.induct)
  case (1 n)
  show ?case
  proof (cases "n < 16")
    case True
    then show ?thesis
      by (subst showHexUpper.simps) (simp add: hexValue_def hexDigitValue_digitChar)
  next
    case False
    with 1 have "hexValue (showHexUpper (n div 16)) = n div 16"
      by simp
    with False show ?thesis
      by (subst showHexUpper.simps) (simp add: hexValue_snoc hexDigitValue_digitChar)
  qed
qed

lemma LOW_BITS_MASK_eq_mask: "LOW_BITS_MASK n = mask n"
  by (simp add: LOW_BITS_MASK_def mask_eq_exp_minus_1)

lemma unat_LOW_BITS_MASK:
  "n \<le> LENGTH('a) \<Longrightarrow> unat (LOW_BITS_MASK n :: 'a::len word) = 2 ^ n - 1"
proof -
  assume n: "n \<le> LENGTH('a)"
  have "uint (mask n :: 'a word) = mask n"
    using n by (simp add: uint_mask_eq min_def)
  then have "unat (mask n :: 'a word) = nat (2 ^ n - 1)"
    by (simp add: unat_eq_nat_uint mask_eq_exp_minus_1)
  also have "\<dots> = 2 ^ n - 1"
    by (simp add: nat_diff_distrib nat_power_eq)
  finally show ?thesis
    by (simp add: LOW_BITS_MASK_eq_mask)
qed

lemma and_literal_mask: "(r :: 'a::len word) AND (2 ^ n - 1) = take_bit n r"
  by (simp add: take_bit_eq_mask mask_eq_exp_minus_1)

lemma of_nat_literal_mask: "(of_nat (2 ^ n - 1) :: 'a::len word) = 2 ^ n - 1"
  by (simp add: of_nat_diff)

text \<open>
  C4. \<^verbatim>\<open>recv.low_bits(n)\<close>: when \<open>n\<close> is a constant between 0 and 64 the lowering is
  the receiver, \<^verbatim>\<open>&\<close>, and the hexadecimal literal of \<open>2 ^ n - 1\<close>; the literal reads back
  as that number, and masking a 64-bit value with it keeps the low \<open>n\<close> bits. For any
  other argument the lowering is the receiver, \<^verbatim>\<open>&\<close>, and a call of the mask macro
  named after eight times the receiver's size, applied to the lowered argument. The
  macro, at width \<open>w\<close>, is \<open>2 ^ k - 1\<close> for every \<open>k\<close> from 0 to \<open>w\<close>.
\<close>

theorem low_bits_lowering:
  "(ConstValue x = Some cv \<and> 0 \<le> cv \<and> cv \<le> 64 \<longrightarrow>
      writeBuiltinNumType we g recv ''low_bits'' ((nm, x) # rest) depth
        = seqs [writes ''(('', we recv False depth, writes '') & '',
                writes (''0x'' @ showHexUpper (2 ^ nat cv - 1)), writes '')'']
      \<and> hexValue (showHexUpper (2 ^ nat cv - 1)) = 2 ^ nat cv - 1
      \<and> (r :: 64 word) AND of_nat (hexValue (showHexUpper (2 ^ nat cv - 1))) = take_bit (nat cv) r)
   \<and> ((ConstValue x = None \<or> (\<exists>cv. ConstValue x = Some cv \<and> (cv < 0 \<or> 64 < cv)))
        \<and> sizeof g (MType recv) = Some sz \<longrightarrow>
      writeBuiltinNumType we g recv ''low_bits'' ((nm, x) # rest) depth
        = seqs [writes ''(('', we recv False depth, writes '') & '',
                seqs [writes (''WUFFS_BASE__LOW_BITS_MASK__U'' @ showNat (8 * sz) @ ''(''),
                      we x False depth, writes '')''],
                writes '')''])
   \<and> (k \<le> LENGTH('a) \<longrightarrow> unat (LOW_BITS_MASK k :: 'a::len word) = 2 ^ k - 1)"
proof (intro conjI impI)
  assume a: "ConstValue x = Some cv \<and> 0 \<le> cv \<and> cv \<le> 64"
  then show "writeBuiltinNumType we g recv ''low_bits'' ((nm, x) # rest) depth
        = seqs [writes ''(('', we recv False depth, writes '') & '',
                writes (''0x'' @ showHexUpper (2 ^ nat cv - 1)), writes '')'']"
    by (simp add: writeBuiltinNumType_def argValue_def elemAt_def sixtyFour_def)
  show "hexValue (showHexUpper (2 ^ nat cv - 1)) = 2 ^ nat cv - 1"
    by (rule hexValue_showHexUpper)
  show "(r :: 64 word) AND of_nat (hexValue (showHexUpper (2 ^ nat cv - 1))) = take_bit (nat cv) r"
    by (simp only: hexValue_showHexUpper of_nat_literal_mask and_literal_mask)
next
  assume a: "(ConstValue x = None \<or> (\<exists>cv. ConstValue x = Some cv \<and> (cv < 0 \<or> 64 < cv)))
        \<and> sizeof g (MType recv) = Some sz"
  then show "writeBuiltinNumType we g recv ''low_bits'' ((nm, x) # rest) depth
        = seqs [writes ''(('', we recv False depth, writes '') & '',
                seqs [writes (''WUFFS_BASE__LOW_BITS_MASK__U'' @ showNat (8 * sz) @ ''(''),
                      we x False depth, writes '')''],
                writes '')'']"
    by (auto simp: writeBuiltinNumType_def argValue_def elemAt_def sixtyFour_def sizeofM_def)
next
  assume "k \<le> LENGTH('a)"
  then show "unat (LOW_BITS_MASK k :: 'a::len word) = 2 ^ k - 1"
    by (rule unat_LOW_BITS_MASK)
qed

text \<open>
  \<^verbatim>\<open>x.low_bits(n: 3)\<close> on an 8-bit receiver is \<^verbatim>\<open>((v_x) & 0x7)\<close>, and \<^verbatim>\<open>x.low_bits(n: k)\<close>
  on a 32-bit receiver calls the 32-bit mask macro.
\<close>

theorem low_bits_lowering_witness:
  "writeBuiltinNumType (writeExpr testGen) testGen (mkIdent ''x'' (baseType ''u8'')) ''low_bits''
      [(''n'', mkConst 3 (baseType ''u8''))] 1 st0
     = (Inr (), st0\<lparr>buf := ''((v_x) & 0x7)''\<rparr>)
   \<and> hexValue (showHexUpper (2 ^ nat 3 - 1)) = 2 ^ nat 3 - 1
   \<and> (0xAB :: 64 word) AND of_nat (hexValue (showHexUpper (2 ^ nat 3 - 1))) = take_bit (nat 3) 0xAB
   \<and> writeBuiltinNumType (writeExpr testGen) testGen (mkIdent ''x'' (baseType ''u32'')) ''low_bits''
      [(''n'', mkIdent ''k'' (baseType ''u32''))] 1 st0
     = (Inr (), st0\<lparr>buf := ''((v_x) & WUFFS_BASE__LOW_BITS_MASK__U32(v_k))''\<rparr>)
   \<and> unat (LOW_BITS_MASK 32 :: 32 word) = 2 ^ 32 - 1"
proof -
  have c: "ConstValue (mkConst 3 (baseType ''u8'')) = Some 3 \<and> (0::int) \<le> 3 \<and> (3::int) \<le> 64"
    by (simp add: mkConst_def)
  note t1 = low_bits_lowering
    [where x = "mkConst 3 (baseType ''u8'')" and cv = 3 and we = "writeExpr testGen"
       and g = testGen and recv = "mkIdent ''x'' (baseType ''u8'')" and nm = "''n''"
       and rest = "[]" and depth = 1 and r = "0xAB", THEN conjunct1, rule_format, OF c]
  have 1: "writeBuiltinNumType (writeExpr testGen) testGen (mkIdent ''x'' (baseType ''u8''))
             ''low_bits'' [(''n'', mkConst 3 (baseType ''u8''))] 1 st0
           = (Inr (), st0\<lparr>buf := ''((v_x) & 0x7)''\<rparr>)"
    by (subst t1 [THEN conjunct1])
       (simp add: writeExpr_unfold writeExprBody_def writeExprOther_def
          IsXUnaryOp_def IsXBinaryOp_def IsXAssociativeOp_def IsDQStrLiteral_def Let_def
          apply_simps mk_defs gen_defs prefix_defs st0_def showHexUpper.simps digitChar_def
          cong: lazy_cong)
  have n: "(ConstValue (mkIdent ''k'' (baseType ''u32'')) = None
            \<or> (\<exists>cv. ConstValue (mkIdent ''k'' (baseType ''u32'')) = Some cv \<and> (cv < 0 \<or> 64 < cv)))
           \<and> sizeof testGen (MType (mkIdent ''x'' (baseType ''u32''))) = Some 4"
    by (simp add: mk_defs gen_defs)
  note t2 = low_bits_lowering
    [where x = "mkIdent ''k'' (baseType ''u32'')" and we = "writeExpr testGen"
       and g = testGen and recv = "mkIdent ''x'' (baseType ''u32'')" and nm = "''n''"
       and rest = "[]" and depth = 1 and sz = 4, THEN conjunct2, THEN conjunct1, rule_format, OF n]
  have 2: "writeBuiltinNumType (writeExpr testGen) testGen (mkIdent ''x'' (baseType ''u32''))
             ''low_bits'' [(''n'', mkIdent ''k'' (baseType ''u32''))] 1 st0
           = (Inr (), st0\<lparr>buf := ''((v_x) & WUFFS_BASE__LOW_BITS_MASK__U32(v_k))''\<rparr>)"
    by (subst t2)
       (simp add: writeExpr_unfold writeExprBody_def writeExprOther_def
          IsXUnaryOp_def IsXBinaryOp_def IsXAssociativeOp_def IsDQStrLiteral_def Let_def
          apply_simps mk_defs gen_defs prefix_defs st0_def showNat.simps digitChar_def
          cong: lazy_cong)
  have 3: "unat (LOW_BITS_MASK 32 :: 32 word) = 2 ^ 32 - 1"
    using low_bits_lowering [where k = 32 and 'a = 32, THEN conjunct2, THEN conjunct2]
    by simp
  show ?thesis
    using 1 2 3 t1 [THEN conjunct2] by blast
qed

section \<open>Every writer extends the state and keeps its signals\<close>

lemma extends_refl [simp]: "extends s s"
  by (simp add: extends_def)

lemma extends_trans: "extends s s1 \<Longrightarrow> extends s1 s2 \<Longrightarrow> extends s s2"
  unfolding extends_def
  apply (intro conjI)
     apply (metis append_eq_conv_conj append.assoc append_take_drop_id)
    apply blast
   apply (auto split: if_splits)
  done

lemma okS_mono: "okS S m \<Longrightarrow> S \<subseteq> S' \<Longrightarrow> okS S' m"
  unfolding okS_def by blast

lemma okS_return: "okS S (return a)"
  by (simp add: okS_def return_apply)

lemma okS_throw_Errorf: "okS S (throw (Errorf x))"
  by (simp add: okS_def throw_apply signal_def)

lemma okS_throw_Panic: "okS S (throw (Panic x))"
  by (simp add: okS_def throw_apply signal_def)

lemma okS_throw_in: "e \<in> S \<Longrightarrow> okS S (throw e)"
  by (simp add: okS_def throw_apply)

lemma okS_writes: "okS S (writes x)"
  by (simp add: okS_def writes_apply extends_def)

lemma okS_writeb: "okS S (writeb c)"
  by (simp add: okS_def writeb_apply extends_def)

lemma okS_bind: "okS S m \<Longrightarrow> (\<And>a. okS {} (f a)) \<Longrightarrow> okS S (bind m f)"
proof -
  assume m: "okS S m" and f: "\<And>a. okS {} (f a)"
  show ?thesis
    unfolding okS_def
  proof (intro allI)
    fix s
    obtain r s1 where ms: "m s = (r, s1)" by (cases "m s")
    from m ms have e1: "extends s s1"
      and sig: "\<And>e. r = Inl e \<Longrightarrow> signal e \<Longrightarrow> e \<in> S \<and> s1 = s"
      unfolding okS_def by (metis snd_conv, metis fst_conv snd_conv)
    show "extends s (snd (bind m f s)) \<and>
          (\<forall>e. fst (bind m f s) = Inl e \<longrightarrow> signal e \<longrightarrow> e \<in> S \<and> snd (bind m f s) = s)"
    proof (cases r)
      case (Inl e)
      then show ?thesis using ms e1 sig by (simp add: bind_apply)
    next
      case (Inr a)
      from f [of a] have "extends s1 (snd (f a s1))"
        and "\<And>e. fst (f a s1) = Inl e \<Longrightarrow> \<not> signal e"
        unfolding okS_def by blast+
      then show ?thesis using ms Inr e1 by (auto simp: bind_apply intro: extends_trans)
    qed
  qed
qed

lemma okS_seq: "okS S m \<Longrightarrow> okS {} k \<Longrightarrow> okS S (seq m k)"
  unfolding seq_def by (rule okS_bind)

lemma okS_seqs_Nil: "okS S (seqs [])"
  by (simp add: okS_return)

lemma okS_seqs_Cons: "okS S m \<Longrightarrow> okS {} (seqs ms) \<Longrightarrow> okS S (seqs (m # ms))"
  by (simp add: okS_seq)

lemma okS_bind_pure: "pureM m \<Longrightarrow> (\<And>a. okS S (f a)) \<Longrightarrow> okS S (bind m f)"
proof -
  assume m: "pureM m" and f: "\<And>a. okS S (f a)"
  show ?thesis
    unfolding okS_def
  proof (intro allI)
    fix s
    obtain r s1 where ms: "m s = (r, s1)" by (cases "m s")
    from m ms have e1: "s1 = s" and sig: "\<And>e. r = Inl e \<Longrightarrow> \<not> signal e"
      unfolding pureM_def by (metis snd_conv, metis fst_conv)
    show "extends s (snd (bind m f s)) \<and>
          (\<forall>e. fst (bind m f s) = Inl e \<longrightarrow> signal e \<longrightarrow> e \<in> S \<and> snd (bind m f s) = s)"
    proof (cases r)
      case (Inl e)
      then show ?thesis using ms e1 sig by (simp add: bind_apply)
    next
      case (Inr a)
      from f [of a] show ?thesis using ms Inr e1 by (simp add: bind_apply okS_def)
    qed
  qed
qed

lemma pureM_deref: "pureM (deref x)"
  by (cases x) (simp_all add: pureM_def throw_apply return_apply signal_def)

lemma recvName_not_signal': "recvName recv = Inl e \<Longrightarrow> \<not> signal e"
  using recvName_not_signal by (auto simp: signal_def)

lemma pureM_lift_recvName: "pureM (lift (recvName r))"
  by (cases "recvName r") (auto simp: pureM_def throw_apply return_apply dest: recvName_not_signal')

lemma pureM_argValue: "pureM (argValue args i)"
  by (simp add: pureM_def argValue_def elemAt_def throw_apply return_apply signal_def)

lemma pureM_gets: "pureM (gets f)"
  by (simp add: pureM_def gets_apply)

lemmas okS_bind_deref = okS_bind_pure [OF pureM_deref]
lemmas okS_bind_recvName = okS_bind_pure [OF pureM_lift_recvName]
lemmas okS_bind_argValue = okS_bind_pure [OF pureM_argValue]
lemmas okS_bind_gets = okS_bind_pure [OF pureM_gets]

lemma okS_if: "okS S a \<Longrightarrow> okS S b \<Longrightarrow> okS S (if c then a else b)"
  by simp

lemma okS_whenM: "okS S m \<Longrightarrow> okS S (whenM c m)"
  by (simp add: whenM_def okS_return)

lemma okS_case_option: "okS S a \<Longrightarrow> (\<And>y. okS S (b y)) \<Longrightarrow> okS S (case x of None \<Rightarrow> a | Some y \<Rightarrow> b y)"
  by (cases x) simp_all

lemma okS_case_prod: "(\<And>a b. okS S (f a b)) \<Longrightarrow> okS S (case p of (a, b) \<Rightarrow> f a b)"
  by (cases p) simp

lemma okS_seqs_map: "(\<And>x. okS {} (f x)) \<Longrightarrow> okS S (seqs (map f xs))"
proof (induction xs arbitrary: S)
  case Nil
  show ?case by (simp add: okS_return)
next
  case (Cons x xs)
  have "okS S (f x)" using Cons.prems [of x] by (rule okS_mono) simp
  then show ?case using Cons.IH [OF Cons.prems] by (simp add: okS_seq)
qed

lemma okS_forEach: "(\<And>i x. okS {} (f i x)) \<Longrightarrow> okS S (forEach xs f)"
  unfolding forEach_def by (rule okS_seqs_map) (simp add: case_prod_beta)

lemma okS_unlessErr:
  "okS (insert e S) m \<Longrightarrow> okS S k \<Longrightarrow> signal e \<Longrightarrow> okS S (unlessErr e m k)"
proof -
  assume m: "okS (insert e S) m" and k: "okS S k" and se: "signal e"
  show ?thesis
    unfolding okS_def
  proof (intro allI)
    fix s
    obtain r s1 where ms: "m s = (r, s1)" by (cases "m s")
    from m ms have e1: "extends s s1"
      and sig: "\<And>e'. r = Inl e' \<Longrightarrow> signal e' \<Longrightarrow> e' \<in> insert e S \<and> s1 = s"
      unfolding okS_def by (metis snd_conv, metis fst_conv snd_conv)
    show "extends s (snd (unlessErr e m k s)) \<and>
          (\<forall>e'. fst (unlessErr e m k s) = Inl e' \<longrightarrow> signal e' \<longrightarrow>
                e' \<in> S \<and> snd (unlessErr e m k s) = s)"
    proof (cases r)
      case (Inr a)
      then show ?thesis using ms e1 by (simp add: unlessErr_apply)
    next
      case (Inl e')
      show ?thesis
      proof (cases "e' = e")
        case False
        then show ?thesis using ms Inl e1 sig [of e'] by (auto simp: unlessErr_apply)
      next
        case True
        have "extends s1 (snd (k s1))"
          and ks: "\<And>e''. fst (k s1) = Inl e'' \<Longrightarrow> signal e'' \<Longrightarrow> e'' \<in> S \<and> snd (k s1) = s1"
          using k unfolding okS_def by blast+
        then have "extends s (snd (k s1))" using e1 extends_trans by blast
        moreover have "\<And>e''. fst (k s1) = Inl e'' \<Longrightarrow> signal e'' \<Longrightarrow> e'' \<in> S \<and> snd (k s1) = s"
        proof -
          fix e'' assume a: "fst (k s1) = Inl e''" "signal e''"
          have "s1 = s" using sig [of e] Inl True se by simp
          then show "e'' \<in> S \<and> snd (k s1) = s"
            using ks [OF a] by simp
        qed
        ultimately show ?thesis using ms Inl True by (simp add: unlessErr_apply)
      qed
    qed
  qed
qed

lemma okS_modify: "(\<And>s. extends s (f s)) \<Longrightarrow> okS S (modify f)"
  by (simp add: okS_def modify_apply)

lemma okS_declareEmptyIOBuffer: "okS S declareEmptyIOBuffer"
  by (simp add: okS_def declareEmptyIOBuffer_def bind_apply gets_apply whenM_def modify_apply
      return_apply extends_def)

lemma okS_setUsesScratch: "okS S setUsesScratch"
  unfolding setUsesScratch_def by (rule okS_modify) (simp add: extends_def)

lemma pureM_sizeofM: "pureM (sizeofM g typ)"
  by (cases "sizeof g typ") (simp_all add: pureM_def sizeofM_def throw_apply return_apply signal_def)

lemma countPointers_not_signal: "countPointers x k = Inl e \<Longrightarrow> \<not> signal e"
  by (induction x k rule: countPointers.induct) (auto simp: signal_def split: if_splits)

lemma pureM_lift_countPointers: "pureM (lift (countPointers x k))"
  by (cases "countPointers x k")
     (auto simp: pureM_def throw_apply return_apply dest: countPointers_not_signal)

lemma matchFoo_not_signal: "matchFooIndexIndexPlus8 n = Inl e \<Longrightarrow> \<not> signal e"
  by (auto simp: matchFooIndexIndexPlus8_def signal_def split: option.splits if_splits)

lemma pureM_lift_matchFoo: "pureM (lift (matchFooIndexIndexPlus8 n))"
  by (cases "matchFooIndexIndexPlus8 n")
     (auto simp: pureM_def throw_apply return_apply dest: matchFoo_not_signal)

lemma okS_pure: "pureM m \<Longrightarrow> okS S m"
  by (simp add: okS_def pureM_def)

lemmas okS_pures =
  okS_pure [OF pureM_deref] okS_pure [OF pureM_lift_recvName] okS_pure [OF pureM_argValue]
  okS_pure [OF pureM_gets] okS_pure [OF pureM_sizeofM] okS_pure [OF pureM_lift_countPointers]
  okS_pure [OF pureM_lift_matchFoo]

lemmas okS_bind_sizeofM = okS_bind_pure [OF pureM_sizeofM]
lemmas okS_bind_countPointers = okS_bind_pure [OF pureM_lift_countPointers]
lemmas okS_bind_matchFoo = okS_bind_pure [OF pureM_lift_matchFoo]

lemmas okS_rules =
  okS_bind_deref okS_bind_recvName okS_bind_argValue okS_bind_gets
  okS_bind_sizeofM okS_bind_countPointers okS_bind_matchFoo
  okS_pures
  okS_return okS_throw_Errorf okS_throw_Panic okS_writes okS_writeb
  okS_declareEmptyIOBuffer okS_setUsesScratch
  okS_seqs_Nil okS_seqs_Cons okS_seq okS_if okS_whenM okS_case_option okS_case_prod
  okS_forEach okS_unlessErr okS_bind

lemma okS_writeArgs:
  assumes we: "\<And>S x se d. okS S (we x se d)"
  shows "okS S (writeArgs we args depth)"
  unfolding writeArgs_def by (intro okS_rules we)

lemma okS_weO:
  assumes we: "\<And>S x se d. okS S (we x se d)"
  shows "okS S (weO we x se depth)"
  unfolding weO_def by (intro okS_rules we)

lemma okS_writeVarName: "okS S (writeVarName a b)"
  unfolding writeVarName_def by (intro okS_rules)

lemma okS_writeArrayLengths: "okS S (writeArrayLengths x)"
proof (induction x arbitrary: S rule: writeArrayLengths.induct)
  case 1
  show ?case by (simp add: okS_return)
next
  case (2 d q al inn r)
  show ?case
  proof (cases "d = ''array''")
    case True
    have "okS {} (writeArrayLengths inn)" using 2 True by simp
    then show ?thesis
      using True by (simp del: seqs.simps) (intro okS_rules)
  next
    case False
    then show ?thesis by (simp add: okS_return)
  qed
qed

lemma okS_writeCTypeName: "okS S (writeCTypeName g n a b)"
  unfolding writeCTypeName_def Let_def
  by (intro okS_rules okS_writeVarName okS_writeArrayLengths)

lemma okS_writeBuiltinIO:
  "errNoSuchBuiltin \<in> S \<Longrightarrow> okS S (writeBuiltinIO recv method args depth)"
  unfolding writeBuiltinIO_def by (intro okS_rules okS_throw_in)

lemma okS_writeBuiltinIOReader:
  assumes we: "\<And>S x se d. okS S (we x se d)" and S: "errNoSuchBuiltin \<in> S"
  shows "okS S (writeBuiltinIOReader we recv method args se depth)"
  unfolding writeBuiltinIOReader_def emptyStructOpen_def emptyStructClose_def
  by (intro okS_rules we okS_writeArgs okS_writeBuiltinIO S)

lemma okS_writeBuiltinIOWriter:
  assumes we: "\<And>S x se d. okS S (we x se d)" and S: "errNoSuchBuiltin \<in> S"
  shows "okS S (writeBuiltinIOWriter we recv method args se depth)"
  unfolding writeBuiltinIOWriter_def emptyStructOpen_def emptyStructClose_def
  by (intro okS_rules we okS_writeArgs okS_writeBuiltinIO S)

lemma okS_writeBuiltinTokenWriter:
  assumes we: "\<And>S x se d. okS S (we x se d)" and S: "errNoSuchBuiltin \<in> S"
  shows "okS S (writeBuiltinTokenWriter we recv method args depth)"
  unfolding writeBuiltinTokenWriter_def
  by (intro okS_rules we okS_writeArgs okS_writeBuiltinIO S)

lemma okS_writeSizeofBits: "okS S (writeSizeofBits g typ)"
  unfolding writeSizeofBits_def by (intro okS_rules)

lemma okS_writeBuiltinNumType:
  assumes we: "\<And>S x se d. okS S (we x se d)" and S: "errNoSuchBuiltin \<in> S"
  shows "okS S (writeBuiltinNumType we g recv method args depth)"
  unfolding writeBuiltinNumType_def
  by (intro okS_rules we okS_writeSizeofBits okS_throw_in S)

lemma okS_writeBuiltinSliceCopyFromSlice8:
  assumes we: "\<And>S x se d. okS S (we x se d)" and S: "errOptimizationNotApplicable \<in> S"
  shows "okS S (writeBuiltinSliceCopyFromSlice8 we recv method args depth)"
  unfolding writeBuiltinSliceCopyFromSlice8_def
  by (intro okS_rules we okS_throw_in S)

lemma okS_writeBuiltinSlice:
  assumes we: "\<And>S x se d. okS S (we x se d)" and S: "errNoSuchBuiltin \<in> S"
  shows "okS S (writeBuiltinSlice we recv method args se depth)"
  unfolding writeBuiltinSlice_def emptyStructOpen_def emptyStructClose_def
  by (intro okS_rules we okS_writeArgs okS_writeBuiltinSliceCopyFromSlice8 okS_throw_in S)
     (simp_all add: signal_def)

lemma okS_writeBuiltinTable:
  assumes we: "\<And>S x se d. okS S (we x se d)" and S: "errNoSuchBuiltin \<in> S"
  shows "okS S (writeBuiltinTable we recv method args se depth)"
  unfolding writeBuiltinTable_def Let_def
  by (intro okS_rules we okS_writeArgs okS_throw_in S)

lemma okS_writeExprDotPtr:
  assumes we: "\<And>S x se d. okS S (we x se d)"
  shows "okS S (writeExprDotPtr we n se depth)"
  unfolding writeExprDotPtr_def
  by (intro okS_rules we)

lemma okS_writeBuiltinCPUArch:
  assumes we: "\<And>S x se d. okS S (we x se d)"
  shows "okS S (writeBuiltinCPUArch we g recv method args se depth)"
  unfolding writeBuiltinCPUArch_def writeBuiltinCPUArchARMCRC32_def writeBuiltinCPUArchARMNeon_def
    writeBuiltinCPUArchX86_def Let_def emptyStructOpen_def emptyStructClose_def
  by (intro okS_rules we okS_writeExprDotPtr)

lemma okS_writeBuiltinCall:
  assumes we: "\<And>S x se d. okS S (we x se d)" and S: "errNoSuchBuiltin \<in> S"
  shows "okS S (writeBuiltinCall we g n se depth)"
  unfolding writeBuiltinCall_def Let_def
  by (intro okS_rules we okS_writeBuiltinSlice okS_writeBuiltinTable okS_writeBuiltinNumType
        okS_writeBuiltinCPUArch okS_writeBuiltinIOReader okS_writeBuiltinIOWriter
        okS_writeBuiltinTokenWriter okS_throw_in S)

lemma okS_privateImplData: "okS S (privateImplData g typ f)"
  unfolding privateImplData_def by (intro okS_rules)

lemma okS_writeExprRepr:
  assumes we: "\<And>S x se d. okS S (we x se d)"
  shows "okS S (writeExprRepr we g n depth)"
  unfolding writeExprRepr_def Let_def by (intro okS_rules we)

lemma okS_writeExprUserDefinedCall:
  assumes we: "\<And>S x se d. okS S (we x se d)"
  shows "okS S (writeExprUserDefinedCall we g n depth)"
  unfolding writeExprUserDefinedCall_def Let_def by (intro okS_rules we okS_writeArgs)

lemma okS_writeExprBody:
  assumes we: "\<And>S x se d. okS S (we x se d)"
  shows "okS S (writeExprBody we g n se depth)"
  unfolding writeExprBody_def writeExprOther_def writeExprUnaryOp_def writeExprBinaryOp_def
    writeExprAs_def writeExprAssociativeOp_def writeExprReset_def Let_def
  by (intro okS_rules we okS_weO okS_writeCTypeName okS_writeExprRepr okS_privateImplData
        okS_writeExprUserDefinedCall okS_writeBuiltinCall)
     (simp_all add: signal_def)

lemma okS_writeExprLevels: "okS S (writeExprLevels k g n se depth)"
proof (induction k arbitrary: S n se depth)
  case 0
  show ?case by (simp add: okS_throw_Errorf)
next
  case (Suc k)
  show ?case
    by (simp only: writeExprLevels.simps) (rule okS_writeExprBody, rule Suc.IH)
qed

lemma okS_writeExpr: "okS S (writeExpr g n se depth)"
  unfolding writeExpr_def by (rule okS_writeExprLevels)

section \<open>The empty I/O buffer\<close>

lemmas eval_defs =
  writeExpr_unfold writeExprBody_def writeExprOther_def writeBuiltinCall_def
  writeExprUserDefinedCall_def writeArgs_def forEach_def
  IsXUnaryOp_def IsXBinaryOp_def IsXAssociativeOp_def IsDQStrLiteral_def Let_def
  whenM_def argValue_def elemAt_def isPtr_def packagePrefix_def
  apply_simps mk_defs gen_defs prefix_defs st0_def

lemma writeBuiltinCall_empty_io:
  assumes "Operator n = IDOpenParen" "LHS n = Some mth" "LHS mth = Some recv"
    "Decorator (MType recv) = []" "QID (MType recv) = (''base'', ''utility'')"
    "\<not> IsNumType g ''utility''" "\<not> IsBuiltInCPUArch g ''utility''"
    "Ident mth = ''empty_io_reader'' \<or> Ident mth = ''empty_io_writer''"
  shows "writeBuiltinCall we g n se depth s =
     (Inr (),
      s\<lparr>currFunk := (if usesEmptyIOBuffer (currFunk s) then currFunk s
                      else (currFunk s)\<lparr>usesEmptyIOBuffer := True,
                             bPrologue := bPrologue (currFunk s) @ emptyIOBufferDecl\<rparr>),
        buf := buf s @ ''&empty_io_buffer''\<rparr>)"
  using assms
  by (auto simp: writeBuiltinCall_def Let_def declareEmptyIOBuffer_def whenM_def apply_simps
        cong: lazy_cong)

lemma writeExpr_prologue:
  "(usesEmptyIOBuffer (currFunk s) \<longrightarrow>
      usesEmptyIOBuffer (currFunk (snd (writeExpr g x se d s)))
      \<and> bPrologue (currFunk (snd (writeExpr g x se d s))) = bPrologue (currFunk s))
   \<and> (\<not> usesEmptyIOBuffer (currFunk s) \<longrightarrow>
      bPrologue (currFunk (snd (writeExpr g x se d s)))
        = bPrologue (currFunk s)
          @ (if usesEmptyIOBuffer (currFunk (snd (writeExpr g x se d s)))
             then emptyIOBufferDecl else []))"
  using okS_writeExpr [of "{}" g x se d]
  unfolding okS_def extends_def by (auto split: if_splits)

lemma run_twoEmptyBuffers:
  "writeExpr testGen twoEmptyBuffers False 0 st0
   = (Inr (), st0\<lparr>currFunk := (currFunk st0)\<lparr>usesEmptyIOBuffer := True,
                                     bPrologue := emptyIOBufferDecl\<rparr>,
                  buf := ''wuffs_test__decoder__foo(&self, &empty_io_buffer, &empty_io_buffer)''\<rparr>)"
  by (simp add: eval_defs twoEmptyBuffers_def utilRecv_def declareEmptyIOBuffer_def
        cong: lazy_cong)

text \<open>
  C9. A call of \<^verbatim>\<open>empty_io_reader\<close> or \<^verbatim>\<open>empty_io_writer\<close> on the utility receiver
  writes \<^verbatim>\<open>&empty_io_buffer\<close> and nothing else to the output; when the flag
  \<open>usesEmptyIOBuffer\<close> is unset it sets the flag and appends the declaration to the
  prologue, and when the flag is set it changes neither. Over a whole run of the
  expression writer on any tree, a flag that is set stays set and the prologue is left
  alone, and from an unset flag the prologue grows by the declaration exactly once if
  the flag ends up set and not at all otherwise.
\<close>

theorem empty_io_buffer_declared_once:
  "(Operator n = IDOpenParen \<and> LHS n = Some mth \<and> LHS mth = Some recv
      \<and> Decorator (MType recv) = [] \<and> QID (MType recv) = (''base'', ''utility'')
      \<and> \<not> IsNumType g ''utility'' \<and> \<not> IsBuiltInCPUArch g ''utility''
      \<and> (Ident mth = ''empty_io_reader'' \<or> Ident mth = ''empty_io_writer'')
    \<longrightarrow> writeBuiltinCall we g n se depth s =
          (Inr (),
           s\<lparr>currFunk := (if usesEmptyIOBuffer (currFunk s) then currFunk s
                           else (currFunk s)\<lparr>usesEmptyIOBuffer := True,
                                  bPrologue := bPrologue (currFunk s) @ emptyIOBufferDecl\<rparr>),
             buf := buf s @ ''&empty_io_buffer''\<rparr>))
   \<and> (usesEmptyIOBuffer (currFunk s) \<longrightarrow>
        usesEmptyIOBuffer (currFunk (snd (writeExpr g x se d s)))
        \<and> bPrologue (currFunk (snd (writeExpr g x se d s))) = bPrologue (currFunk s))
   \<and> (\<not> usesEmptyIOBuffer (currFunk s) \<longrightarrow>
        bPrologue (currFunk (snd (writeExpr g x se d s)))
          = bPrologue (currFunk s)
            @ (if usesEmptyIOBuffer (currFunk (snd (writeExpr g x se d s)))
               then emptyIOBufferDecl else []))"
proof (intro conjI impI)
  assume "Operator n = IDOpenParen \<and> LHS n = Some mth \<and> LHS mth = Some recv
      \<and> Decorator (MType recv) = [] \<and> QID (MType recv) = (''base'', ''utility'')
      \<and> \<not> IsNumType g ''utility'' \<and> \<not> IsBuiltInCPUArch g ''utility''
      \<and> (Ident mth = ''empty_io_reader'' \<or> Ident mth = ''empty_io_writer'')"
  then show "writeBuiltinCall we g n se depth s =
          (Inr (),
           s\<lparr>currFunk := (if usesEmptyIOBuffer (currFunk s) then currFunk s
                           else (currFunk s)\<lparr>usesEmptyIOBuffer := True,
                                  bPrologue := bPrologue (currFunk s) @ emptyIOBufferDecl\<rparr>),
             buf := buf s @ ''&empty_io_buffer''\<rparr>)"
    by (intro writeBuiltinCall_empty_io [where mth = mth and recv = recv]) simp_all
next
  assume "usesEmptyIOBuffer (currFunk s)"
  then show "usesEmptyIOBuffer (currFunk (snd (writeExpr g x se d s)))"
    using writeExpr_prologue [of s g x se d] by blast
next
  assume "usesEmptyIOBuffer (currFunk s)"
  then show "bPrologue (currFunk (snd (writeExpr g x se d s))) = bPrologue (currFunk s)"
    using writeExpr_prologue [of s g x se d] by blast
next
  assume "\<not> usesEmptyIOBuffer (currFunk s)"
  then show "bPrologue (currFunk (snd (writeExpr g x se d s)))
          = bPrologue (currFunk s)
            @ (if usesEmptyIOBuffer (currFunk (snd (writeExpr g x se d s)))
               then emptyIOBufferDecl else [])"
    using writeExpr_prologue [of s g x se d] by blast
qed

text \<open>
  The first use sets the flag and declares the buffer; the tree with two uses leaves
  one declaration in the prologue, and a run that starts with the flag set leaves the
  prologue as it was.
\<close>

theorem empty_io_buffer_declared_once_witness:
  "writeBuiltinCall (writeExpr testGen) testGen
      (mkCall utilRecv ''empty_io_reader'' [] (baseType ''io_reader'') False) False 1 st0
     = (Inr (), st0\<lparr>currFunk := (currFunk st0)\<lparr>usesEmptyIOBuffer := True,
                                       bPrologue := emptyIOBufferDecl\<rparr>,
                    buf := ''&empty_io_buffer''\<rparr>)
   \<and> \<not> usesEmptyIOBuffer (currFunk st0)
   \<and> bPrologue (currFunk (snd (writeExpr testGen twoEmptyBuffers False 0 st0)))
       = emptyIOBufferDecl
   \<and> usesEmptyIOBuffer (currFunk (st0\<lparr>currFunk := (currFunk st0)\<lparr>usesEmptyIOBuffer := True\<rparr>\<rparr>))
   \<and> bPrologue (currFunk (snd (writeExpr testGen twoEmptyBuffers False 0
        (st0\<lparr>currFunk := (currFunk st0)\<lparr>usesEmptyIOBuffer := True\<rparr>\<rparr>)))) = []"
proof -
  let ?n = "mkCall utilRecv ''empty_io_reader'' [] (baseType ''io_reader'') False"
  let ?m = "Expr IDDot ''empty_io_reader'' (Some utilRecv) None None None []
              (baseType ''io_reader'') None False False"
  let ?s1 = "st0\<lparr>currFunk := (currFunk st0)\<lparr>usesEmptyIOBuffer := True\<rparr>\<rparr>"
  have h: "Operator ?n = IDOpenParen \<and> LHS ?n = Some ?m \<and> LHS ?m = Some utilRecv
      \<and> Decorator (MType utilRecv) = [] \<and> QID (MType utilRecv) = (''base'', ''utility'')
      \<and> \<not> IsNumType testGen ''utility'' \<and> \<not> IsBuiltInCPUArch testGen ''utility''
      \<and> (Ident ?m = ''empty_io_reader'' \<or> Ident ?m = ''empty_io_writer'')"
    by (simp add: mk_defs gen_defs utilRecv_def)
  note t = empty_io_buffer_declared_once
    [where n = ?n and mth = ?m and recv = utilRecv and g = testGen
       and we = "writeExpr testGen" and se = False and depth = 1 and s = st0
       and x = twoEmptyBuffers and d = 0]
  have 1: "writeBuiltinCall (writeExpr testGen) testGen ?n False 1 st0
     = (Inr (), st0\<lparr>currFunk := (currFunk st0)\<lparr>usesEmptyIOBuffer := True,
                                       bPrologue := emptyIOBufferDecl\<rparr>,
                    buf := ''&empty_io_buffer''\<rparr>)"
    using t [THEN conjunct1, rule_format, OF h] by (simp add: st0_def)
  have f: "\<not> usesEmptyIOBuffer (currFunk st0)"
    by (simp add: st0_def)
  have 2: "bPrologue (currFunk (snd (writeExpr testGen twoEmptyBuffers False 0 st0)))
             = emptyIOBufferDecl"
    using t [THEN conjunct2, THEN conjunct2, rule_format, OF f]
    unfolding run_twoEmptyBuffers by (simp add: st0_def)
  have f1: "usesEmptyIOBuffer (currFunk ?s1)"
    by simp
  have 3: "bPrologue (currFunk (snd (writeExpr testGen twoEmptyBuffers False 0 ?s1))) = []"
    using empty_io_buffer_declared_once
      [where g = testGen and x = twoEmptyBuffers and se = False and d = 0 and s = ?s1,
       THEN conjunct2, THEN conjunct1, rule_format, OF f1]
    by (simp add: st0_def)
  show ?thesis
    using 1 f 2 f1 3 by blast
qed

section \<open>The dispatcher and its fallback\<close>

lemma writeBuiltinCall_signals:
  "fst (writeBuiltinCall (writeExpr g) g n se d s) = Inl e \<Longrightarrow>
   e \<noteq> errOptimizationNotApplicable
   \<and> (e = errNoSuchBuiltin \<longrightarrow> snd (writeBuiltinCall (writeExpr g) g n se d s) = s)"
proof -
  assume a: "fst (writeBuiltinCall (writeExpr g) g n se d s) = Inl e"
  have "okS {errNoSuchBuiltin} (writeBuiltinCall (writeExpr g) g n se d)"
    by (rule okS_writeBuiltinCall) (rule okS_writeExpr, simp)
  then show ?thesis
    using a unfolding okS_def signal_def by blast
qed

lemma writeBuiltinCall_other_package:
  assumes "Operator n = IDOpenParen" "LHS n = Some mth" "LHS mth = Some recv"
    "Decorator (MType recv) = []" "fst (QID (MType recv)) \<noteq> ''base''"
  shows "writeBuiltinCall we g n se d s = (Inl errNoSuchBuiltin, s)"
  using assms by (simp add: writeBuiltinCall_def Let_def throw_apply cong: lazy_cong)

lemma writeExpr_no_signal:
  "fst (writeExpr g n se d s) \<noteq> Inl errNoSuchBuiltin
   \<and> fst (writeExpr g n se d s) \<noteq> Inl errOptimizationNotApplicable"
  using okS_writeExpr [of "{}" g n se d] unfolding okS_def signal_def by blast

lemma writeExpr_call:
  assumes "Operator n = IDOpenParen" "ConstValue n = None" "d \<le> MaxExprDepth g"
  shows "writeExpr g n se d s =
     unlessErr errNoSuchBuiltin (writeBuiltinCall (writeExpr g) g n se (Suc d))
       (bind (deref (LHS n)) (\<lambda>mth.
          if Ident mth = ''reset'' then writeExprReset (writeExpr g) g mth (Suc d)
          else writeExprUserDefinedCall (writeExpr g) g n (Suc d))) s"
  using assms
  by (subst writeExpr_unfold)
     (simp add: writeExprBody_def IsXUnaryOp_def IsXBinaryOp_def IsXAssociativeOp_def
        writeExprOther_def Let_def cong: lazy_cong)

lemma writeExpr_call_result:
  assumes "Operator n = IDOpenParen" "ConstValue n = None" "d \<le> MaxExprDepth g"
    "writeBuiltinCall (writeExpr g) g n se (Suc d) s = (r, s')" "r \<noteq> Inl errNoSuchBuiltin"
  shows "writeExpr g n se d s = (r, s')"
  using assms(4,5)
  by (subst writeExpr_call [OF assms(1-3)]) (cases r; simp add: unlessErr_apply)

lemma writeExpr_call_fallback:
  assumes "Operator n = IDOpenParen" "ConstValue n = None" "d \<le> MaxExprDepth g"
    "LHS n = Some mth"
    "fst (writeBuiltinCall (writeExpr g) g n se (Suc d) s) = Inl errNoSuchBuiltin"
  shows "writeExpr g n se d s =
     (if Ident mth = ''reset'' then writeExprReset (writeExpr g) g mth (Suc d) s
      else writeExprUserDefinedCall (writeExpr g) g n (Suc d) s)"
proof -
  have "snd (writeBuiltinCall (writeExpr g) g n se (Suc d) s) = s"
    using writeBuiltinCall_signals [OF assms(5)] by simp
  with assms(5) have "writeBuiltinCall (writeExpr g) g n se (Suc d) s = (Inl errNoSuchBuiltin, s)"
    by (metis prod.collapse)
  then show ?thesis
    using assms(4)
    by (subst writeExpr_call [OF assms(1-3)]) (simp add: unlessErr_apply)
qed

lemma run_resetCall:
  "writeExpr testGen resetCall False 0 st0
   = (Inr (), st0\<lparr>buf := ''wuffs_base__ignore_status(wuffs_test__decoder__initialize(&v_x, sizeof (wuffs_test__decoder), WUFFS_VERSION, 0))''\<rparr>)"
  by (simp add: eval_defs resetCall_def decoderType_def writeExprReset_def cong: lazy_cong)

lemma run_resetCall_user:
  "writeExprUserDefinedCall (writeExpr testGen) testGen resetCall (Suc 0) st0
   = (Inr (), st0\<lparr>buf := ''wuffs_test__decoder__reset(&v_x)''\<rparr>)"
  by (simp add: eval_defs resetCall_def decoderType_def cong: lazy_cong)

lemma run_fooCall:
  "writeExpr testGen fooCall False 0 st0
   = (Inr (), st0\<lparr>buf := ''wuffs_test__decoder__foo(&v_x)''\<rparr>)"
  by (simp add: eval_defs fooCall_def decoderType_def cong: lazy_cong)

lemma builtin_resetCall:
  "writeBuiltinCall (writeExpr testGen) testGen resetCall False (Suc 0) st0 = (Inl errNoSuchBuiltin, st0)"
  by (simp add: eval_defs resetCall_def decoderType_def cong: lazy_cong)

lemma run_lowBitsCall_builtin:
  "writeBuiltinCall (writeExpr testGen) testGen lowBitsCall False (Suc 0) st0
   = (Inr (), st0\<lparr>buf := ''((v_y) & 0x7)''\<rparr>)"
  by (simp add: eval_defs lowBitsCall_def writeBuiltinNumType_def sixtyFour_def
        showHexUpper.simps digitChar_def cong: lazy_cong)

text \<open>
  C6, as the claim states it, fails for a call of \<^verbatim>\<open>reset\<close>: the dispatcher answers
  not-a-builtin, and the expression writer does not lower the call as a user-defined
  method call.
\<close>

theorem reset_fallback_counterexample:
  "fst (writeBuiltinCall (writeExpr testGen) testGen resetCall False (Suc 0) st0) = Inl errNoSuchBuiltin
   \<and> writeExpr testGen resetCall False 0 st0
       \<noteq> writeExprUserDefinedCall (writeExpr testGen) testGen resetCall (Suc 0) st0"
  using builtin_resetCall run_resetCall run_resetCall_user by (simp add: st0_def)

text \<open>
  C6, amended. A run of the dispatcher ends in success, in not-a-builtin with the state
  as it was, or in another error, and never in optimization-not-applicable; a receiver
  without decorator whose package is not \<^verbatim>\<open>base\<close> gives not-a-builtin. The expression
  writer never returns either sentinel. On a call node it returns what the dispatcher
  returns, success or error, unless that is not-a-builtin; then it lowers a call of
  \<^verbatim>\<open>reset\<close> to the initialization of the receiver and every other call as a
  user-defined method call.
\<close>

theorem builtin_dispatch_fallback:
  "(\<forall>e. fst (writeBuiltinCall (writeExpr g) g n se d s) = Inl e \<longrightarrow>
        e \<noteq> errOptimizationNotApplicable
        \<and> (e = errNoSuchBuiltin \<longrightarrow> snd (writeBuiltinCall (writeExpr g) g n se d s) = s))
   \<and> (Operator n = IDOpenParen \<and> LHS n = Some mth \<and> LHS mth = Some recv
        \<and> Decorator (MType recv) = [] \<and> fst (QID (MType recv)) \<noteq> ''base''
        \<longrightarrow> writeBuiltinCall we g n se d s = (Inl errNoSuchBuiltin, s))
   \<and> fst (writeExpr g n se d s) \<noteq> Inl errNoSuchBuiltin
   \<and> fst (writeExpr g n se d s) \<noteq> Inl errOptimizationNotApplicable
   \<and> (Operator n = IDOpenParen \<and> ConstValue n = None \<and> d \<le> MaxExprDepth g
        \<and> writeBuiltinCall (writeExpr g) g n se (Suc d) s = (r, s') \<and> r \<noteq> Inl errNoSuchBuiltin
        \<longrightarrow> writeExpr g n se d s = (r, s'))
   \<and> (Operator n = IDOpenParen \<and> ConstValue n = None \<and> d \<le> MaxExprDepth g
        \<and> LHS n = Some mth
        \<and> fst (writeBuiltinCall (writeExpr g) g n se (Suc d) s) = Inl errNoSuchBuiltin
        \<longrightarrow> writeExpr g n se d s =
              (if Ident mth = ''reset'' then writeExprReset (writeExpr g) g mth (Suc d) s
               else writeExprUserDefinedCall (writeExpr g) g n (Suc d) s))"
proof (intro conjI impI allI)
  fix e
  assume "fst (writeBuiltinCall (writeExpr g) g n se d s) = Inl e"
  then show "e \<noteq> errOptimizationNotApplicable"
    and "e = errNoSuchBuiltin \<Longrightarrow> snd (writeBuiltinCall (writeExpr g) g n se d s) = s"
    using writeBuiltinCall_signals by blast+
next
  assume "Operator n = IDOpenParen \<and> LHS n = Some mth \<and> LHS mth = Some recv
        \<and> Decorator (MType recv) = [] \<and> fst (QID (MType recv)) \<noteq> ''base''"
  then show "writeBuiltinCall we g n se d s = (Inl errNoSuchBuiltin, s)"
    by (intro writeBuiltinCall_other_package [where mth = mth and recv = recv]) simp_all
next
  show "fst (writeExpr g n se d s) \<noteq> Inl errNoSuchBuiltin"
    and "fst (writeExpr g n se d s) \<noteq> Inl errOptimizationNotApplicable"
    using writeExpr_no_signal by blast+
next
  assume "Operator n = IDOpenParen \<and> ConstValue n = None \<and> d \<le> MaxExprDepth g
        \<and> writeBuiltinCall (writeExpr g) g n se (Suc d) s = (r, s') \<and> r \<noteq> Inl errNoSuchBuiltin"
  then show "writeExpr g n se d s = (r, s')"
    by (intro writeExpr_call_result) simp_all
next
  assume "Operator n = IDOpenParen \<and> ConstValue n = None \<and> d \<le> MaxExprDepth g
        \<and> LHS n = Some mth
        \<and> fst (writeBuiltinCall (writeExpr g) g n se (Suc d) s) = Inl errNoSuchBuiltin"
  then show "writeExpr g n se d s =
              (if Ident mth = ''reset'' then writeExprReset (writeExpr g) g mth (Suc d) s
               else writeExprUserDefinedCall (writeExpr g) g n (Suc d) s)"
    by (intro writeExpr_call_fallback) simp_all
qed

text \<open>
  \<^verbatim>\<open>x.foo()\<close> is not a builtin and is lowered as a user-defined call, \<^verbatim>\<open>x.reset()\<close> as
  an initialization, and the result of the builtin \<^verbatim>\<open>y.low_bits(n: 3)\<close> is the result
  of the expression writer.
\<close>

theorem builtin_dispatch_fallback_witness:
  "writeBuiltinCall (writeExpr testGen) testGen fooCall False (Suc 0) st0
     = (Inl errNoSuchBuiltin, st0)
   \<and> writeExpr testGen lowBitsCall False 0 st0 = (Inr (), st0\<lparr>buf := ''((v_y) & 0x7)''\<rparr>)
   \<and> writeExpr testGen fooCall False 0 st0
       = writeExprUserDefinedCall (writeExpr testGen) testGen fooCall (Suc 0) st0
   \<and> writeExpr testGen resetCall False 0 st0
       = writeExprReset (writeExpr testGen) testGen
           (Expr IDDot ''reset'' (Some (mkIdent ''x'' decoderType)) None None None []
              (baseType ''empty_struct'') None False False) (Suc 0) st0"
proof -
  let ?x = "mkIdent ''x'' decoderType"
  let ?mf = "Expr IDDot ''foo'' (Some ?x) None None None [] (baseType ''empty_struct'') None False False"
  let ?mr = "Expr IDDot ''reset'' (Some ?x) None None None [] (baseType ''empty_struct'') None False False"
  have h2: "Operator fooCall = IDOpenParen \<and> LHS fooCall = Some ?mf \<and> LHS ?mf = Some ?x
        \<and> Decorator (MType ?x) = [] \<and> fst (QID (MType ?x)) \<noteq> ''base''"
    by (simp add: fooCall_def mk_defs decoderType_def)
  have 1: "writeBuiltinCall (writeExpr testGen) testGen fooCall False (Suc 0) st0
             = (Inl errNoSuchBuiltin, st0)"
    using builtin_dispatch_fallback
      [where n = fooCall and mth = ?mf and recv = ?x and we = "writeExpr testGen"
         and g = testGen and se = False and d = "Suc 0" and s = st0,
       THEN conjunct2, THEN conjunct1, rule_format, OF h2] .
  have h4: "Operator lowBitsCall = IDOpenParen \<and> ConstValue lowBitsCall = None
        \<and> 0 \<le> MaxExprDepth testGen
        \<and> writeBuiltinCall (writeExpr testGen) testGen lowBitsCall False (Suc 0) st0
            = (Inr (), st0\<lparr>buf := ''((v_y) & 0x7)''\<rparr>)
        \<and> (Inr () :: error + unit) \<noteq> Inl errNoSuchBuiltin"
    using run_lowBitsCall_builtin by (simp add: lowBitsCall_def mk_defs)
  have 2: "writeExpr testGen lowBitsCall False 0 st0 = (Inr (), st0\<lparr>buf := ''((v_y) & 0x7)''\<rparr>)"
    using builtin_dispatch_fallback
      [where n = lowBitsCall and g = testGen and se = False and d = 0 and s = st0
         and r = "Inr ()" and s' = "st0\<lparr>buf := ''((v_y) & 0x7)''\<rparr>",
       THEN conjunct2, THEN conjunct2, THEN conjunct2, THEN conjunct2, THEN conjunct1,
       rule_format, OF h4] .
  have h5: "Operator fooCall = IDOpenParen \<and> ConstValue fooCall = None
        \<and> 0 \<le> MaxExprDepth testGen \<and> LHS fooCall = Some ?mf
        \<and> fst (writeBuiltinCall (writeExpr testGen) testGen fooCall False (Suc 0) st0)
            = Inl errNoSuchBuiltin"
    using 1 by (simp add: fooCall_def mk_defs)
  have 3: "writeExpr testGen fooCall False 0 st0
       = writeExprUserDefinedCall (writeExpr testGen) testGen fooCall (Suc 0) st0"
    using builtin_dispatch_fallback
      [where n = fooCall and mth = ?mf and g = testGen and se = False and d = 0 and s = st0,
       THEN conjunct2, THEN conjunct2, THEN conjunct2, THEN conjunct2, THEN conjunct2,
       rule_format, OF h5]
    by simp
  have h6: "Operator resetCall = IDOpenParen \<and> ConstValue resetCall = None
        \<and> 0 \<le> MaxExprDepth testGen \<and> LHS resetCall = Some ?mr
        \<and> fst (writeBuiltinCall (writeExpr testGen) testGen resetCall False (Suc 0) st0)
            = Inl errNoSuchBuiltin"
    using builtin_resetCall by (simp add: resetCall_def mk_defs)
  have 4: "writeExpr testGen resetCall False 0 st0
       = writeExprReset (writeExpr testGen) testGen ?mr (Suc 0) st0"
    using builtin_dispatch_fallback
      [where n = resetCall and mth = ?mr and g = testGen and se = False and d = 0 and s = st0,
       THEN conjunct2, THEN conjunct2, THEN conjunct2, THEN conjunct2, THEN conjunct2,
       rule_format, OF h6]
    by simp
  show ?thesis
    using 1 2 3 4 by blast
qed

section \<open>When the 8-byte copy fires\<close>










lemma okS_genericCopyLowering: "okS S (genericCopyLowering (writeExpr g) recv args depth)"
  unfolding genericCopyLowering_def by (intro okS_rules okS_writeExpr okS_writeArgs)






section \<open>set on a pointer receiver\<close>

lemma run_fcDurationFirst:
  "writeExpr testGen fcDurationFirst False 0 st0
   = (Inr (), st0\<lparr>buf := ''wuffs_base__frame_config__set(\<newline>a_dst,\<newline>v_d)''\<rparr>)"
  by (simp add: eval_defs fcDurationFirst_def fcRecv_def recvName_def cong: lazy_cong)

lemma run_fcDurationThird:
  "fst (writeExpr testGen fcDurationThird False 0 st0)
   = Inl (Errorf ''cgen: internal error: inconsistent frame_config.set argument'')"
  by (simp add: eval_defs fcDurationThird_def fcRecv_def recvName_def cong: lazy_cong)

lemma run_fcDurationSecond:
  "writeExpr testGen fcDurationSecond False 0 st0
   = (Inr (), st0\<lparr>buf := ''wuffs_base__frame_config__set(\<newline>a_dst,\<newline>v_b,\<newline>((wuffs_base__flicks)(v_d)),\<newline>v_i)''\<rparr>)"
  by (simp add: eval_defs fcDurationSecond_def fcRecv_def recvName_def cong: lazy_cong)

lemma bind_seq: "bind (seq m k) f = seq m (bind k f)"
  by (rule ext) (simp add: seq_apply bind_apply split: prod.splits sum.splits)

lemma forEach_cong:
  assumes "\<And>i. i < length xs \<Longrightarrow> f i (xs ! i) = g i (xs ! i)"
  shows "forEach xs f = forEach xs g"
proof -
  have "map (\<lambda>(i, x). f i x) (enumerate 0 xs) = map (\<lambda>(i, x). g i x) (enumerate 0 xs)"
    by (rule map_cong) (auto simp: in_set_enumerate_eq assms)
  then show ?thesis
    unfolding forEach_def by (rule arg_cong)
qed

lemma ptr_set_other_method:
  assumes "Operator n = IDOpenParen" "LHS n = Some mth" "LHS mth = Some recv"
    "isPtr (MType recv)" "Ident mth \<noteq> ''set''"
  shows "writeBuiltinCall we g n se d s = (Inl errNoSuchBuiltin, s)"
  using assms by (auto simp: writeBuiltinCall_def isPtr_def Let_def throw_apply cong: lazy_cong)

lemma ptr_set_other_type:
  assumes "Operator n = IDOpenParen" "LHS n = Some mth" "LHS mth = Some recv"
    "isPtr (MType recv)" "Ident mth = ''set''" "recvName recv = Inr rn"
    "Inner (MType recv) = Some inner" "QID inner \<noteq> (''base'', ''image_config'')"
    "QID inner \<noteq> (''base'', ''frame_config'')"
  shows "writeBuiltinCall we g n se d s = (Inl errNoSuchBuiltin, s)"
  using assms by (auto simp: writeBuiltinCall_def isPtr_def Let_def throw_apply cong: lazy_cong)

lemma ptr_set_image_config:
  assumes "Operator n = IDOpenParen" "LHS n = Some mth" "LHS mth = Some recv"
    "isPtr (MType recv)" "Ident mth = ''set''" "recvName recv = Inr rn"
    "Inner (MType recv) = Some inner" "QID inner = (''base'', ''image_config'')"
  shows "writeBuiltinCall we g n se d
         = seqs [writes (''wuffs_base__image_config__set(\<newline>'' @ rn),
                 forEach (Args n) (\<lambda>i oo. seqs [writes '',\<newline>'', we (snd oo) False d]),
                 writeb CHR '')'']"
  using assms
  by (auto simp: writeBuiltinCall_def isPtr_def Let_def bind_seq whenM_def)

lemma ptr_set_frame_config:
  assumes "Operator n = IDOpenParen" "LHS n = Some mth" "LHS mth = Some recv"
    "isPtr (MType recv)" "Ident mth = ''set''" "recvName recv = Inr rn"
    "Inner (MType recv) = Some inner" "QID inner = (''base'', ''frame_config'')"
    "length (Args n) \<le> 1 \<or> fst (Args n ! 1) = ''duration''"
  shows "writeBuiltinCall we g n se d
         = seqs [writes (''wuffs_base__frame_config__set(\<newline>'' @ rn),
                 forEach (Args n) (\<lambda>i oo.
                   seqs [writes '',\<newline>'',
                         whenM (i = 1) (writes ''((wuffs_base__flicks)(''),
                         we (snd oo) False d,
                         whenM (i = 1) (writes ''))'')]),
                 writeb CHR '')'']"
proof -
  have "forEach (Args n) (\<lambda>i oo.
          seqs [writes '',\<newline>'',
                whenM (int i = 1)
                  (if fst oo \<noteq> ''duration''
                   then throw (Errorf ''cgen: internal error: inconsistent frame_config.set argument'')
                   else writes ''((wuffs_base__flicks)(''),
                we (snd oo) False d,
                whenM (int i = 1) (writes ''))'')])
        = forEach (Args n) (\<lambda>i oo.
                   seqs [writes '',\<newline>'',
                         whenM (i = 1) (writes ''((wuffs_base__flicks)(''),
                         we (snd oo) False d,
                         whenM (i = 1) (writes ''))'')])"
    using assms(9) by (intro forEach_cong) (auto simp: whenM_def)
  then show ?thesis
    using assms(1-8)
    by (auto simp: writeBuiltinCall_def isPtr_def Let_def bind_seq)
qed

lemma ptr_set_frame_config_misnamed:
  assumes "Operator n = IDOpenParen" "LHS n = Some mth" "LHS mth = Some recv"
    "isPtr (MType recv)" "Ident mth = ''set''" "recvName recv = Inr rn"
    "Inner (MType recv) = Some inner" "QID inner = (''base'', ''frame_config'')"
    "Args n = argA # argB # rest" "fst argB \<noteq> ''duration''"
    "\<And>s1. fst (we (snd argA) False d s1) = Inr ()"
  shows "fst (writeBuiltinCall we g n se d s)
         = Inl (Errorf ''cgen: internal error: inconsistent frame_config.set argument'')"
proof -
  let ?s1 = "s\<lparr>buf := buf s @ ''wuffs_base__frame_config__set(\<newline>'' @ rn @ '',\<newline>''\<rparr>"
  obtain s2 where "we (snd argA) False d ?s1 = (Inr (), s2)"
    using assms(11) [of ?s1] by (cases "we (snd argA) False d ?s1") auto
  then show ?thesis
    using assms(1-10)
    by (auto simp: writeBuiltinCall_def isPtr_def Let_def forEach_def whenM_def apply_simps
          cong: lazy_cong)
qed

lemma ptr_set_no_name:
  assumes "Operator n = IDOpenParen" "LHS n = Some mth" "LHS mth = Some recv"
    "isPtr (MType recv)" "Ident mth = ''set''" "recvName recv = Inl e"
  shows "writeBuiltinCall we g n se d s = (Inl e, s)"
  using assms by (auto simp: writeBuiltinCall_def isPtr_def Let_def throw_apply cong: lazy_cong)

text \<open>
  C8, as the claim states it, fails: the argument that gets the flicks cast is chosen
  by its position. With \<^verbatim>\<open>duration\<close> as the only argument nothing is cast, and with
  \<^verbatim>\<open>duration\<close> in third place the lowering fails on the argument in second place.
\<close>

theorem frame_config_duration_counterexample:
  "writeExpr testGen fcDurationFirst False 0 st0
     = (Inr (), st0\<lparr>buf := ''wuffs_base__frame_config__set(\<newline>a_dst,\<newline>v_d)''\<rparr>)
   \<and> fst (writeExpr testGen fcDurationThird False 0 st0)
       = Inl (Errorf ''cgen: internal error: inconsistent frame_config.set argument'')"
  using run_fcDurationFirst run_fcDurationThird by blast

text \<open>
  C8, amended. On a pointer or nullable-pointer receiver every method other than
  \<^verbatim>\<open>set\<close> gives not-a-builtin; \<^verbatim>\<open>set\<close> on a receiver without a name fails with the
  error of \<open>recvName\<close>; \<^verbatim>\<open>set\<close> on a named receiver gives not-a-builtin unless the
  receiver points to an image config or a frame config, which lower to their setter
  calls. For the frame config the argument at position 1 is wrapped in the flicks cast;
  it has to be named \<^verbatim>\<open>duration\<close>, and the lowering fails with an error of its own
  when it is not.
\<close>

theorem pointer_set_lowering:
  "(Operator n = IDOpenParen \<and> LHS n = Some mth \<and> LHS mth = Some recv \<and> isPtr (MType recv)
      \<longrightarrow>
      (Ident mth \<noteq> ''set'' \<longrightarrow> writeBuiltinCall we g n se d s = (Inl errNoSuchBuiltin, s))
      \<and> (Ident mth = ''set'' \<and> recvName recv = Inl e \<longrightarrow>
           writeBuiltinCall we g n se d s = (Inl e, s))
      \<and> (Ident mth = ''set'' \<and> recvName recv = Inr rn \<and> Inner (MType recv) = Some inner \<longrightarrow>
           (QID inner \<noteq> (''base'', ''image_config'') \<and> QID inner \<noteq> (''base'', ''frame_config'')
              \<longrightarrow> writeBuiltinCall we g n se d s = (Inl errNoSuchBuiltin, s))
           \<and> (QID inner = (''base'', ''image_config'') \<longrightarrow>
                writeBuiltinCall we g n se d
                  = seqs [writes (''wuffs_base__image_config__set(\<newline>'' @ rn),
                          forEach (Args n) (\<lambda>i oo. seqs [writes '',\<newline>'', we (snd oo) False d]),
                          writeb CHR '')''])
           \<and> (QID inner = (''base'', ''frame_config'')
                \<and> (length (Args n) \<le> 1 \<or> fst (Args n ! 1) = ''duration'') \<longrightarrow>
                writeBuiltinCall we g n se d
                  = seqs [writes (''wuffs_base__frame_config__set(\<newline>'' @ rn),
                          forEach (Args n) (\<lambda>i oo.
                            seqs [writes '',\<newline>'',
                                  whenM (i = 1) (writes ''((wuffs_base__flicks)(''),
                                  we (snd oo) False d,
                                  whenM (i = 1) (writes ''))'')]),
                          writeb CHR '')''])
           \<and> (QID inner = (''base'', ''frame_config'') \<and> Args n = argA # argB # rest
                \<and> fst argB \<noteq> ''duration'' \<and> (\<forall>s1. fst (we (snd argA) False d s1) = Inr ()) \<longrightarrow>
                fst (writeBuiltinCall we g n se d s)
                  = Inl (Errorf ''cgen: internal error: inconsistent frame_config.set argument''))))"
proof (intro conjI impI)
  assume h: "Operator n = IDOpenParen \<and> LHS n = Some mth \<and> LHS mth = Some recv \<and> isPtr (MType recv)"
  {
    assume "Ident mth \<noteq> ''set''"
    with h show "writeBuiltinCall we g n se d s = (Inl errNoSuchBuiltin, s)"
      by (intro ptr_set_other_method [where mth = mth and recv = recv]) simp_all
  }
  {
    assume "Ident mth = ''set'' \<and> recvName recv = Inl e"
    with h show "writeBuiltinCall we g n se d s = (Inl e, s)"
      by (intro ptr_set_no_name [where mth = mth and recv = recv]) simp_all
  }
  assume k: "Ident mth = ''set'' \<and> recvName recv = Inr rn \<and> Inner (MType recv) = Some inner"
  {
    assume "QID inner \<noteq> (''base'', ''image_config'') \<and> QID inner \<noteq> (''base'', ''frame_config'')"
    with h k show "writeBuiltinCall we g n se d s = (Inl errNoSuchBuiltin, s)"
      by (intro ptr_set_other_type [where mth = mth and recv = recv and rn = rn and inner = inner])
         simp_all
  }
  {
    assume "QID inner = (''base'', ''image_config'')"
    with h k show "writeBuiltinCall we g n se d
                  = seqs [writes (''wuffs_base__image_config__set(\<newline>'' @ rn),
                          forEach (Args n) (\<lambda>i oo. seqs [writes '',\<newline>'', we (snd oo) False d]),
                          writeb CHR '')'']"
      by (intro ptr_set_image_config [where mth = mth and recv = recv and inner = inner])
         simp_all
  }
  {
    assume "QID inner = (''base'', ''frame_config'')
                \<and> (length (Args n) \<le> 1 \<or> fst (Args n ! 1) = ''duration'')"
    with h k show "writeBuiltinCall we g n se d
                  = seqs [writes (''wuffs_base__frame_config__set(\<newline>'' @ rn),
                          forEach (Args n) (\<lambda>i oo.
                            seqs [writes '',\<newline>'',
                                  whenM (i = 1) (writes ''((wuffs_base__flicks)(''),
                                  we (snd oo) False d,
                                  whenM (i = 1) (writes ''))'')]),
                          writeb CHR '')'']"
      by (intro ptr_set_frame_config [where mth = mth and recv = recv and inner = inner])
         simp_all
  }
  {
    assume "QID inner = (''base'', ''frame_config'') \<and> Args n = argA # argB # rest
                \<and> fst argB \<noteq> ''duration'' \<and> (\<forall>s1. fst (we (snd argA) False d s1) = Inr ())"
    with h k show "fst (writeBuiltinCall we g n se d s)
                  = Inl (Errorf ''cgen: internal error: inconsistent frame_config.set argument'')"
      by (intro ptr_set_frame_config_misnamed
            [where mth = mth and recv = recv and inner = inner and rn = rn
               and argA = argA and argB = argB and rest = rest])
         simp_all
  }
qed


theorem pointer_set_lowering_witness:
  "writeBuiltinCall (writeExpr testGen) testGen fcOther False 1 st0 = (Inl errNoSuchBuiltin, st0)
   \<and> writeBuiltinCall (writeExpr testGen) testGen pbSet False 1 st0 = (Inl errNoSuchBuiltin, st0)
   \<and> writeBuiltinCall (writeExpr testGen) testGen icSet False 1 st0
       = (Inr (), st0\<lparr>buf := ''wuffs_base__image_config__set(\<newline>a_dst,\<newline>v_w)''\<rparr>)
   \<and> writeBuiltinCall (writeExpr testGen) testGen fcDurationSecond False 1 st0
       = (Inr (), st0\<lparr>buf := ''wuffs_base__frame_config__set(\<newline>a_dst,\<newline>v_b,\<newline>((wuffs_base__flicks)(v_d)),\<newline>v_i)''\<rparr>)
   \<and> fst (writeBuiltinCall (writeExpr testGen) testGen fcDurationThird False 1 st0)
       = Inl (Errorf ''cgen: internal error: inconsistent frame_config.set argument'')"
proof -
  let ?b = "(''bounds'', mkIdent ''b'' (baseType ''rect_ie_u32''))"
  let ?i = "(''index'', mkIdent ''i'' (baseType ''u64''))"
  let ?d = "(''duration'', mkIdent ''d'' (baseType ''u64''))"
  let ?fcm = "mkDot fcRecv ''set'' (baseType ''empty_struct'')"
  have shape: "\<And>r nm as t q. Operator (mkCall r nm as t q) = IDOpenParen
                 \<and> LHS (mkCall r nm as t q) = Some (mkDot r nm t)
                 \<and> Args (mkCall r nm as t q) = as"
    by (simp add: mk_defs)
  have mshape: "\<And>r nm t. LHS (mkDot r nm t) = Some r \<and> Ident (mkDot r nm t) = nm"
    by (simp add: mk_defs)
  have p1: "isPtr (MType fcRecv)" and p2: "isPtr (MType icRecv)" and p3: "isPtr (MType pbRecv)"
    by (simp_all add: fcRecv_def icRecv_def pbRecv_def isPtr_def mk_defs)
  have r1: "recvName fcRecv = Inr ''a_dst''" and r2: "recvName icRecv = Inr ''a_dst''"
    and r3: "recvName pbRecv = Inr ''a_dst''"
    by (simp_all add: fcRecv_def icRecv_def pbRecv_def recvName_def mk_defs prefix_defs)
  have i1: "Inner (MType fcRecv) = Some (baseType ''frame_config'')"
    and i2: "Inner (MType icRecv) = Some (baseType ''image_config'')"
    and i3: "Inner (MType pbRecv) = Some (baseType ''pixel_buffer'')"
    by (simp_all add: fcRecv_def icRecv_def pbRecv_def mk_defs)
  have q: "\<And>nm. QID (baseType nm) = (''base'', nm)"
    by (simp add: mk_defs)
  have ok: "\<forall>s1. fst (writeExpr testGen (snd ?b) False 1 s1) = Inr ()"
    by (simp add: eval_defs cong: lazy_cong)
  note t1 = pointer_set_lowering
    [where n = fcOther and mth = "mkDot fcRecv ''foo'' (baseType ''empty_struct'')" and recv = fcRecv
       and we = "writeExpr testGen" and g = testGen and se = False and d = 1 and s = st0]
  note t2 = pointer_set_lowering
    [where n = pbSet and mth = "mkDot pbRecv ''set'' (baseType ''empty_struct'')" and recv = pbRecv
       and we = "writeExpr testGen" and g = testGen and se = False and d = 1 and s = st0
       and rn = "''a_dst''" and inner = "baseType ''pixel_buffer''"]
  note t3 = pointer_set_lowering
    [where n = icSet and mth = "mkDot icRecv ''set'' (baseType ''empty_struct'')" and recv = icRecv
       and we = "writeExpr testGen" and g = testGen and se = False and d = 1 and s = st0
       and rn = "''a_dst''" and inner = "baseType ''image_config''"]
  note t4 = pointer_set_lowering
    [where n = fcDurationSecond and mth = ?fcm and recv = fcRecv
       and we = "writeExpr testGen" and g = testGen and se = False and d = 1 and s = st0
       and rn = "''a_dst''" and inner = "baseType ''frame_config''"]
  note t5 = pointer_set_lowering
    [where n = fcDurationThird and mth = ?fcm and recv = fcRecv
       and we = "writeExpr testGen" and g = testGen and se = False and d = 1 and s = st0
       and rn = "''a_dst''" and inner = "baseType ''frame_config''"
       and argA = ?b and argB = ?i and rest = "[?d]"]
  have 1: "writeBuiltinCall (writeExpr testGen) testGen fcOther False 1 st0
             = (Inl errNoSuchBuiltin, st0)"
    using t1 p1 shape mshape unfolding fcOther_def by simp
  have 2: "writeBuiltinCall (writeExpr testGen) testGen pbSet False 1 st0
             = (Inl errNoSuchBuiltin, st0)"
    using t2 p3 r3 i3 q shape mshape unfolding pbSet_def by simp
  have m3: "writeBuiltinCall (writeExpr testGen) testGen icSet False 1
              = seqs [writes (''wuffs_base__image_config__set(\<newline>'' @ ''a_dst''),
                      forEach (Args icSet)
                        (\<lambda>i oo. seqs [writes '',\<newline>'', writeExpr testGen (snd oo) False 1]),
                      writeb CHR '')'']"
    using t3 p2 r2 i2 q shape mshape unfolding icSet_def by simp
  have m4: "writeBuiltinCall (writeExpr testGen) testGen fcDurationSecond False 1
              = seqs [writes (''wuffs_base__frame_config__set(\<newline>'' @ ''a_dst''),
                      forEach (Args fcDurationSecond) (\<lambda>i oo.
                        seqs [writes '',\<newline>'',
                              whenM (i = 1) (writes ''((wuffs_base__flicks)(''),
                              writeExpr testGen (snd oo) False 1,
                              whenM (i = 1) (writes ''))'')]),
                      writeb CHR '')'']"
    using t4 p1 r1 i1 q shape mshape unfolding fcDurationSecond_def by simp
  have 5: "fst (writeBuiltinCall (writeExpr testGen) testGen fcDurationThird False 1 st0)
             = Inl (Errorf ''cgen: internal error: inconsistent frame_config.set argument'')"
    using t5 p1 r1 i1 q ok shape mshape unfolding fcDurationThird_def by simp
  have 3: "writeBuiltinCall (writeExpr testGen) testGen icSet False 1 st0
       = (Inr (), st0\<lparr>buf := ''wuffs_base__image_config__set(\<newline>a_dst,\<newline>v_w)''\<rparr>)"
    by (subst m3) (simp add: icSet_def eval_defs cong: lazy_cong)
  have 4: "writeBuiltinCall (writeExpr testGen) testGen fcDurationSecond False 1 st0
       = (Inr (), st0\<lparr>buf := ''wuffs_base__frame_config__set(\<newline>a_dst,\<newline>v_b,\<newline>((wuffs_base__flicks)(v_d)),\<newline>v_i)''\<rparr>)"
    by (subst m4) (simp add: fcDurationSecond_def eval_defs cong: lazy_cong)
  from 1 2 3 4 5 show ?thesis
    by blast
qed

section \<open>Suspending skips and single-byte reads\<close>

lemma seqs_apply_Cons:
  "seqs (m # ms) s = (case m s of (Inl e, s') \<Rightarrow> (Inl e, s') | (Inr u, s') \<Rightarrow> seqs ms s')"
  by (simp add: seq_apply split: prod.splits sum.splits)

lemma skip_one_program:
  assumes "isReaderCall g n mth recv rn" "Ident mth = ''skip'' \<or> Ident mth = ''skip_u32''"
    "Args n = (nm, x) # rest" "ConstValue x = Some 1"
  shows "writeBuiltinQuestionCall we g n d
         = seqs [writeCoroSuspPoint False, writes (shortRead rn), writes (''iop_'' @ rn @ ''++;\<newline>'')]"
  using assms
  by (auto simp: isReaderCall_def writeBuiltinQuestionCall_def Let_def argValue_def elemAt_def
        one_def cong: lazy_cong)

lemma skip_one_run:
  assumes "isReaderCall g n mth recv rn" "Ident mth = ''skip'' \<or> Ident mth = ''skip_u32''"
    "Args n = (nm, x) # rest" "ConstValue x = Some 1"
  shows "writeBuiltinQuestionCall we g n d s
         = (case writeCoroSuspPoint False s of
              (Inl e, s1) \<Rightarrow> (Inl e, s1)
            | (Inr u, s1) \<Rightarrow> (Inr (), s1\<lparr>buf := buf s1 @ shortRead rn @ ''iop_'' @ rn @ ''++;\<newline>''\<rparr>))"
  unfolding skip_one_program [OF assms]
  by (simp add: apply_simps split: prod.splits sum.splits)

lemma usesScratch_writeCoroSuspPoint:
  "usesScratch (currFunk (snd (writeCoroSuspPoint b s))) = usesScratch (currFunk s)"
  by (simp add: writeCoroSuspPoint_def apply_simps)

lemma skip_one_flag:
  assumes "isReaderCall g n mth recv rn" "Ident mth = ''skip'' \<or> Ident mth = ''skip_u32''"
    "Args n = (nm, x) # rest" "ConstValue x = Some 1"
  shows "usesScratch (currFunk (snd (writeBuiltinQuestionCall we g n d s))) = usesScratch (currFunk s)"
  unfolding skip_one_run [OF assms]
  using usesScratch_writeCoroSuspPoint [of False s]
  by (auto split: prod.splits sum.splits)

lemma skip_many_run:
  assumes "isReaderCall g n mth recv rn" "Ident mth = ''skip'' \<or> Ident mth = ''skip_u32''"
    "Args n = (nm, x) # rest" "ConstValue x \<noteq> Some 1"
    "we x False d (s\<lparr>currFunk := (currFunk s)\<lparr>usesScratch := True\<rparr>,
                     buf := buf s @ scratchName (currFunk s) @ '' = ''\<rparr>) = (Inr (), s1)"
    "writeCoroSuspPoint False (s1\<lparr>buf := buf s1 @ '';\<newline>''\<rparr>) = (Inr (), s2)"
  shows "writeBuiltinQuestionCall we g n d s
         = (Inr (), s2\<lparr>buf := buf s2 @ skipLoopText (scratchName (currFunk s)) rn\<rparr>)"
  using assms
  by (auto simp: isReaderCall_def writeBuiltinQuestionCall_def Let_def argValue_def elemAt_def
        one_def setUsesScratch_def scratchName_def skipLoopText_def apply_simps cong: lazy_cong)


lemma keepsFunk_return: "keepsFunk (return a)"
  by (simp add: keepsFunk_def return_apply)

lemma keepsFunk_throw: "keepsFunk (throw e)"
  by (simp add: keepsFunk_def throw_apply)

lemma keepsFunk_writes: "keepsFunk (writes x)"
  by (simp add: keepsFunk_def writes_apply)

lemma keepsFunk_writeb: "keepsFunk (writeb c)"
  by (simp add: keepsFunk_def writeb_apply)

lemma keepsFunk_lift: "keepsFunk (lift r)"
  by (cases r) (simp_all add: keepsFunk_return keepsFunk_throw)

lemma keepsFunk_deref: "keepsFunk (deref x)"
  by (cases x) (simp_all add: keepsFunk_return keepsFunk_throw)

lemma keepsFunk_bind:
  assumes "keepsFunk m" "\<And>a. keepsFunk (f a)"
  shows "keepsFunk (bind m f)"
proof -
  have "currFunk (snd (bind m f s)) = currFunk s" for s
  proof (cases "m s")
    case (Pair r s1)
    have 1: "currFunk s1 = currFunk s"
      using assms(1) Pair unfolding keepsFunk_def by (metis snd_conv)
    show ?thesis
    proof (cases r)
      case (Inl e)
      then show ?thesis using Pair 1 by (simp add: bind_apply)
    next
      case (Inr a)
      have "currFunk (snd (f a s1)) = currFunk s1"
        using assms(2) unfolding keepsFunk_def by blast
      then show ?thesis using Pair Inr 1 by (simp add: bind_apply)
    qed
  qed
  then show ?thesis unfolding keepsFunk_def by blast
qed

lemma keepsFunk_seq:
  assumes "keepsFunk m" "keepsFunk k"
  shows "keepsFunk (seq m k)"
proof -
  have "seq m k = bind m (\<lambda>u. k)"
    by (rule ext) (simp add: seq_apply bind_apply)
  then show ?thesis
    using keepsFunk_bind [OF assms(1), of "\<lambda>u. k"] assms(2) by simp
qed

lemma keepsFunk_seqs_Nil: "keepsFunk (seqs [])"
  by (simp add: keepsFunk_return)

lemma keepsFunk_seqs_Cons: "keepsFunk m \<Longrightarrow> keepsFunk (seqs ms) \<Longrightarrow> keepsFunk (seqs (m # ms))"
  by (simp add: keepsFunk_seq)

lemma keepsFunk_if: "(c \<Longrightarrow> keepsFunk m) \<Longrightarrow> (\<not> c \<Longrightarrow> keepsFunk k) \<Longrightarrow> keepsFunk (if c then m else k)"
  by simp

lemma keepsFunk_whenM: "keepsFunk m \<Longrightarrow> keepsFunk (whenM c m)"
  by (simp add: whenM_def keepsFunk_return)

lemmas keepsFunk_rules =
  keepsFunk_return keepsFunk_throw keepsFunk_writes keepsFunk_writeb keepsFunk_lift
  keepsFunk_deref keepsFunk_bind keepsFunk_seq keepsFunk_seqs_Nil keepsFunk_seqs_Cons
  keepsFunk_if keepsFunk_whenM

lemma keepsFunk_writeArrayLengths: "keepsFunk (writeArrayLengths x)"
  by (induction x rule: writeArrayLengths.induct) (auto intro!: keepsFunk_rules)

lemma keepsFunk_writeVarName: "keepsFunk (writeVarName a b)"
  unfolding writeVarName_def by (intro keepsFunk_rules)

lemma keepsFunk_writeCTypeName: "keepsFunk (writeCTypeName g n a b)"
  unfolding writeCTypeName_def Let_def
  by (intro keepsFunk_rules keepsFunk_writeArrayLengths keepsFunk_writeVarName
        | simp only: split_def)+

lemma seq_return_unit: "seq m (return ()) = m"
  by (rule ext) (simp add: seq_apply return_apply split: prod.splits sum.splits)

lemma usesScratch_newTemp:
  "usesScratch (currFunk (snd (newTemp g s))) = usesScratch (currFunk s)"
  by (simp add: newTemp_def apply_simps)

lemma read_u8_program:
  assumes "isReaderCall g n mth recv rn"
    "Ident mth = ''read_u8'' \<or> Ident mth = ''read_u8_as_u32'' \<or> Ident mth = ''read_u8_as_u64''"
  shows "writeBuiltinQuestionCall we g n d
         = seqs [writeCoroSuspPoint False,
                 bind (newTemp g) (\<lambda>temp.
                   seqs [writes (shortRead rn),
                         writeCTypeName g (MType n) tPrefix (showNat temp),
                         writes ('' = *iop_'' @ rn @ ''++;\<newline>'')])]"
  using assms
  by (auto simp: isReaderCall_def writeBuiltinQuestionCall_def Let_def cong: lazy_cong)

lemma read_u8_flag:
  assumes "isReaderCall g n mth recv rn"
    "Ident mth = ''read_u8'' \<or> Ident mth = ''read_u8_as_u32'' \<or> Ident mth = ''read_u8_as_u64''"
  shows "usesScratch (currFunk (snd (writeBuiltinQuestionCall we g n d s))) = usesScratch (currFunk s)"
proof -
  let ?body = "\<lambda>temp. seqs [writes (shortRead rn),
                         writeCTypeName g (MType n) tPrefix (showNat temp),
                         writes ('' = *iop_'' @ rn @ ''++;\<newline>'')]"
  have k: "keepsFunk (?body temp)" for temp
    by (intro keepsFunk_rules keepsFunk_writeCTypeName)
  have b: "usesScratch (currFunk (snd (bind (newTemp g) ?body s1))) = usesScratch (currFunk s1)" for s1
  proof (cases "newTemp g s1")
    case (Pair r s2)
    have 1: "usesScratch (currFunk s2) = usesScratch (currFunk s1)"
      using usesScratch_newTemp [of g s1] Pair by simp
    show ?thesis
    proof (cases r)
      case (Inl e)
      then show ?thesis using Pair 1 by (simp add: bind_apply)
    next
      case (Inr temp)
      have "currFunk (snd (?body temp s2)) = currFunk s2"
        using k [of temp] unfolding keepsFunk_def by blast
      then show ?thesis using Pair Inr 1 by (simp add: bind_apply)
    qed
  qed
  have p: "writeBuiltinQuestionCall we g n d = seq (writeCoroSuspPoint False) (bind (newTemp g) ?body)"
    unfolding read_u8_program [OF assms] by (simp only: seqs.simps seq_return_unit)
  show ?thesis
  proof (cases "writeCoroSuspPoint False s")
    case (Pair r s1)
    have 1: "usesScratch (currFunk s1) = usesScratch (currFunk s)"
      using usesScratch_writeCoroSuspPoint [of False s] Pair by simp
    show ?thesis
    proof (cases r)
      case (Inl e)
      then show ?thesis unfolding p using Pair 1 by (simp add: seq_apply)
    next
      case (Inr u)
      have "seq (writeCoroSuspPoint False) (bind (newTemp g) ?body) s = bind (newTemp g) ?body s1"
        using Pair Inr by (simp add: seq_apply)
      then show ?thesis unfolding p using 1 b [of s1] by (simp only:)
    qed
  qed
qed


lemma okS_writeCoroSuspPoint: "okS S (writeCoroSuspPoint b)"
  by (simp add: okS_def writeCoroSuspPoint_def apply_simps extends_def signal_def)

lemma skip_many_flag:
  assumes "isReaderCall g n mth recv rn" "Ident mth = ''skip'' \<or> Ident mth = ''skip_u32''"
    "Args n = (nm, x) # rest" "ConstValue x \<noteq> Some 1"
  shows "usesScratch (currFunk (snd (writeBuiltinQuestionCall (writeExpr g) g n d s)))"
proof -
  let ?sc = "\<lambda>s. scratchName (currFunk s)"
  let ?rest = "\<lambda>scratch. seqs [writes (scratch @ '' = ''),
                              writeExpr g x False d,
                              writes '';\<newline>'',
                              writeCoroSuspPoint False,
                              writes (''if ('' @ scratch @ '' > ((uint64_t)(io2_'' @ rn
                                      @ '' - iop_'' @ rn @ ''))) {\<newline>''),
                              writes (scratch @ '' -= ((uint64_t)(io2_'' @ rn
                                      @ '' - iop_'' @ rn @ ''));\<newline>''),
                              writes (''iop_'' @ rn @ '' = io2_'' @ rn @ '';\<newline>''),
                              writes (''status = wuffs_base__make_status(wuffs_base__suspension__short_read);\<newline>''
                                      @ ''goto suspend;\<newline>}\<newline>''),
                              writes (''iop_'' @ rn @ '' += '' @ scratch @ '';\<newline>'')]"
  have p: "writeBuiltinQuestionCall (writeExpr g) g n d = seq setUsesScratch (bind (gets ?sc) ?rest)"
    using assms
    by (auto simp: isReaderCall_def writeBuiltinQuestionCall_def Let_def argValue_def elemAt_def
          one_def cong: lazy_cong)
  have ok: "okS {} (bind (gets ?sc) ?rest)"
    by (intro okS_rules okS_writeExpr okS_writeCoroSuspPoint)
  let ?s1 = "s\<lparr>currFunk := (currFunk s)\<lparr>usesScratch := True\<rparr>\<rparr>"
  have "extends ?s1 (snd (bind (gets ?sc) ?rest ?s1))"
    using ok unfolding okS_def by blast
  then have "usesScratch (currFunk (snd (bind (gets ?sc) ?rest ?s1)))"
    by (simp add: extends_def)
  moreover have "seq setUsesScratch (bind (gets ?sc) ?rest) s = bind (gets ?sc) ?rest ?s1"
    by (simp add: seq_apply setUsesScratch_def modify_apply)
  ultimately show ?thesis
    unfolding p by (simp only:)
qed

lemma scratchName_private: "take 19 (scratchName f) = ''self->private_data.''"
  by (simp add: scratchName_def)

lemma run_skipOne:
  "writeBuiltinQuestionCall (writeExpr testGen) testGen skipOne 0 st0
     = (Inr (), st0\<lparr>currFunk := (currFunk st0)\<lparr>coroSuspPoint := 1\<rparr>,
                     buf := ''WUFFS_BASE__COROUTINE_SUSPENSION_POINT(1);\<newline>''
                            @ ''if (WUFFS_BASE__UNLIKELY(iop_a_src == io2_a_src)) {\<newline>''
                            @ ''status = wuffs_base__make_status(wuffs_base__suspension__short_read);\<newline>''
                            @ ''goto suspend;\<newline>}\<newline>''
                            @ ''iop_a_src++;\<newline>''\<rparr>)"
  by (simp add: writeBuiltinQuestionCall_def eval_defs skipOne_def srcReader_def recvName_def
        writeCoroSuspPoint_def shortRead_def one_def isBase_def showNat.simps digitChar_def
        cong: lazy_cong)

lemma run_skipMany:
  "writeBuiltinQuestionCall (writeExpr testGen) testGen skipMany 0 st0
     = (Inr (), st0\<lparr>currFunk := (currFunk st0)\<lparr>usesScratch := True, coroSuspPoint := 1\<rparr>,
                     buf := ''self->private_data.s_decode[0].scratch = v_n;\<newline>''
                            @ ''WUFFS_BASE__COROUTINE_SUSPENSION_POINT(1);\<newline>''
                            @ ''if (self->private_data.s_decode[0].scratch > ((uint64_t)(io2_a_src - iop_a_src))) {\<newline>''
                            @ ''self->private_data.s_decode[0].scratch -= ((uint64_t)(io2_a_src - iop_a_src));\<newline>''
                            @ ''iop_a_src = io2_a_src;\<newline>''
                            @ ''status = wuffs_base__make_status(wuffs_base__suspension__short_read);\<newline>''
                            @ ''goto suspend;\<newline>}\<newline>''
                            @ ''iop_a_src += self->private_data.s_decode[0].scratch;\<newline>''\<rparr>)"
  by (simp add: writeBuiltinQuestionCall_def eval_defs skipMany_def srcReader_def recvName_def
        writeCoroSuspPoint_def shortRead_def one_def isBase_def showNat.simps digitChar_def
        setUsesScratch_def scratchName_def
        cong: lazy_cong)

lemma run_readByte:
  "writeBuiltinQuestionCall (writeExpr testGen) testGen readByte 0 st0
     = (Inr (), st0\<lparr>currFunk := (currFunk st0)\<lparr>tempW := 1, coroSuspPoint := 1\<rparr>,
                     buf := ''WUFFS_BASE__COROUTINE_SUSPENSION_POINT(1);\<newline>''
                            @ ''if (WUFFS_BASE__UNLIKELY(iop_a_src == io2_a_src)) {\<newline>''
                            @ ''status = wuffs_base__make_status(wuffs_base__suspension__short_read);\<newline>''
                            @ ''goto suspend;\<newline>}\<newline>''
                            @ ''uint8_t t_0 = *iop_a_src++;\<newline>''\<rparr>)"
  by (simp add: writeBuiltinQuestionCall_def eval_defs readByte_def srcReader_def recvName_def
        writeCoroSuspPoint_def shortRead_def one_def isBase_def showNat.simps digitChar_def
        newTemp_def writeCTypeName_def IsSliceType_def IsTableType_def cTypeNames_def
        writeVarName_def
        cong: lazy_cong)

text \<open>
  C5. On an I/O reader, a suspending skip whose argument is the constant one prints its
  suspension point, one test for an available byte and the increment of the cursor, and
  leaves the scratch flag of the function as it was; a read of one byte prints its
  suspension point, one such test and the assignment of the byte to a fresh temporary,
  and leaves the flag as it was too. Every other skip marks the function as using its
  scratch slot, which is a field of the private data of the receiver struct and not a
  local variable, assigns the count to that slot before the suspension point, and after
  it prints the test that, on a short read, subtracts the available bytes from the slot,
  moves the cursor to the end of the input and suspends, followed by the advance of the
  cursor by the slot.
\<close>

theorem skip_suspension_lowering:
  "isReaderCall g n mth recv rn \<longrightarrow>
     ((Ident mth = ''read_u8'' \<or> Ident mth = ''read_u8_as_u32'' \<or> Ident mth = ''read_u8_as_u64'' \<longrightarrow>
         writeBuiltinQuestionCall we g n d
           = seqs [writeCoroSuspPoint False,
                   bind (newTemp g) (\<lambda>temp.
                     seqs [writes (shortRead rn),
                           writeCTypeName g (MType n) tPrefix (showNat temp),
                           writes ('' = *iop_'' @ rn @ ''++;\<newline>'')])]
         \<and> usesScratch (currFunk (snd (writeBuiltinQuestionCall we g n d s)))
             = usesScratch (currFunk s))
      \<and> ((Ident mth = ''skip'' \<or> Ident mth = ''skip_u32'') \<and> Args n = (nm, x) # rest \<longrightarrow>
           (ConstValue x = Some 1 \<longrightarrow>
              writeBuiltinQuestionCall we g n d s
                = (case writeCoroSuspPoint False s of
                     (Inl e, s1) \<Rightarrow> (Inl e, s1)
                   | (Inr u, s1) \<Rightarrow>
                       (Inr (), s1\<lparr>buf := buf s1 @ shortRead rn @ ''iop_'' @ rn @ ''++;\<newline>''\<rparr>))
              \<and> usesScratch (currFunk (snd (writeBuiltinQuestionCall we g n d s)))
                  = usesScratch (currFunk s))
           \<and> (ConstValue x \<noteq> Some 1 \<longrightarrow>
                usesScratch (currFunk (snd (writeBuiltinQuestionCall (writeExpr g) g n d s)))
                \<and> take 19 (scratchName (currFunk s)) = ''self->private_data.''
                \<and> (we x False d (s\<lparr>currFunk := (currFunk s)\<lparr>usesScratch := True\<rparr>,
                                    buf := buf s @ scratchName (currFunk s) @ '' = ''\<rparr>) = (Inr (), s1)
                    \<and> writeCoroSuspPoint False (s1\<lparr>buf := buf s1 @ '';\<newline>''\<rparr>) = (Inr (), s2) \<longrightarrow>
                    writeBuiltinQuestionCall we g n d s
                      = (Inr (), s2\<lparr>buf := buf s2 @ skipLoopText (scratchName (currFunk s)) rn\<rparr>)))))"
proof (intro conjI impI)
  assume h: "isReaderCall g n mth recv rn"
  {
    assume m: "Ident mth = ''read_u8'' \<or> Ident mth = ''read_u8_as_u32'' \<or> Ident mth = ''read_u8_as_u64''"
    show "writeBuiltinQuestionCall we g n d
           = seqs [writeCoroSuspPoint False,
                   bind (newTemp g) (\<lambda>temp.
                     seqs [writes (shortRead rn),
                           writeCTypeName g (MType n) tPrefix (showNat temp),
                           writes ('' = *iop_'' @ rn @ ''++;\<newline>'')])]"
      by (rule read_u8_program [OF h m])
    show "usesScratch (currFunk (snd (writeBuiltinQuestionCall we g n d s)))
             = usesScratch (currFunk s)"
      by (rule read_u8_flag [OF h m])
  }
  assume k: "(Ident mth = ''skip'' \<or> Ident mth = ''skip_u32'') \<and> Args n = (nm, x) # rest"
  then have m: "Ident mth = ''skip'' \<or> Ident mth = ''skip_u32''" and a: "Args n = (nm, x) # rest"
    by simp_all
  {
    assume c: "ConstValue x = Some 1"
    show "writeBuiltinQuestionCall we g n d s
                = (case writeCoroSuspPoint False s of
                     (Inl e, s1) \<Rightarrow> (Inl e, s1)
                   | (Inr u, s1) \<Rightarrow>
                       (Inr (), s1\<lparr>buf := buf s1 @ shortRead rn @ ''iop_'' @ rn @ ''++;\<newline>''\<rparr>))"
      by (rule skip_one_run [OF h m a c])
    show "usesScratch (currFunk (snd (writeBuiltinQuestionCall we g n d s)))
                  = usesScratch (currFunk s)"
      by (rule skip_one_flag [OF h m a c])
  }
  assume c: "ConstValue x \<noteq> Some 1"
  show "usesScratch (currFunk (snd (writeBuiltinQuestionCall (writeExpr g) g n d s)))"
    by (rule skip_many_flag [OF h m a c])
  show "take 19 (scratchName (currFunk s)) = ''self->private_data.''"
    by (rule scratchName_private)
  assume r: "we x False d (s\<lparr>currFunk := (currFunk s)\<lparr>usesScratch := True\<rparr>,
                                    buf := buf s @ scratchName (currFunk s) @ '' = ''\<rparr>) = (Inr (), s1)
             \<and> writeCoroSuspPoint False (s1\<lparr>buf := buf s1 @ '';\<newline>''\<rparr>) = (Inr (), s2)"
  show "writeBuiltinQuestionCall we g n d s
          = (Inr (), s2\<lparr>buf := buf s2 @ skipLoopText (scratchName (currFunk s)) rn\<rparr>)"
    using h m a c r by (intro skip_many_run [where we = we and s = s and d = d and x = x and nm = nm
          and rest = rest and mth = mth and recv = recv and ?s1.0 = s1]) simp_all
qed

theorem skip_suspension_lowering_witness:
  "writeBuiltinQuestionCall (writeExpr testGen) testGen skipOne 0 st0
     = (Inr (), st0\<lparr>currFunk := (currFunk st0)\<lparr>coroSuspPoint := 1\<rparr>,
                     buf := ''WUFFS_BASE__COROUTINE_SUSPENSION_POINT(1);\<newline>''
                            @ ''if (WUFFS_BASE__UNLIKELY(iop_a_src == io2_a_src)) {\<newline>''
                            @ ''status = wuffs_base__make_status(wuffs_base__suspension__short_read);\<newline>''
                            @ ''goto suspend;\<newline>}\<newline>''
                            @ ''iop_a_src++;\<newline>''\<rparr>)
   \<and> \<not> usesScratch (currFunk (snd (writeBuiltinQuestionCall (writeExpr testGen) testGen skipOne 0 st0)))
   \<and> \<not> usesScratch (currFunk (snd (writeBuiltinQuestionCall (writeExpr testGen) testGen readByte 0 st0)))
   \<and> usesScratch (currFunk (snd (writeBuiltinQuestionCall (writeExpr testGen) testGen skipMany 0 st0)))
   \<and> writeBuiltinQuestionCall (writeExpr testGen) testGen skipMany 0 st0
     = (Inr (), st0\<lparr>currFunk := (currFunk st0)\<lparr>usesScratch := True, coroSuspPoint := 1\<rparr>,
                     buf := ''self->private_data.s_decode[0].scratch = v_n;\<newline>''
                            @ ''WUFFS_BASE__COROUTINE_SUSPENSION_POINT(1);\<newline>''
                            @ ''if (self->private_data.s_decode[0].scratch > ((uint64_t)(io2_a_src - iop_a_src))) {\<newline>''
                            @ ''self->private_data.s_decode[0].scratch -= ((uint64_t)(io2_a_src - iop_a_src));\<newline>''
                            @ ''iop_a_src = io2_a_src;\<newline>''
                            @ ''status = wuffs_base__make_status(wuffs_base__suspension__short_read);\<newline>''
                            @ ''goto suspend;\<newline>}\<newline>''
                            @ ''iop_a_src += self->private_data.s_decode[0].scratch;\<newline>''\<rparr>)"
proof -
  let ?one = "mkConst 1 (baseType ''u32'')"
  let ?n = "mkIdent ''n'' (baseType ''u64'')"
  let ?sA = "st0\<lparr>currFunk := (currFunk st0)\<lparr>usesScratch := True\<rparr>,
                 buf := ''self->private_data.s_decode[0].scratch = v_n''\<rparr>"
  let ?sB = "st0\<lparr>currFunk := (currFunk st0)\<lparr>usesScratch := True, coroSuspPoint := 1\<rparr>,
                 buf := ''self->private_data.s_decode[0].scratch = v_n;\<newline>''
                        @ ''WUFFS_BASE__COROUTINE_SUSPENSION_POINT(1);\<newline>''\<rparr>"
  have r1: "isReaderCall testGen skipOne (mkDot srcReader ''skip_u32'' (baseType ''empty_struct''))
              srcReader ''a_src''"
    and r2: "isReaderCall testGen skipMany (mkDot srcReader ''skip'' (baseType ''empty_struct''))
              srcReader ''a_src''"
    and r3: "isReaderCall testGen readByte (mkDot srcReader ''read_u8'' (baseType ''u8''))
              srcReader ''a_src''"
    by (simp_all add: isReaderCall_def skipOne_def skipMany_def readByte_def srcReader_def
          recvName_def mk_defs gen_defs prefix_defs)
  have i1: "Ident (mkDot srcReader ''skip_u32'' (baseType ''empty_struct'')) = ''skip''
            \<or> Ident (mkDot srcReader ''skip_u32'' (baseType ''empty_struct'')) = ''skip_u32''"
    and i2: "Ident (mkDot srcReader ''skip'' (baseType ''empty_struct'')) = ''skip''
            \<or> Ident (mkDot srcReader ''skip'' (baseType ''empty_struct'')) = ''skip_u32''"
    and i3: "Ident (mkDot srcReader ''read_u8'' (baseType ''u8'')) = ''read_u8''
            \<or> Ident (mkDot srcReader ''read_u8'' (baseType ''u8'')) = ''read_u8_as_u32''
            \<or> Ident (mkDot srcReader ''read_u8'' (baseType ''u8'')) = ''read_u8_as_u64''"
    by (simp_all add: mk_defs)
  have a1: "Args skipOne = (''n'', ?one) # []" and a2: "Args skipMany = (''n'', ?n) # []"
    by (simp_all add: skipOne_def skipMany_def mk_defs)
  have c1: "ConstValue ?one = Some 1" and c2: "ConstValue ?n \<noteq> Some 1"
    by (simp_all add: mk_defs)
  have k1: "(Ident (mkDot srcReader ''skip_u32'' (baseType ''empty_struct'')) = ''skip''
             \<or> Ident (mkDot srcReader ''skip_u32'' (baseType ''empty_struct'')) = ''skip_u32'')
            \<and> Args skipOne = (''n'', ?one) # []"
    using i1 a1 by blast
  have k2: "(Ident (mkDot srcReader ''skip'' (baseType ''empty_struct'')) = ''skip''
             \<or> Ident (mkDot srcReader ''skip'' (baseType ''empty_struct'')) = ''skip_u32'')
            \<and> Args skipMany = (''n'', ?n) # []"
    using i2 a2 by blast
  note t1 = skip_suspension_lowering
    [where g = testGen and n = skipOne and mth = "mkDot srcReader ''skip_u32'' (baseType ''empty_struct'')"
       and recv = srcReader and rn = "''a_src''" and we = "writeExpr testGen" and d = 0 and s = st0
       and nm = "''n''" and x = ?one and rest = "[]",
     rule_format, OF r1, THEN conjunct2, rule_format, OF k1, THEN conjunct1, rule_format, OF c1]
  note t2 = skip_suspension_lowering
    [where g = testGen and n = skipMany and mth = "mkDot srcReader ''skip'' (baseType ''empty_struct'')"
       and recv = srcReader and rn = "''a_src''" and we = "writeExpr testGen" and d = 0 and s = st0
       and nm = "''n''" and x = ?n and rest = "[]" and ?s1.0 = ?sA and ?s2.0 = ?sB,
     rule_format, OF r2, THEN conjunct2, rule_format, OF k2, THEN conjunct2, rule_format, OF c2]
  note t3 = skip_suspension_lowering
    [where g = testGen and n = readByte and mth = "mkDot srcReader ''read_u8'' (baseType ''u8'')"
       and recv = srcReader and rn = "''a_src''" and we = "writeExpr testGen" and d = 0 and s = st0,
     rule_format, OF r3, THEN conjunct1, rule_format, OF i3]
  have susp: "writeCoroSuspPoint False st0
                = (Inr (), st0\<lparr>currFunk := (currFunk st0)\<lparr>coroSuspPoint := 1\<rparr>,
                                buf := ''WUFFS_BASE__COROUTINE_SUSPENSION_POINT(1);\<newline>''\<rparr>)"
    by (simp add: writeCoroSuspPoint_def apply_simps st0_def showNat.simps digitChar_def)
  have 1: "writeBuiltinQuestionCall (writeExpr testGen) testGen skipOne 0 st0
     = (Inr (), st0\<lparr>currFunk := (currFunk st0)\<lparr>coroSuspPoint := 1\<rparr>,
                     buf := ''WUFFS_BASE__COROUTINE_SUSPENSION_POINT(1);\<newline>''
                            @ ''if (WUFFS_BASE__UNLIKELY(iop_a_src == io2_a_src)) {\<newline>''
                            @ ''status = wuffs_base__make_status(wuffs_base__suspension__short_read);\<newline>''
                            @ ''goto suspend;\<newline>}\<newline>''
                            @ ''iop_a_src++;\<newline>''\<rparr>)"
    unfolding t1 [THEN conjunct1] susp by (simp add: shortRead_def st0_def)
  have 2: "\<not> usesScratch (currFunk (snd (writeBuiltinQuestionCall (writeExpr testGen) testGen skipOne 0 st0)))"
    unfolding t1 [THEN conjunct2] by (simp add: st0_def)
  have 3: "\<not> usesScratch (currFunk (snd (writeBuiltinQuestionCall (writeExpr testGen) testGen readByte 0 st0)))"
    unfolding t3 [THEN conjunct2] by (simp add: st0_def)
  have 4: "usesScratch (currFunk (snd (writeBuiltinQuestionCall (writeExpr testGen) testGen skipMany 0 st0)))"
    by (rule t2 [THEN conjunct1])
  have w: "writeExpr testGen ?n False 0
             (st0\<lparr>currFunk := (currFunk st0)\<lparr>usesScratch := True\<rparr>,
                   buf := buf st0 @ scratchName (currFunk st0) @ '' = ''\<rparr>) = (Inr (), ?sA)"
    by (simp add: eval_defs scratchName_def cong: lazy_cong)
  have v: "writeCoroSuspPoint False (?sA\<lparr>buf := buf ?sA @ '';\<newline>''\<rparr>) = (Inr (), ?sB)"
    by (simp add: writeCoroSuspPoint_def apply_simps st0_def showNat.simps digitChar_def)
  have 5: "writeBuiltinQuestionCall (writeExpr testGen) testGen skipMany 0 st0
     = (Inr (), st0\<lparr>currFunk := (currFunk st0)\<lparr>usesScratch := True, coroSuspPoint := 1\<rparr>,
                     buf := ''self->private_data.s_decode[0].scratch = v_n;\<newline>''
                            @ ''WUFFS_BASE__COROUTINE_SUSPENSION_POINT(1);\<newline>''
                            @ ''if (self->private_data.s_decode[0].scratch > ((uint64_t)(io2_a_src - iop_a_src))) {\<newline>''
                            @ ''self->private_data.s_decode[0].scratch -= ((uint64_t)(io2_a_src - iop_a_src));\<newline>''
                            @ ''iop_a_src = io2_a_src;\<newline>''
                            @ ''status = wuffs_base__make_status(wuffs_base__suspension__short_read);\<newline>''
                            @ ''goto suspend;\<newline>}\<newline>''
                            @ ''iop_a_src += self->private_data.s_decode[0].scratch;\<newline>''\<rparr>)"
    unfolding t2 [THEN conjunct2, THEN conjunct2, rule_format, OF conjI [OF w v]]
    by (simp add: skipLoopText_def scratchName_def st0_def prefix_defs)
  from 1 2 3 4 5 show ?thesis
    by blast
qed

section \<open>Packing a token\<close>

lemma token_text:
  assumes "mth = ''write_simple_token_fast'' \<or> mth = ''write_extended_token_fast''"
    "recvName recv = Inr rn" "2 \<le> length args"
    "\<And>x s. x \<in> snd ` set args \<Longrightarrow> we x False d s = (Inr (), s\<lparr>buf := buf s @ argText x\<rparr>)"
  shows "writeBuiltinTokenWriter we recv mth args d s
         = (Inr (), s\<lparr>buf := buf s @ renderToken argText rn (tokenFields mth (map snd args))\<rparr>)"
proof -
  define x0 where "x0 = snd (args ! 0)"
  define x1 where "x1 = snd (args ! 1)"
  define x2 where "x2 = snd (args ! (length args - 2))"
  define x3 where "x3 = snd (args ! (length args - 1))"
  have i: "0 < length args" "1 < length args" "length args - 2 < length args"
    "length args - 1 < length args"
    using assms(3) by auto
  have m: "i < length args \<Longrightarrow> we (snd (args ! i)) False d = writes (argText (snd (args ! i)))" for i
    using assms(4) [of "snd (args ! i)"] by (intro ext) (simp add: writes_apply)
  have w: "we x0 False d = writes (argText x0)" "we x1 False d = writes (argText x1)"
    "we x2 False d = writes (argText x2)" "we x3 False d = writes (argText x3)"
    unfolding x0_def x1_def x2_def x3_def using i by (simp_all only: m)
  have a: "argValue args 0 = return x0" "argValue args 1 = return x1"
    "argValue args (length args - 2) = return x2"
    "argValue args (length args - 1) = return x3"
    unfolding x0_def x1_def x2_def x3_def using i by (simp_all add: argValue_def elemAt_def)
  have n: "map snd args ! 0 = x0" "map snd args ! 1 = x1"
    "map snd args ! (length (map snd args) - 2) = x2"
    "map snd args ! (length (map snd args) - 1) = x3"
    unfolding x0_def x1_def x2_def x3_def using i by simp_all
  have l: "\<not> length args < 2"
    using assms(3) by simp
  from assms(1) show ?thesis
  proof
    assume s: "mth = ''write_simple_token_fast''"
    show ?thesis
      unfolding writeBuiltinTokenWriter_def tokenFields_def renderToken_def a n
      by (cases "notConstZero x0"; cases "notConstZero x2")
         (simp_all add: s assms(2) l w whenM_def apply_simps)
  next
    assume s: "mth = ''write_extended_token_fast''"
    show ?thesis
      unfolding writeBuiltinTokenWriter_def tokenFields_def renderToken_def a n
      by (cases "notConstZero x2")
         (simp_all add: s assms(2) l w whenM_def apply_simps)
  qed
qed

lemma small_take_bit:
  fixes w :: "'a::len word"
  assumes "unat w < 2 ^ k"
  shows "take_bit k w = w"
proof -
  have "take_bit k (unat w) = unat w"
    using assms by (simp add: take_bit_nat_eq_self)
  then have "unat (take_bit k w) = unat w"
    by (simp add: unsigned_take_bit_eq)
  then show ?thesis
    by (simp add: word_unat_eq_iff)
qed

lemma small_bit:
  fixes w :: "'a::len word"
  assumes "unat w < 2 ^ k" "k \<le> n"
  shows "\<not> bit w n"
proof -
  have "bit w n = bit (take_bit k w) n"
    using small_take_bit [OF assms(1)] by simp
  then show ?thesis
    using assms(2) by (simp add: bit_take_bit_iff)
qed

lemma decode_field:
  fixes hi x lo :: "64 word"
  assumes "unat x < 2 ^ k" "s + k \<le> t" "unat lo < 2 ^ s" "t \<le> 64"
  shows "take_bit k (drop_bit s (push_bit t hi OR push_bit s x OR lo)) = x"
proof (rule bit_word_eqI)
  fix n
  assume n: "n < LENGTH(64)"
  show "bit (take_bit k (drop_bit s (push_bit t hi OR push_bit s x OR lo))) n = bit x n"
  proof (cases "n < k")
    case True
    then have "\<not> bit lo (s + n)"
      using small_bit [OF assms(3), of "s + n"] by simp
    moreover have "\<not> t \<le> s + n"
      using True assms(2) by simp
    moreover have "s + n < 64"
      using True assms(2,4) by simp
    ultimately show ?thesis
      using True n by (auto simp: bit_simps)
  next
    case False
    then have "\<not> bit x n"
      using small_bit [OF assms(1), of n] by simp
    then show ?thesis
      using False by (simp add: bit_simps)
  qed
qed


lemma decode_bits:
  fixes v x :: "64 word"
  assumes "\<And>n. n < k \<Longrightarrow> bit v (s + n) = bit x n" "unat x < 2 ^ k"
  shows "take_bit k (drop_bit s v) = x"
proof (rule bit_word_eqI)
  fix n
  assume "n < LENGTH(64)"
  show "bit (take_bit k (drop_bit s v)) n = bit x n"
  proof (cases "n < k")
    case True
    then show ?thesis
      using assms(1) [of n] by (simp add: bit_simps)
  next
    case False
    then have "\<not> bit x n"
      using small_bit [OF assms(2), of n] by simp
    then show ?thesis
      using False by (simp add: bit_simps)
  qed
qed

lemma decode4:
  fixes a b c e :: "64 word"
  assumes ord: "l \<le> cs" "cs \<le> m" "m \<le> M" "M \<le> 64"
    and ra: "unat a < 2 ^ (64 - M)" and rb: "unat b < 2 ^ (M - m)"
    and rc: "unat c < 2 ^ (m - cs)" and re: "unat e < 2 ^ (cs - l)"
  shows "take_bit (64 - M) (drop_bit M (push_bit M a OR push_bit m b OR push_bit cs c OR push_bit l e)) = a"
    and "take_bit (M - m) (drop_bit m (push_bit M a OR push_bit m b OR push_bit cs c OR push_bit l e)) = b"
    and "take_bit (m - cs) (drop_bit cs (push_bit M a OR push_bit m b OR push_bit cs c OR push_bit l e)) = c"
    and "take_bit (cs - l) (drop_bit l (push_bit M a OR push_bit m b OR push_bit cs c OR push_bit l e)) = e"
proof -
  note sa = small_bit [OF ra] and sb = small_bit [OF rb] and sc = small_bit [OF rc]
    and se = small_bit [OF re]
  show "take_bit (64 - M) (drop_bit M (push_bit M a OR push_bit m b OR push_bit cs c OR push_bit l e)) = a"
  proof (rule decode_bits [OF _ ra])
    fix n assume n: "n < 64 - M"
    have "\<not> bit b (M + n - m)" "\<not> bit c (M + n - cs)" "\<not> bit e (M + n - l)"
      using ord by (auto intro!: sb sc se)
    then show "bit (push_bit M a OR push_bit m b OR push_bit cs c OR push_bit l e) (M + n) = bit a n"
      using n ord by (auto simp: bit_simps)
  qed
  show "take_bit (M - m) (drop_bit m (push_bit M a OR push_bit m b OR push_bit cs c OR push_bit l e)) = b"
  proof (rule decode_bits [OF _ rb])
    fix n assume n: "n < M - m"
    have "\<not> bit c (m + n - cs)" "\<not> bit e (m + n - l)"
      using ord by (auto intro!: sc se)
    then show "bit (push_bit M a OR push_bit m b OR push_bit cs c OR push_bit l e) (m + n) = bit b n"
      using n ord by (auto simp: bit_simps)
  qed
  show "take_bit (m - cs) (drop_bit cs (push_bit M a OR push_bit m b OR push_bit cs c OR push_bit l e)) = c"
  proof (rule decode_bits [OF _ rc])
    fix n assume n: "n < m - cs"
    have "\<not> bit e (cs + n - l)"
      using ord by (auto intro!: se)
    then show "bit (push_bit M a OR push_bit m b OR push_bit cs c OR push_bit l e) (cs + n) = bit c n"
      using n ord by (auto simp: bit_simps)
  qed
  show "take_bit (cs - l) (drop_bit l (push_bit M a OR push_bit m b OR push_bit cs c OR push_bit l e)) = e"
  proof (rule decode_bits [OF _ re])
    fix n assume n: "n < cs - l"
    then show "bit (push_bit M a OR push_bit m b OR push_bit cs c OR push_bit l e) (l + n) = bit e n"
      using ord by (auto simp: bit_simps)
  qed
qed

lemma decode3:
  fixes x c e :: "64 word"
  assumes ord: "l \<le> cs" "cs \<le> E" "E \<le> 64"
    and rx: "unat x < 2 ^ (64 - E)"
    and rc: "unat c < 2 ^ (E - cs)" and re: "unat e < 2 ^ (cs - l)"
  shows "take_bit (64 - E) (drop_bit E (NOT (push_bit E (NOT x) OR push_bit cs c OR push_bit l e))) = x"
    and "take_bit (E - cs) (drop_bit cs (push_bit E (NOT x) OR push_bit cs c OR push_bit l e)) = c"
    and "take_bit (cs - l) (drop_bit l (push_bit E (NOT x) OR push_bit cs c OR push_bit l e)) = e"
proof -
  note sc = small_bit [OF rc] and se = small_bit [OF re]
  show "take_bit (64 - E) (drop_bit E (NOT (push_bit E (NOT x) OR push_bit cs c OR push_bit l e))) = x"
  proof (rule decode_bits [OF _ rx])
    fix n assume n: "n < 64 - E"
    have "\<not> bit c (E + n - cs)" "\<not> bit e (E + n - l)"
      using ord by (auto intro!: sc se)
    then show "bit (NOT (push_bit E (NOT x) OR push_bit cs c OR push_bit l e)) (E + n) = bit x n"
      using n ord by (auto simp: bit_simps)
  qed
  show "take_bit (E - cs) (drop_bit cs (push_bit E (NOT x) OR push_bit cs c OR push_bit l e)) = c"
  proof (rule decode_bits [OF _ rc])
    fix n assume n: "n < E - cs"
    have "\<not> bit e (cs + n - l)"
      using ord by (auto intro!: se)
    then show "bit (push_bit E (NOT x) OR push_bit cs c OR push_bit l e) (cs + n) = bit c n"
      using n ord by (auto simp: bit_simps)
  qed
  show "take_bit (cs - l) (drop_bit l (push_bit E (NOT x) OR push_bit cs c OR push_bit l e)) = e"
  proof (rule decode_bits [OF _ re])
    fix n assume n: "n < cs - l"
    then show "bit (push_bit E (NOT x) OR push_bit cs c OR push_bit l e) (l + n) = bit e n"
      using ord by (auto simp: bit_simps)
  qed
qed

lemma omitted_zero:
  assumes "\<forall>cv. ConstValue x = Some cv \<longrightarrow> val x = word_of_int cv" "\<not> notConstZero x"
  shows "val x = 0"
proof -
  from assms(2) have "ConstValue x = Some 0"
    by (simp add: notConstZero_def split: option.splits)
  with assms(1) show ?thesis
    by simp
qed

lemma evalFields_simple:
  assumes "\<forall>cv. ConstValue xMajor = Some cv \<longrightarrow> val xMajor = word_of_int cv"
    "\<forall>cv. ConstValue xCont = Some cv \<longrightarrow> val xCont = word_of_int cv"
  shows "evalFields L val (tokenFields ''write_simple_token_fast'' [xMajor, xMinor, xCont, xLen])
         = Some (push_bit (VALUE_MAJOR__SHIFT L) (val xMajor) OR push_bit (VALUE_MINOR__SHIFT L) (val xMinor)
                 OR push_bit (CONTINUED__SHIFT L) (val xCont) OR push_bit (LENGTH__SHIFT L) (val xLen))"
  using omitted_zero [where val = val and x = xMajor, OF assms(1)]
    omitted_zero [where val = val and x = xCont, OF assms(2)]
  by (simp add: tokenFields_def)

lemma evalFields_extended:
  assumes "isU64 xExt" "\<forall>cv. ConstValue xCont = Some cv \<longrightarrow> val xCont = word_of_int cv"
  shows "evalFields L val (tokenFields ''write_extended_token_fast'' [xExt, xCont, xLen])
         = Some (push_bit (VALUE_EXTENSION__SHIFT L) (NOT (val xExt))
                 OR push_bit (CONTINUED__SHIFT L) (val xCont) OR push_bit (LENGTH__SHIFT L) (val xLen))"
  using assms(1) omitted_zero [where val = val and x = xCont, OF assms(2)]
  by (simp add: tokenFields_def)

text \<open>
  C1. When every argument is written as its own text, a call of
  \<^verbatim>\<open>write_simple_token_fast\<close> or \<^verbatim>\<open>write_extended_token_fast\<close> on a token writer prints the
  assignment of \<^verbatim>\<open>wuffs_base__make_token\<close> of the bitwise or of its sub-fields, each shifted by
  its macro. When the value of each argument that carries a folded constant is that
  constant, the value of the expression for the simple token is the or of the four
  arguments shifted by the major, minor, continued and length shifts, also when a
  sub-field is left out, and, when the fields fit between the shifts, shifting it to
  the right and masking gives back each of the four arguments. For the extended token
  the major and minor values are replaced by the complement of the extension value
  shifted by the extension shift; for an extension value of type \<^verbatim>\<open>uint64_t\<close> the
  complement of the token gives back the extension value.
\<close>

theorem token_packing:
  "((mth = ''write_simple_token_fast'' \<or> mth = ''write_extended_token_fast'')
      \<and> recvName recv = Inr rn \<and> 2 \<le> length args
      \<and> (\<forall>x \<in> snd ` set args. \<forall>s. we x False d s = (Inr (), s\<lparr>buf := buf s @ argText x\<rparr>)) \<longrightarrow>
      writeBuiltinTokenWriter we recv mth args d s
        = (Inr (), s\<lparr>buf := buf s @ renderToken argText rn (tokenFields mth (map snd args))\<rparr>))
   \<and> ((\<forall>cv. ConstValue xMajor = Some cv \<longrightarrow> val xMajor = word_of_int cv)
        \<and> (\<forall>cv. ConstValue xCont = Some cv \<longrightarrow> val xCont = word_of_int cv)
        \<and> LENGTH__SHIFT L \<le> CONTINUED__SHIFT L \<and> CONTINUED__SHIFT L \<le> VALUE_MINOR__SHIFT L
        \<and> VALUE_MINOR__SHIFT L \<le> VALUE_MAJOR__SHIFT L \<and> VALUE_MAJOR__SHIFT L \<le> 64
        \<and> unat (val xMajor) < 2 ^ (64 - VALUE_MAJOR__SHIFT L)
        \<and> unat (val xMinor) < 2 ^ (VALUE_MAJOR__SHIFT L - VALUE_MINOR__SHIFT L)
        \<and> unat (val xCont) < 2 ^ (VALUE_MINOR__SHIFT L - CONTINUED__SHIFT L)
        \<and> unat (val xLen) < 2 ^ (CONTINUED__SHIFT L - LENGTH__SHIFT L) \<longrightarrow>
        evalFields L val (tokenFields ''write_simple_token_fast'' [xMajor, xMinor, xCont, xLen])
          = Some (push_bit (VALUE_MAJOR__SHIFT L) (val xMajor) OR push_bit (VALUE_MINOR__SHIFT L) (val xMinor)
                  OR push_bit (CONTINUED__SHIFT L) (val xCont) OR push_bit (LENGTH__SHIFT L) (val xLen))
        \<and> map_option (\<lambda>v. take_bit (64 - VALUE_MAJOR__SHIFT L) (drop_bit (VALUE_MAJOR__SHIFT L) v))
              (evalFields L val (tokenFields ''write_simple_token_fast'' [xMajor, xMinor, xCont, xLen]))
            = Some (val xMajor)
        \<and> map_option (\<lambda>v. take_bit (VALUE_MAJOR__SHIFT L - VALUE_MINOR__SHIFT L)
                              (drop_bit (VALUE_MINOR__SHIFT L) v))
              (evalFields L val (tokenFields ''write_simple_token_fast'' [xMajor, xMinor, xCont, xLen]))
            = Some (val xMinor)
        \<and> map_option (\<lambda>v. take_bit (VALUE_MINOR__SHIFT L - CONTINUED__SHIFT L)
                              (drop_bit (CONTINUED__SHIFT L) v))
              (evalFields L val (tokenFields ''write_simple_token_fast'' [xMajor, xMinor, xCont, xLen]))
            = Some (val xCont)
        \<and> map_option (\<lambda>v. take_bit (CONTINUED__SHIFT L - LENGTH__SHIFT L) (drop_bit (LENGTH__SHIFT L) v))
              (evalFields L val (tokenFields ''write_simple_token_fast'' [xMajor, xMinor, xCont, xLen]))
            = Some (val xLen))
   \<and> (isU64 xExt
        \<and> (\<forall>cv. ConstValue xCont = Some cv \<longrightarrow> val xCont = word_of_int cv)
        \<and> LENGTH__SHIFT L \<le> CONTINUED__SHIFT L \<and> CONTINUED__SHIFT L \<le> VALUE_EXTENSION__SHIFT L
        \<and> VALUE_EXTENSION__SHIFT L \<le> 64
        \<and> unat (val xExt) < 2 ^ (64 - VALUE_EXTENSION__SHIFT L)
        \<and> unat (val xCont) < 2 ^ (VALUE_EXTENSION__SHIFT L - CONTINUED__SHIFT L)
        \<and> unat (val xLen) < 2 ^ (CONTINUED__SHIFT L - LENGTH__SHIFT L) \<longrightarrow>
        evalFields L val (tokenFields ''write_extended_token_fast'' [xExt, xCont, xLen])
          = Some (push_bit (VALUE_EXTENSION__SHIFT L) (NOT (val xExt))
                  OR push_bit (CONTINUED__SHIFT L) (val xCont) OR push_bit (LENGTH__SHIFT L) (val xLen))
        \<and> map_option (\<lambda>v. take_bit (64 - VALUE_EXTENSION__SHIFT L)
                              (drop_bit (VALUE_EXTENSION__SHIFT L) (NOT v)))
              (evalFields L val (tokenFields ''write_extended_token_fast'' [xExt, xCont, xLen]))
            = Some (val xExt)
        \<and> map_option (\<lambda>v. take_bit (VALUE_EXTENSION__SHIFT L - CONTINUED__SHIFT L)
                              (drop_bit (CONTINUED__SHIFT L) v))
              (evalFields L val (tokenFields ''write_extended_token_fast'' [xExt, xCont, xLen]))
            = Some (val xCont)
        \<and> map_option (\<lambda>v. take_bit (CONTINUED__SHIFT L - LENGTH__SHIFT L) (drop_bit (LENGTH__SHIFT L) v))
              (evalFields L val (tokenFields ''write_extended_token_fast'' [xExt, xCont, xLen]))
            = Some (val xLen))"
proof (intro conjI)
  show "(mth = ''write_simple_token_fast'' \<or> mth = ''write_extended_token_fast'')
      \<and> recvName recv = Inr rn \<and> 2 \<le> length args
      \<and> (\<forall>x \<in> snd ` set args. \<forall>s. we x False d s = (Inr (), s\<lparr>buf := buf s @ argText x\<rparr>)) \<longrightarrow>
      writeBuiltinTokenWriter we recv mth args d s
        = (Inr (), s\<lparr>buf := buf s @ renderToken argText rn (tokenFields mth (map snd args))\<rparr>)"
  proof
    assume h: "(mth = ''write_simple_token_fast'' \<or> mth = ''write_extended_token_fast'')
      \<and> recvName recv = Inr rn \<and> 2 \<le> length args
      \<and> (\<forall>x \<in> snd ` set args. \<forall>s. we x False d s = (Inr (), s\<lparr>buf := buf s @ argText x\<rparr>))"
    then have w: "\<And>x s. x \<in> snd ` set args \<Longrightarrow> we x False d s = (Inr (), s\<lparr>buf := buf s @ argText x\<rparr>)"
      by blast
    from h show "writeBuiltinTokenWriter we recv mth args d s
        = (Inr (), s\<lparr>buf := buf s @ renderToken argText rn (tokenFields mth (map snd args))\<rparr>)"
      by (intro token_text [where argText = argText and rn = rn] w) simp_all
  qed
next
  let ?v = "evalFields L val (tokenFields ''write_simple_token_fast'' [xMajor, xMinor, xCont, xLen])"
  let ?r = "push_bit (VALUE_MAJOR__SHIFT L) (val xMajor) OR push_bit (VALUE_MINOR__SHIFT L) (val xMinor)
            OR push_bit (CONTINUED__SHIFT L) (val xCont) OR push_bit (LENGTH__SHIFT L) (val xLen)"
  show "(\<forall>cv. ConstValue xMajor = Some cv \<longrightarrow> val xMajor = word_of_int cv)
        \<and> (\<forall>cv. ConstValue xCont = Some cv \<longrightarrow> val xCont = word_of_int cv)
        \<and> LENGTH__SHIFT L \<le> CONTINUED__SHIFT L \<and> CONTINUED__SHIFT L \<le> VALUE_MINOR__SHIFT L
        \<and> VALUE_MINOR__SHIFT L \<le> VALUE_MAJOR__SHIFT L \<and> VALUE_MAJOR__SHIFT L \<le> 64
        \<and> unat (val xMajor) < 2 ^ (64 - VALUE_MAJOR__SHIFT L)
        \<and> unat (val xMinor) < 2 ^ (VALUE_MAJOR__SHIFT L - VALUE_MINOR__SHIFT L)
        \<and> unat (val xCont) < 2 ^ (VALUE_MINOR__SHIFT L - CONTINUED__SHIFT L)
        \<and> unat (val xLen) < 2 ^ (CONTINUED__SHIFT L - LENGTH__SHIFT L) \<longrightarrow>
        ?v = Some ?r
        \<and> map_option (\<lambda>v. take_bit (64 - VALUE_MAJOR__SHIFT L) (drop_bit (VALUE_MAJOR__SHIFT L) v)) ?v
            = Some (val xMajor)
        \<and> map_option (\<lambda>v. take_bit (VALUE_MAJOR__SHIFT L - VALUE_MINOR__SHIFT L)
                              (drop_bit (VALUE_MINOR__SHIFT L) v)) ?v
            = Some (val xMinor)
        \<and> map_option (\<lambda>v. take_bit (VALUE_MINOR__SHIFT L - CONTINUED__SHIFT L)
                              (drop_bit (CONTINUED__SHIFT L) v)) ?v
            = Some (val xCont)
        \<and> map_option (\<lambda>v. take_bit (CONTINUED__SHIFT L - LENGTH__SHIFT L) (drop_bit (LENGTH__SHIFT L) v)) ?v
            = Some (val xLen)"
  proof
    assume h: "(\<forall>cv. ConstValue xMajor = Some cv \<longrightarrow> val xMajor = word_of_int cv)
        \<and> (\<forall>cv. ConstValue xCont = Some cv \<longrightarrow> val xCont = word_of_int cv)
        \<and> LENGTH__SHIFT L \<le> CONTINUED__SHIFT L \<and> CONTINUED__SHIFT L \<le> VALUE_MINOR__SHIFT L
        \<and> VALUE_MINOR__SHIFT L \<le> VALUE_MAJOR__SHIFT L \<and> VALUE_MAJOR__SHIFT L \<le> 64
        \<and> unat (val xMajor) < 2 ^ (64 - VALUE_MAJOR__SHIFT L)
        \<and> unat (val xMinor) < 2 ^ (VALUE_MAJOR__SHIFT L - VALUE_MINOR__SHIFT L)
        \<and> unat (val xCont) < 2 ^ (VALUE_MINOR__SHIFT L - CONTINUED__SHIFT L)
        \<and> unat (val xLen) < 2 ^ (CONTINUED__SHIFT L - LENGTH__SHIFT L)"
    then have e: "?v = Some ?r"
      by (intro evalFields_simple) blast+
    from h have ord: "LENGTH__SHIFT L \<le> CONTINUED__SHIFT L" "CONTINUED__SHIFT L \<le> VALUE_MINOR__SHIFT L"
      "VALUE_MINOR__SHIFT L \<le> VALUE_MAJOR__SHIFT L" "VALUE_MAJOR__SHIFT L \<le> 64"
      and r: "unat (val xMajor) < 2 ^ (64 - VALUE_MAJOR__SHIFT L)"
        "unat (val xMinor) < 2 ^ (VALUE_MAJOR__SHIFT L - VALUE_MINOR__SHIFT L)"
        "unat (val xCont) < 2 ^ (VALUE_MINOR__SHIFT L - CONTINUED__SHIFT L)"
        "unat (val xLen) < 2 ^ (CONTINUED__SHIFT L - LENGTH__SHIFT L)"
      by blast+
    note dd = decode4 [OF ord r]
    show "?v = Some ?r
        \<and> map_option (\<lambda>v. take_bit (64 - VALUE_MAJOR__SHIFT L) (drop_bit (VALUE_MAJOR__SHIFT L) v)) ?v
            = Some (val xMajor)
        \<and> map_option (\<lambda>v. take_bit (VALUE_MAJOR__SHIFT L - VALUE_MINOR__SHIFT L)
                              (drop_bit (VALUE_MINOR__SHIFT L) v)) ?v
            = Some (val xMinor)
        \<and> map_option (\<lambda>v. take_bit (VALUE_MINOR__SHIFT L - CONTINUED__SHIFT L)
                              (drop_bit (CONTINUED__SHIFT L) v)) ?v
            = Some (val xCont)
        \<and> map_option (\<lambda>v. take_bit (CONTINUED__SHIFT L - LENGTH__SHIFT L) (drop_bit (LENGTH__SHIFT L) v)) ?v
            = Some (val xLen)"
      unfolding e option.map using dd by (intro conjI refl) (simp_all only:)
  qed
next
  let ?v = "evalFields L val (tokenFields ''write_extended_token_fast'' [xExt, xCont, xLen])"
  let ?r = "push_bit (VALUE_EXTENSION__SHIFT L) (NOT (val xExt))
            OR push_bit (CONTINUED__SHIFT L) (val xCont) OR push_bit (LENGTH__SHIFT L) (val xLen)"
  show "isU64 xExt
        \<and> (\<forall>cv. ConstValue xCont = Some cv \<longrightarrow> val xCont = word_of_int cv)
        \<and> LENGTH__SHIFT L \<le> CONTINUED__SHIFT L \<and> CONTINUED__SHIFT L \<le> VALUE_EXTENSION__SHIFT L
        \<and> VALUE_EXTENSION__SHIFT L \<le> 64
        \<and> unat (val xExt) < 2 ^ (64 - VALUE_EXTENSION__SHIFT L)
        \<and> unat (val xCont) < 2 ^ (VALUE_EXTENSION__SHIFT L - CONTINUED__SHIFT L)
        \<and> unat (val xLen) < 2 ^ (CONTINUED__SHIFT L - LENGTH__SHIFT L) \<longrightarrow>
        ?v = Some ?r
        \<and> map_option (\<lambda>v. take_bit (64 - VALUE_EXTENSION__SHIFT L)
                              (drop_bit (VALUE_EXTENSION__SHIFT L) (NOT v))) ?v
            = Some (val xExt)
        \<and> map_option (\<lambda>v. take_bit (VALUE_EXTENSION__SHIFT L - CONTINUED__SHIFT L)
                              (drop_bit (CONTINUED__SHIFT L) v)) ?v
            = Some (val xCont)
        \<and> map_option (\<lambda>v. take_bit (CONTINUED__SHIFT L - LENGTH__SHIFT L) (drop_bit (LENGTH__SHIFT L) v)) ?v
            = Some (val xLen)"
  proof
    assume h: "isU64 xExt
        \<and> (\<forall>cv. ConstValue xCont = Some cv \<longrightarrow> val xCont = word_of_int cv)
        \<and> LENGTH__SHIFT L \<le> CONTINUED__SHIFT L \<and> CONTINUED__SHIFT L \<le> VALUE_EXTENSION__SHIFT L
        \<and> VALUE_EXTENSION__SHIFT L \<le> 64
        \<and> unat (val xExt) < 2 ^ (64 - VALUE_EXTENSION__SHIFT L)
        \<and> unat (val xCont) < 2 ^ (VALUE_EXTENSION__SHIFT L - CONTINUED__SHIFT L)
        \<and> unat (val xLen) < 2 ^ (CONTINUED__SHIFT L - LENGTH__SHIFT L)"
    then have e: "?v = Some ?r"
      by (intro evalFields_extended) blast+
    from h have ord: "LENGTH__SHIFT L \<le> CONTINUED__SHIFT L" "CONTINUED__SHIFT L \<le> VALUE_EXTENSION__SHIFT L"
      "VALUE_EXTENSION__SHIFT L \<le> 64"
      and r: "unat (val xExt) < 2 ^ (64 - VALUE_EXTENSION__SHIFT L)"
        "unat (val xCont) < 2 ^ (VALUE_EXTENSION__SHIFT L - CONTINUED__SHIFT L)"
        "unat (val xLen) < 2 ^ (CONTINUED__SHIFT L - LENGTH__SHIFT L)"
      by blast+
    note dd = decode3 [OF ord r]
    show "?v = Some ?r
        \<and> map_option (\<lambda>v. take_bit (64 - VALUE_EXTENSION__SHIFT L)
                              (drop_bit (VALUE_EXTENSION__SHIFT L) (NOT v))) ?v
            = Some (val xExt)
        \<and> map_option (\<lambda>v. take_bit (VALUE_EXTENSION__SHIFT L - CONTINUED__SHIFT L)
                              (drop_bit (CONTINUED__SHIFT L) v)) ?v
            = Some (val xCont)
        \<and> map_option (\<lambda>v. take_bit (CONTINUED__SHIFT L - LENGTH__SHIFT L) (drop_bit (LENGTH__SHIFT L) v)) ?v
            = Some (val xLen)"
      unfolding e option.map using dd by (intro conjI refl) (simp_all only:)
  qed
qed

theorem token_packing_witness:
  "writeBuiltinTokenWriter (writeExpr testGen) tokenDst ''write_simple_token_fast'' simpleTokenArgs 0 st0
     = (Inr (), st0\<lparr>buf := ''*iop_a_dst++ = wuffs_base__make_token(\<newline>''
                            @ ''(((uint64_t)(5)) << WUFFS_BASE__TOKEN__VALUE_MINOR__SHIFT) |\<newline>''
                            @ ''(((uint64_t)(1)) << WUFFS_BASE__TOKEN__CONTINUED__SHIFT) |\<newline>''
                            @ ''(((uint64_t)(10)) << WUFFS_BASE__TOKEN__LENGTH__SHIFT))''\<rparr>)
   \<and> evalFields exampleLayout exampleVal
         (tokenFields ''write_simple_token_fast'' (map snd simpleTokenArgs)) = Some 720906
   \<and> map_option (\<lambda>v. take_bit 22 (drop_bit 42 v))
         (evalFields exampleLayout exampleVal
            (tokenFields ''write_simple_token_fast'' (map snd simpleTokenArgs))) = Some 0
   \<and> map_option (\<lambda>v. take_bit 25 (drop_bit 17 v))
         (evalFields exampleLayout exampleVal
            (tokenFields ''write_simple_token_fast'' (map snd simpleTokenArgs))) = Some 5
   \<and> map_option (\<lambda>v. take_bit 1 (drop_bit 16 v))
         (evalFields exampleLayout exampleVal
            (tokenFields ''write_simple_token_fast'' (map snd simpleTokenArgs))) = Some 1
   \<and> map_option (\<lambda>v. take_bit 16 (drop_bit 0 v))
         (evalFields exampleLayout exampleVal
            (tokenFields ''write_simple_token_fast'' (map snd simpleTokenArgs))) = Some 10
   \<and> evalFields exampleLayout exampleVal
         (tokenFields ''write_extended_token_fast''
            [mkIdent ''x'' (baseType ''u64''), mkConst 0 (baseType ''u32''), mkConst 7 (baseType ''u32'')])
       = Some (push_bit 17 (NOT 3) OR 7)
   \<and> map_option (\<lambda>v. take_bit 47 (drop_bit 17 (NOT v)))
         (evalFields exampleLayout exampleVal
            (tokenFields ''write_extended_token_fast''
               [mkIdent ''x'' (baseType ''u64''), mkConst 0 (baseType ''u32''),
                mkConst 7 (baseType ''u32'')])) = Some 3"
proof -
  let ?c0 = "mkConst 0 (baseType ''u32'')"
  let ?c5 = "mkConst 5 (baseType ''u32'')"
  let ?c1 = "mkConst 1 (baseType ''u32'')"
  let ?c10 = "mkConst 10 (baseType ''u32'')"
  let ?x = "mkIdent ''x'' (baseType ''u64'')"
  let ?c7 = "mkConst 7 (baseType ''u32'')"
  note t = token_packing
    [where mth = "''write_simple_token_fast''" and recv = tokenDst and rn = "''a_dst''"
       and args = simpleTokenArgs and we = "writeExpr testGen" and d = 0 and s = st0
       and argText = Ident and val = exampleVal and L = exampleLayout
       and xMajor = ?c0 and xMinor = ?c5 and xCont = ?c1 and xLen = ?c10 and xExt = ?x]
  note u = token_packing
    [where val = exampleVal and L = exampleLayout and xExt = ?x and xCont = ?c0 and xLen = ?c7]
  have m: "map snd simpleTokenArgs = [?c0, ?c5, ?c1, ?c10]"
    by (simp add: simpleTokenArgs_def)
  have w: "\<forall>x \<in> snd ` set simpleTokenArgs. \<forall>s.
             writeExpr testGen x False 0 s = (Inr (), s\<lparr>buf := buf s @ Ident x\<rparr>)"
    by (simp add: simpleTokenArgs_def eval_defs showInt_def showNat.simps digitChar_def
          maxInt64_def cong: lazy_cong)
  have h1: "(''write_simple_token_fast'' = ''write_simple_token_fast''
              \<or> ''write_simple_token_fast'' = ''write_extended_token_fast'')
            \<and> recvName tokenDst = Inr ''a_dst'' \<and> 2 \<le> length simpleTokenArgs
            \<and> (\<forall>x \<in> snd ` set simpleTokenArgs. \<forall>s.
                  writeExpr testGen x False 0 s = (Inr (), s\<lparr>buf := buf s @ Ident x\<rparr>))"
    using w by (simp add: tokenDst_def recvName_def mk_defs prefix_defs simpleTokenArgs_def)
  have cw: "exampleVal ?c0 = 0" "exampleVal ?c5 = 5" "exampleVal ?c1 = 1" "exampleVal ?c10 = 10"
    "exampleVal ?x = 3" "exampleVal ?c7 = 7"
    by (simp_all add: exampleVal_def mk_defs)
  have k: "\<forall>cv. ConstValue ?c0 = Some cv \<longrightarrow> exampleVal ?c0 = word_of_int cv"
    "\<forall>cv. ConstValue ?c1 = Some cv \<longrightarrow> exampleVal ?c1 = word_of_int cv"
    by (simp_all add: exampleVal_def mk_defs)
  have x64: "isU64 ?x"
    by (simp add: isU64_def mk_defs)
  have r2: "LENGTH__SHIFT exampleLayout \<le> CONTINUED__SHIFT exampleLayout
        \<and> CONTINUED__SHIFT exampleLayout \<le> VALUE_MINOR__SHIFT exampleLayout
        \<and> VALUE_MINOR__SHIFT exampleLayout \<le> VALUE_MAJOR__SHIFT exampleLayout
        \<and> VALUE_MAJOR__SHIFT exampleLayout \<le> 64
        \<and> unat (exampleVal ?c0) < 2 ^ (64 - VALUE_MAJOR__SHIFT exampleLayout)
        \<and> unat (exampleVal ?c5) < 2 ^ (VALUE_MAJOR__SHIFT exampleLayout - VALUE_MINOR__SHIFT exampleLayout)
        \<and> unat (exampleVal ?c1) < 2 ^ (VALUE_MINOR__SHIFT exampleLayout - CONTINUED__SHIFT exampleLayout)
        \<and> unat (exampleVal ?c10) < 2 ^ (CONTINUED__SHIFT exampleLayout - LENGTH__SHIFT exampleLayout)"
    unfolding cw by (simp add: exampleLayout_def)
  have r3: "LENGTH__SHIFT exampleLayout \<le> CONTINUED__SHIFT exampleLayout
        \<and> CONTINUED__SHIFT exampleLayout \<le> VALUE_EXTENSION__SHIFT exampleLayout
        \<and> VALUE_EXTENSION__SHIFT exampleLayout \<le> 64
        \<and> unat (exampleVal ?x) < 2 ^ (64 - VALUE_EXTENSION__SHIFT exampleLayout)
        \<and> unat (exampleVal ?c0) < 2 ^ (VALUE_EXTENSION__SHIFT exampleLayout - CONTINUED__SHIFT exampleLayout)
        \<and> unat (exampleVal ?c7) < 2 ^ (CONTINUED__SHIFT exampleLayout - LENGTH__SHIFT exampleLayout)"
    unfolding cw by (simp add: exampleLayout_def)
  note p1 = t [THEN conjunct1, rule_format, OF h1]
  note p2 = t [THEN conjunct2, THEN conjunct1, rule_format, OF conjI [OF k(1) conjI [OF k(2) r2]]]
  note p3 = u [THEN conjunct2, THEN conjunct2, rule_format, OF conjI [OF x64 conjI [OF k(1) r3]]]
  have 1: "writeBuiltinTokenWriter (writeExpr testGen) tokenDst ''write_simple_token_fast'' simpleTokenArgs 0 st0
     = (Inr (), st0\<lparr>buf := ''*iop_a_dst++ = wuffs_base__make_token(\<newline>''
                            @ ''(((uint64_t)(5)) << WUFFS_BASE__TOKEN__VALUE_MINOR__SHIFT) |\<newline>''
                            @ ''(((uint64_t)(1)) << WUFFS_BASE__TOKEN__CONTINUED__SHIFT) |\<newline>''
                            @ ''(((uint64_t)(10)) << WUFFS_BASE__TOKEN__LENGTH__SHIFT))''\<rparr>)"
    unfolding p1 m
    by (simp add: renderToken_def tokenFields_def notConstZero_def st0_def mk_defs showInt_def
          showNat.simps digitChar_def)
  have 2: "evalFields exampleLayout exampleVal
         (tokenFields ''write_simple_token_fast'' (map snd simpleTokenArgs)) = Some 720906"
    unfolding m p2 [THEN conjunct1] cw by (simp add: exampleLayout_def)
  have 3: "map_option (\<lambda>v. take_bit 22 (drop_bit 42 v))
         (evalFields exampleLayout exampleVal
            (tokenFields ''write_simple_token_fast'' (map snd simpleTokenArgs))) = Some 0"
    using p2 [THEN conjunct2, THEN conjunct1] unfolding m cw by (simp add: exampleLayout_def)
  have 4: "map_option (\<lambda>v. take_bit 25 (drop_bit 17 v))
         (evalFields exampleLayout exampleVal
            (tokenFields ''write_simple_token_fast'' (map snd simpleTokenArgs))) = Some 5"
    using p2 [THEN conjunct2, THEN conjunct2, THEN conjunct1] unfolding m cw
    by (simp add: exampleLayout_def)
  have 5: "map_option (\<lambda>v. take_bit 1 (drop_bit 16 v))
         (evalFields exampleLayout exampleVal
            (tokenFields ''write_simple_token_fast'' (map snd simpleTokenArgs))) = Some 1"
    using p2 [THEN conjunct2, THEN conjunct2, THEN conjunct2, THEN conjunct1] unfolding m cw
    by (simp add: exampleLayout_def)
  have 6: "map_option (\<lambda>v. take_bit 16 (drop_bit 0 v))
         (evalFields exampleLayout exampleVal
            (tokenFields ''write_simple_token_fast'' (map snd simpleTokenArgs))) = Some 10"
    using p2 [THEN conjunct2, THEN conjunct2, THEN conjunct2, THEN conjunct2] unfolding m cw
    by (simp add: exampleLayout_def)
  have 7: "evalFields exampleLayout exampleVal
         (tokenFields ''write_extended_token_fast'' [?x, ?c0, ?c7]) = Some (push_bit 17 (NOT 3) OR 7)"
    unfolding p3 [THEN conjunct1] cw by (simp add: exampleLayout_def)
  have 8: "map_option (\<lambda>v. take_bit 47 (drop_bit 17 (NOT v)))
         (evalFields exampleLayout exampleVal
            (tokenFields ''write_extended_token_fast'' [?x, ?c0, ?c7])) = Some 3"
    using p3 [THEN conjunct2, THEN conjunct1] unfolding cw by (simp add: exampleLayout_def)
  from 1 2 3 4 5 6 7 8 show ?thesis
    by blast
qed

section \<open>Reading a multi-byte number across suspensions\<close>

lemma of_nat_small_bit:
  assumes "c < 2 ^ k" "k \<le> n"
  shows "\<not> bit (of_nat c :: 'a::len word) n"
proof -
  have "unat (of_nat c :: 'a word) \<le> c"
    by (simp add: unat_of_nat)
  then have "unat (of_nat c :: 'a word) < 2 ^ k"
    using assms(1) by simp
  then show ?thesis
    by (rule small_bit) (rule assms(2))
qed

lemma be_count:
  assumes "c \<le> 56"
  shows "(push_bit (64 - c) V OR of_nat c) AND 255 = (of_nat c :: 64 word)"
proof -
  have m: "(255 :: 64 word) = mask 8"
    by (simp add: mask_eq_exp_minus_1)
  have c: "c < 2 ^ 8"
    using assms by simp
  show ?thesis
    unfolding m
  proof (rule bit_word_eqI)
    fix n assume "n < LENGTH(64)"
    show "bit ((push_bit (64 - c) V OR of_nat c :: 64 word) AND mask 8) n = bit (of_nat c :: 64 word) n"
      using assms of_nat_small_bit [OF c, of n, where 'a = 64]
      by (cases "n < 8") (auto simp: bit_simps)
  qed
qed

lemma be_clear:
  assumes "c \<le> 56"
  shows "push_bit 8 (drop_bit 8 (push_bit (64 - c) V OR of_nat c)) = (push_bit (64 - c) V :: 64 word)"
proof (rule bit_word_eqI)
  fix n assume n: "n < LENGTH(64)"
  have c: "c < 2 ^ 8"
    using assms by simp
  show "bit (push_bit 8 (drop_bit 8 (push_bit (64 - c) V OR of_nat c :: 64 word))) n
        = bit (push_bit (64 - c) V :: 64 word) n"
    using assms n of_nat_small_bit [OF c, of n, where 'a = 64]
    by (cases "n < 8") (auto simp: bit_simps)
qed

lemma be_insert:
  assumes "c \<le> 56"
  shows "push_bit (64 - c) V OR push_bit (56 - c) B
         = (push_bit (64 - (c + 8)) (push_bit 8 V OR B) :: 64 word)"
proof (rule bit_word_eqI)
  fix n assume n: "n < LENGTH(64)"
  show "bit (push_bit (64 - c) V OR push_bit (56 - c) B :: 64 word) n
        = bit (push_bit (64 - (c + 8)) (push_bit 8 V OR B) :: 64 word) n"
    using assms n by (auto simp: bit_simps)
qed

lemma be_commit:
  fixes W :: "64 word"
  assumes "unat W < 2 ^ xx" "xx \<le> 64"
  shows "drop_bit (64 - xx) (push_bit (64 - xx) W) = W"
proof (rule bit_word_eqI)
  fix n assume n: "n < LENGTH(64)"
  show "bit (drop_bit (64 - xx) (push_bit (64 - xx) W)) n = bit W n"
    using assms(2) n small_bit [OF assms(1), of n]
    by (cases "n < xx") (auto simp: bit_simps)
qed

lemma le_count:
  fixes V :: "64 word"
  assumes "unat V < 2 ^ c" "c \<le> 56"
  shows "drop_bit 56 (V OR push_bit 56 (of_nat c)) = (of_nat c :: 64 word)"
proof (rule bit_word_eqI)
  fix n assume n: "n < LENGTH(64)"
  have c: "c < 2 ^ 8"
    using assms(2) by simp
  show "bit (drop_bit 56 (V OR push_bit 56 (of_nat c))) n = bit (of_nat c :: 64 word) n"
    using assms(2) n small_bit [OF assms(1), of "56 + n"] of_nat_small_bit [OF c, of n, where 'a = 64]
    by (cases "n < 8") (auto simp: bit_simps)
qed

lemma le_clear:
  fixes V :: "64 word"
  assumes "unat V < 2 ^ c" "c \<le> 56"
  shows "drop_bit 8 (push_bit 8 (V OR push_bit 56 (of_nat c))) = V"
proof (rule bit_word_eqI)
  fix n assume n: "n < LENGTH(64)"
  show "bit (drop_bit 8 (push_bit 8 (V OR push_bit 56 (of_nat c)))) n = bit V n"
    using assms(2) n small_bit [OF assms(1), of n]
    by (cases "n < 56") (auto simp: bit_simps)
qed


lemma ucast32_of_nat: "c < 2 ^ 32 \<Longrightarrow> (ucast (of_nat c :: 64 word) :: 32 word) = of_nat c"
  by (simp add: unsigned_of_nat take_bit_nat_eq_self)

lemma ucast64_of_nat: "c < 2 ^ 32 \<Longrightarrow> (ucast (of_nat c :: 32 word) :: 64 word) = of_nat c"
  by (simp add: unsigned_of_nat take_bit_nat_eq_self)

lemma sub_from_56: "c \<le> 56 \<Longrightarrow> unat (take_bit 32 (56 - of_nat c :: 64 word)) = 56 - c"
proof -
  assume c: "c \<le> 56"
  have "(of_nat (56 - c) :: 64 word) = of_nat 56 - of_nat c"
    using c by (rule of_nat_diff)
  then have e: "(56 - of_nat c :: 64 word) = of_nat (56 - c)"
    by simp
  have "56 - c < 2 ^ 32" "56 - c < 2 ^ 64"
    using c by simp_all
  then have "unat (take_bit 32 (of_nat (56 - c) :: 64 word)) = 56 - c"
    by (simp only: unsigned_take_bit_eq unat_of_nat take_bit_nat_eq_self)
       (simp add: take_bit_nat_eq_self)
  then show ?thesis
    by (simp only: e)
qed

lemma of_nat32_eq: "c < 2 ^ 32 \<Longrightarrow> k < 2 ^ 32 \<Longrightarrow> ((of_nat c :: 32 word) = of_nat k) = (c = k)"
  by (simp add: word_of_nat_eq_iff take_bit_nat_eq_self)

lemma take_bit32_of_nat: "take_bit 32 (of_nat c :: 64 word) = of_nat c" if "c < 2 ^ 32"
  using that by (simp add: take_bit_of_nat take_bit_nat_eq_self)

lemma unat64_of_nat: "unat (of_nat c :: 64 word) = c" if "c < 2 ^ 32"
  using that by (simp add: unat_of_nat)


lemma acc_bound:
  fixes V :: "64 word" and B :: "8 word"
  assumes "unat V < 2 ^ c"
  shows "unat (push_bit 8 V OR ucast B) < 2 ^ (c + 8)"
proof -
  have "take_bit (c + 8) (push_bit 8 V OR ucast B) = push_bit 8 V OR ucast B"
  proof (rule bit_word_eqI)
    fix n assume n: "n < LENGTH(64)"
    show "bit (take_bit (c + 8) (push_bit 8 V OR ucast B)) n = bit (push_bit 8 V OR ucast B) n"
      using n small_bit [OF assms, of "n - 8"] bit_imp_le_length [of B n]
      by (cases "n < c + 8") (auto simp: bit_simps)
  qed
  then have "unat (push_bit 8 V OR ucast B) = take_bit (c + 8) (unat (push_bit 8 V OR ucast B))"
    by (metis unsigned_take_bit_eq)
  then show ?thesis
    by (metis take_bit_nat_less_exp)
qed

lemma loopIter_be:
  "loopIter (loopBody sn pre t xx yy CHR ''b'') S B
   = (let nb = (ucast (take_bit 32 (S AND 255)) :: 32 word);
          S1 = push_bit 8 (drop_bit 8 S);
          S2 = S1 OR push_bit (unat (take_bit 32 (of_nat 56 - ucast nb :: 64 word))) (take_bit 64 (ucast B))
      in if nb = of_nat (xx - 8)
         then Done (take_bit yy (drop_bit (unat (of_nat (64 - xx) :: 64 word)) S2))
         else More (S2 OR take_bit 64 (ucast (nb + of_nat 8))))"
  unfolding loopIter_def loopBody_def Let_def by simp

lemma loopIter_le:
  "loopIter (loopBody sn pre t xx yy CHR ''l'') S B
   = (let nb = (ucast (take_bit 32 (drop_bit (unat (of_nat 56 :: 64 word)) S)) :: 32 word);
          S1 = drop_bit 8 (push_bit 8 S);
          S2 = S1 OR push_bit (unat (ucast nb :: 64 word)) (take_bit 64 (ucast B))
      in if nb = of_nat (xx - 8)
         then Done (take_bit yy S2)
         else More (S2 OR push_bit (unat (of_nat 56 :: 64 word)) (take_bit 64 (ucast (nb + of_nat 8)))))"
  unfolding loopIter_def loopBody_def Let_def by simp


lemma iter_be:
  assumes "c \<le> 56" "c \<le> xx - 8" "8 \<le> xx" "xx \<le> 64" "xx \<le> yy" "unat V < 2 ^ c"
  shows "loopIter (loopBody sn pre t xx yy CHR ''b'') (push_bit (64 - c) V OR of_nat c) B
         = (if c = xx - 8 then Done (push_bit 8 V OR ucast B)
            else More (push_bit (64 - (c + 8)) (push_bit 8 V OR ucast B) OR of_nat (c + 8)))"
proof -
  let ?W = "push_bit 8 V OR ucast B :: 64 word"
  have c32: "c < 2 ^ 32" "xx - 8 < 2 ^ 32" "64 - xx < 2 ^ 32" "c + 8 < 2 ^ 32"
    using assms(1,4) by simp_all
  have W: "unat ?W < 2 ^ (c + 8)"
    by (rule acc_bound [OF assms(6)])
  have f5: "unat (take_bit 32 (of_nat 56 - ucast (of_nat c :: 32 word) :: 64 word)) = 56 - c"
    using sub_from_56 [OF assms(1)] by (simp add: ucast64_of_nat [OF c32(1)])
  have f6: "take_bit 64 (ucast B :: 64 word) = ucast B"
    by (simp add: take_bit_word_eq_self)
  have f7: "push_bit (64 - c) V OR push_bit (56 - c) (ucast B) = push_bit (64 - (c + 8)) ?W"
    by (rule be_insert [OF assms(1)])
  have f11: "take_bit 64 (ucast ((of_nat c :: 32 word) + of_nat 8) :: 64 word) = of_nat (c + 8)"
    using ucast64_of_nat [OF c32(4)] by (simp add: take_bit_word_eq_self)
  have commit: "take_bit yy (drop_bit (64 - xx) (push_bit (64 - (c + 8)) ?W)) = ?W" if "c = xx - 8"
  proof -
    have e: "c + 8 = xx"
      using that assms(3) by simp
    have "unat ?W < 2 ^ yy"
      using W assms(5) unfolding e
      by (meson less_le_trans one_le_numeral power_increasing)
    then have "take_bit yy ?W = ?W"
      by (rule small_take_bit)
    moreover have "drop_bit (64 - xx) (push_bit (64 - xx) ?W) = ?W"
      using W assms(4) unfolding e by (rule be_commit)
    ultimately show ?thesis
      unfolding e by simp
  qed
  show ?thesis
  proof (cases "c = xx - 8")
    case True
    show ?thesis
      unfolding loopIter_be Let_def be_count [OF assms(1)] take_bit32_of_nat [OF c32(1)] ucast32_of_nat [OF c32(1)]
        be_clear [OF assms(1)] f5 f6 f7 of_nat32_eq [OF c32(1) c32(2)] unat64_of_nat [OF c32(3)]
      using True commit by simp
  next
    case False
    show ?thesis
      unfolding loopIter_be Let_def be_count [OF assms(1)] take_bit32_of_nat [OF c32(1)] ucast32_of_nat [OF c32(1)]
        be_clear [OF assms(1)] f5 f6 f7 of_nat32_eq [OF c32(1) c32(2)] unat64_of_nat [OF c32(3)] f11
      using False by simp
  qed
qed

lemma le_acc_bound:
  fixes V :: "64 word" and B :: "8 word"
  assumes "unat V < 2 ^ c"
  shows "unat (V OR push_bit c (ucast B)) < 2 ^ (c + 8)"
proof -
  have "take_bit (c + 8) (V OR push_bit c (ucast B)) = V OR push_bit c (ucast B)"
  proof (rule bit_word_eqI)
    fix n assume n: "n < LENGTH(64)"
    show "bit (take_bit (c + 8) (V OR push_bit c (ucast B))) n = bit (V OR push_bit c (ucast B)) n"
      using n small_bit [OF assms, of n] bit_imp_le_length [of B "n - c"]
      by (cases "n < c + 8") (auto simp: bit_simps)
  qed
  then have "unat (V OR push_bit c (ucast B)) = take_bit (c + 8) (unat (V OR push_bit c (ucast B)))"
    by (metis unsigned_take_bit_eq)
  then show ?thesis
    by (metis take_bit_nat_less_exp)
qed

lemma iter_le:
  assumes "c \<le> 56" "c \<le> xx - 8" "8 \<le> xx" "xx \<le> 64" "xx \<le> yy" "unat V < 2 ^ c"
  shows "loopIter (loopBody sn pre t xx yy CHR ''l'') (V OR push_bit 56 (of_nat c)) B
         = (if c = xx - 8 then Done (V OR push_bit c (ucast B))
            else More ((V OR push_bit c (ucast B)) OR push_bit 56 (of_nat (c + 8))))"
proof -
  let ?W = "V OR push_bit c (ucast B) :: 64 word"
  have c32: "c < 2 ^ 32" "xx - 8 < 2 ^ 32" "c + 8 < 2 ^ 32" "(56::nat) < 2 ^ 32"
    using assms(1,4) by simp_all
  have W: "unat ?W < 2 ^ (c + 8)"
    by (rule le_acc_bound [OF assms(6)])
  have f6: "take_bit 64 (ucast B :: 64 word) = ucast B"
    by (simp add: take_bit_word_eq_self)
  have f10: "unat (ucast (of_nat c :: 32 word) :: 64 word) = c"
    by (simp only: ucast64_of_nat [OF c32(1)] unat64_of_nat [OF c32(1)])
  have f11: "take_bit 64 (ucast ((of_nat c :: 32 word) + of_nat 8) :: 64 word) = of_nat (c + 8)"
    using ucast64_of_nat [OF c32(3)] by (simp add: take_bit_word_eq_self)
  have commit: "take_bit yy ?W = ?W" if "c = xx - 8"
  proof -
    have e: "c + 8 = xx"
      using that assms(3) by simp
    have "unat ?W < 2 ^ yy"
      using W assms(5) unfolding e
      by (meson less_le_trans one_le_numeral power_increasing)
    then show ?thesis
      by (rule small_take_bit)
  qed
  show ?thesis
  proof (cases "c = xx - 8")
    case True
    show ?thesis
      unfolding loopIter_le Let_def unat64_of_nat [OF c32(4)] le_count [OF assms(6,1)] take_bit32_of_nat [OF c32(1)]
        ucast32_of_nat [OF c32(1)] le_clear [OF assms(6,1)] f6 f10 of_nat32_eq [OF c32(1) c32(2)]
      using True commit by simp
  next
    case False
    show ?thesis
      unfolding loopIter_le Let_def unat64_of_nat [OF c32(4)] le_count [OF assms(6,1)] take_bit32_of_nat [OF c32(1)]
        ucast32_of_nat [OF c32(1)] le_clear [OF assms(6,1)] f6 f10 of_nat32_eq [OF c32(1) c32(2)] f11
      using False by simp
  qed
qed


lemma peekBE_snoc: "peekBE (ds @ [b]) = push_bit 8 (peekBE ds) OR ucast b"
  by (simp add: peekBE_def)

lemma peekLE_snoc: "peekLE (ds @ [b]) = peekLE ds OR push_bit (8 * length ds) (ucast b)"
proof (induction ds)
  case Nil
  show ?case by simp
next
  case (Cons d ds)
  have "push_bit 8 (push_bit (8 * length ds) (ucast b :: 64 word))
        = push_bit (8 * length (d # ds)) (ucast b)"
    by (simp add: push_bit_add add.commute flip: push_bit_add)
  then show ?case
    using Cons by (simp add: push_bit_or or.assoc del: push_bit_push_bit)
qed

lemma peekBE_bound: "unat (peekBE ds) < 2 ^ (8 * length ds)"
proof (induction ds rule: rev_induct)
  case Nil
  show ?case by (simp add: peekBE_def)
next
  case (snoc b ds)
  have "unat (push_bit 8 (peekBE ds) OR ucast b) < 2 ^ (8 * length ds + 8)"
    by (rule acc_bound [OF snoc])
  then show ?case
    by (simp add: peekBE_snoc add.commute)
qed

lemma peekLE_bound: "unat (peekLE ds) < 2 ^ (8 * length ds)"
proof (induction ds rule: rev_induct)
  case Nil
  show ?case by simp
next
  case (snoc b ds)
  have "unat (peekLE ds OR push_bit (8 * length ds) (ucast b)) < 2 ^ (8 * length ds + 8)"
    by (rule le_acc_bound [OF snoc])
  then show ?case
    by (simp add: peekLE_snoc add.commute)
qed

lemma chunk_be:
  assumes "xx = 8 * k" "2 \<le> k" "k \<le> 8" "xx \<le> yy"
  shows "length ds < k \<Longrightarrow>
         runChunk (loopBody sn pre t xx yy CHR ''b'') (invBE ds) c
         = (if k \<le> length ds + length c then Done (peekBE (ds @ take (k - length ds) c))
            else More (invBE (ds @ c)))"
proof (induction c arbitrary: ds)
  case Nil
  then show ?case by simp
next
  case (Cons b c)
  let ?c = "8 * length ds"
  have a: "?c \<le> 56" "?c \<le> xx - 8" "8 \<le> xx" "xx \<le> 64"
    using Cons.prems assms by simp_all
  have it: "loopIter (loopBody sn pre t xx yy CHR ''b'') (invBE ds) b
            = (if ?c = xx - 8 then Done (peekBE (ds @ [b])) else More (invBE (ds @ [b])))"
    unfolding invBE_def peekBE_snoc
    using iter_be [OF a assms(4) peekBE_bound, of sn pre t b]
    by (simp add: add.commute)
  show ?case
  proof (cases "?c = xx - 8")
    case True
    then have "Suc (length ds) = k"
      using assms(1,2) by simp
    then have "k \<le> length ds + length (b # c)" "take (k - length ds) (b # c) = [b]"
      by auto
    then show ?thesis
      using it True by simp
  next
    case False
    then have l: "length (ds @ [b]) < k"
      using Cons.prems assms(1) by simp
    have "runChunk (loopBody sn pre t xx yy CHR ''b'') (invBE ds) (b # c)
          = runChunk (loopBody sn pre t xx yy CHR ''b'') (invBE (ds @ [b])) c"
      using it False by simp
    also have "\<dots> = (if k \<le> length (ds @ [b]) + length c
                     then Done (peekBE ((ds @ [b]) @ take (k - length (ds @ [b])) c))
                     else More (invBE ((ds @ [b]) @ c)))"
      by (rule Cons.IH [OF l])
    also have "\<dots> = (if k \<le> length ds + length (b # c)
                     then Done (peekBE (ds @ take (k - length ds) (b # c)))
                     else More (invBE (ds @ b # c)))"
      using l by (simp add: take_Cons' Suc_diff_le)
    finally show ?thesis .
  qed
qed

lemma chunk_le:
  assumes "xx = 8 * k" "2 \<le> k" "k \<le> 8" "xx \<le> yy"
  shows "length ds < k \<Longrightarrow>
         runChunk (loopBody sn pre t xx yy CHR ''l'') (invLE ds) c
         = (if k \<le> length ds + length c then Done (peekLE (ds @ take (k - length ds) c))
            else More (invLE (ds @ c)))"
proof (induction c arbitrary: ds)
  case Nil
  then show ?case by simp
next
  case (Cons b c)
  let ?c = "8 * length ds"
  have a: "?c \<le> 56" "?c \<le> xx - 8" "8 \<le> xx" "xx \<le> 64"
    using Cons.prems assms by simp_all
  have it: "loopIter (loopBody sn pre t xx yy CHR ''l'') (invLE ds) b
            = (if ?c = xx - 8 then Done (peekLE (ds @ [b])) else More (invLE (ds @ [b])))"
    unfolding invLE_def peekLE_snoc
    using iter_le [OF a assms(4) peekLE_bound, of sn pre t b]
    by (simp add: add.commute)
  show ?case
  proof (cases "?c = xx - 8")
    case True
    then have "Suc (length ds) = k"
      using assms(1,2) by simp
    then have "k \<le> length ds + length (b # c)" "take (k - length ds) (b # c) = [b]"
      by auto
    then show ?thesis
      using it True by simp
  next
    case False
    then have l: "length (ds @ [b]) < k"
      using Cons.prems assms(1) by simp
    have "runChunk (loopBody sn pre t xx yy CHR ''l'') (invLE ds) (b # c)
          = runChunk (loopBody sn pre t xx yy CHR ''l'') (invLE (ds @ [b])) c"
      using it False by simp
    also have "\<dots> = (if k \<le> length (ds @ [b]) + length c
                     then Done (peekLE ((ds @ [b]) @ take (k - length (ds @ [b])) c))
                     else More (invLE ((ds @ [b]) @ c)))"
      by (rule Cons.IH [OF l])
    also have "\<dots> = (if k \<le> length ds + length (b # c)
                     then Done (peekLE (ds @ take (k - length ds) (b # c)))
                     else More (invLE (ds @ b # c)))"
      using l by (simp add: take_Cons' Suc_diff_le)
    finally show ?thesis .
  qed
qed


lemma resume_be:
  assumes "xx = 8 * k" "2 \<le> k" "k \<le> 8" "xx \<le> yy"
  shows "length ds < k \<Longrightarrow>
         resume (loopBody sn pre t xx yy CHR ''b'') (invBE ds) cs
         = (if k \<le> length ds + length (concat cs) then Done (peekBE (take k (ds @ concat cs)))
            else More (invBE (ds @ concat cs)))"
proof (induction cs arbitrary: ds)
  case Nil
  then show ?case by simp
next
  case (Cons c cs)
  note ch = chunk_be [OF assms Cons.prems, of sn pre t c]
  show ?case
  proof (cases "k \<le> length ds + length c")
    case True
    then show ?thesis
      using ch Cons.prems by simp
  next
    case False
    then have l: "length (ds @ c) < k"
      by simp
    show ?thesis
      using ch False Cons.IH [OF l] by simp
  qed
qed

lemma resume_le:
  assumes "xx = 8 * k" "2 \<le> k" "k \<le> 8" "xx \<le> yy"
  shows "length ds < k \<Longrightarrow>
         resume (loopBody sn pre t xx yy CHR ''l'') (invLE ds) cs
         = (if k \<le> length ds + length (concat cs) then Done (peekLE (take k (ds @ concat cs)))
            else More (invLE (ds @ concat cs)))"
proof (induction cs arbitrary: ds)
  case Nil
  then show ?case by simp
next
  case (Cons c cs)
  note ch = chunk_le [OF assms Cons.prems, of sn pre t c]
  show ?case
  proof (cases "k \<le> length ds + length c")
    case True
    then show ?thesis
      using ch Cons.prems by simp
  next
    case False
    then have l: "length (ds @ c) < k"
      by simp
    show ?thesis
      using ch False Cons.IH [OF l] by simp
  qed
qed

lemma peek_bound: "unat (peek e k bs) < 2 ^ (8 * k)"
proof -
  have "unat (peekBE (take k bs)) < 2 ^ (8 * length (take k bs))"
    "unat (peekLE (take k bs)) < 2 ^ (8 * length (take k bs))"
    by (rule peekBE_bound, rule peekLE_bound)
  moreover have "(2::nat) ^ (8 * length (take k bs)) \<le> 2 ^ (8 * k)"
    by (rule power_increasing) simp_all
  ultimately show ?thesis
    unfolding peek_def by (auto elim: less_le_trans)
qed

lemma readUxx_value:
  assumes "xx = 8 * k" "2 \<le> k" "k \<le> 8" "xx \<le> yy" "e = CHR ''b'' \<or> e = CHR ''l''"
    "chunks \<noteq> []" "k \<le> length (concat chunks)"
  shows "readUxx sn pre t xx yy e chunks = Done (peek e k (concat chunks))"
proof -
  obtain c cs where cs: "chunks = c # cs"
    using assms(6) by (cases chunks) auto
  have k: "xx div 8 = k"
    using assms(1) by simp
  have z: "invBE [] = 0" "invLE [] = 0"
    by (simp_all add: invBE_def invLE_def peekBE_def)
  have l0: "length ([] :: 8 word list) < k"
    using assms(2) by simp
  show ?thesis
  proof (cases "k \<le> length c")
    case True
    have "unat (peek e k c) < 2 ^ yy"
      using peek_bound [of e k c] assms(1,4)
      by (meson less_le_trans one_le_numeral power_increasing)
    then have "take_bit yy (peek e k c) = peek e k c"
      by (rule small_take_bit)
    moreover have "peek e k (concat chunks) = peek e k c"
      using True by (simp add: cs peek_def)
    ultimately show ?thesis
      using True k by (auto simp: readUxx_def cs)
  next
    case False
    from assms(5) show ?thesis
    proof
      assume e: "e = CHR ''b''"
      show ?thesis
        using False assms(7) resume_be [OF assms(1-4) l0, of sn pre t chunks]
        by (simp add: readUxx_def cs k z e peek_def)
    next
      assume e: "e = CHR ''l''"
      show ?thesis
        using False assms(7) resume_le [OF assms(1-4) l0, of sn pre t chunks]
        by (simp add: readUxx_def cs k z e peek_def)
    qed
  qed
qed

lemma readUxx_short:
  assumes "xx = 8 * k" "2 \<le> k" "k \<le> 8" "xx \<le> yy" "e = CHR ''b'' \<or> e = CHR ''l''"
    "length (concat chunks) < k"
  shows "\<exists>S. readUxx sn pre t xx yy e chunks = More S"
proof (cases chunks)
  case Nil
  then show ?thesis by (simp add: readUxx_def)
next
  case (Cons c cs)
  have k: "xx div 8 = k"
    using assms(1) by simp
  have z: "invBE [] = 0" "invLE [] = 0"
    by (simp_all add: invBE_def invLE_def peekBE_def)
  have l0: "length ([] :: 8 word list) < k"
    using assms(2) by simp
  have f: "\<not> k \<le> length c"
    using assms(6) Cons by simp
  from assms(5) show ?thesis
  proof
    assume e: "e = CHR ''b''"
    show ?thesis
      using f assms(6) resume_be [OF assms(1-4) l0, of sn pre t chunks]
      by (simp add: readUxx_def Cons k z e)
  next
    assume e: "e = CHR ''l''"
    show ?thesis
      using f assms(6) resume_le [OF assms(1-4) l0, of sn pre t chunks]
      by (simp add: readUxx_def Cons k z e)
  qed
qed
lemma show8: "showNat 8 = ''8''" "showNat 56 = ''56''" "showNat 32 = ''32''" "showNat 64 = ''64''"
  by (simp_all add: showNat.simps digitChar_def)

lemma read_text:
  assumes "xx mod 8 = 0" "16 \<le> xx" "xx \<le> 64" "e = CHR ''b'' \<or> e = CHR ''l''"
    "tempW (currFunk s) = temp" "temp \<le> maxTemp g"
    "LHS n = Some mth" "LHS mth = Some recv" "recvName recv = Inr rn"
    "writeCTypeName g (MType n) tPrefix (showNat temp)
       (s\<lparr>currFunk := (currFunk s)\<lparr>tempW := temp + 1\<rparr>\<rparr>) = (Inr (), s1)"
    "writeCoroSuspPoint False
       (s1\<lparr>currFunk := (currFunk s1)\<lparr>usesScratch := True\<rparr>,
           buf := buf s1 @ '';\<newline>'' @ fastPathText rn temp xx yy e @ ''} else {\<newline>''
                  @ scratchName (currFunk s1) @ '' = 0;\<newline>''\<rparr>) = (Inr (), s2)"
  shows "writeReadUxxAsUyy g n pre xx yy e s
         = (Inr (), s2\<lparr>buf := buf s2 @ ''while (true) {\<newline>'' @ shortRead pre
                                @ renderBody (loopBody (scratchName (currFunk s1)) pre temp xx yy e)
                                @ ''}\<newline>}\<newline>''\<rparr>)"
proof -
  have v: "\<not> (xx mod 8 \<noteq> 0 \<or> xx < 16 \<or> 64 < xx)"
    using assms(1-3) by simp
  have sn: "scratchName (currFunk s1\<lparr>usesScratch := True\<rparr>) = scratchName (currFunk s1)"
    by (simp add: scratchName_def)
  from assms(4) show ?thesis
  proof
    assume e: "e = CHR ''b''"
    show ?thesis
      unfolding writeReadUxxAsUyy_def
      using v assms(5-11)
      by (cases "xx = yy")
         (simp_all add: e newTemp_def setUsesScratch_def apply_simps whenM_def sn fastPathText_def
            renderBody_def loopBody_def show8 cong: lazy_cong)
  next
    assume e: "e = CHR ''l''"
    show ?thesis
      unfolding writeReadUxxAsUyy_def
      using v assms(5-11)
      by (cases "xx = yy")
         (simp_all add: e newTemp_def setUsesScratch_def apply_simps whenM_def sn fastPathText_def
            renderBody_def loopBody_def show8 cong: lazy_cong)
  qed
qed


lemma readMethods_table:
  "\<forall>d \<in> set (map snd (widthTable ''read'')).
     case d of (psize, pn, e) \<Rightarrow>
       pn \<noteq> 8 \<longrightarrow> pn mod 8 = 0 \<and> 16 \<le> pn \<and> pn \<le> 64 \<and> pn \<le> psize
                  \<and> (e = CHR ''b'' \<or> e = CHR ''l'')"
  by (simp add: widthTable_def)

lemma readMethods_valid:
  assumes "readMethods m = (psize, pn, e)" "pn \<noteq> 0" "pn \<noteq> 8"
  shows "pn mod 8 = 0 \<and> 16 \<le> pn \<and> pn \<le> 64 \<and> pn \<le> psize \<and> (e = CHR ''b'' \<or> e = CHR ''l'')"
proof (cases "map_of (widthTable ''read'') m")
  case None
  then show ?thesis
    using assms by (simp add: readMethods_def lookupDescriptor_def)
next
  case (Some d)
  then have "d \<in> set (map snd (widthTable ''read''))"
    by (metis map_of_SomeD set_zip_rightD zip_map_fst_snd)
  moreover have "d = (psize, pn, e)"
    using Some assms(1) by (simp add: readMethods_def lookupDescriptor_def)
  ultimately show ?thesis
    using readMethods_table assms(3) by fastforce
qed

lemma per_byte: "concat (map (\<lambda>b. [b]) bs) = bs"
  by (induction bs) simp_all


text \<open>
  C2. For a width \<open>xx\<close> from 16 to 64 that is a multiple of 8, \<^verbatim>\<open>writeReadUxxAsUyy\<close> prints
  the declaration of a temporary, the fast path (taken when \<open>xx / 8\<close> bytes are available:
  one unchecked peek, cast when the widths differ, and the advance of the cursor by
  \<open>xx / 8\<close>), and otherwise the assignment of 0 to the scratch slot, a suspension point and
  a loop that suspends with the short-read status when no byte is available and else
  runs the body \<open>loopBody\<close>. Read as C, with the scratch slot kept between invocations,
  the generated code gives the value of the first \<open>xx / 8\<close> bytes in the order of the
  endianness, however the bytes are split over the invocations, and is still suspended
  while fewer bytes have arrived; one byte for each invocation gives the same value as
  all bytes in one invocation. Every entry of \<^verbatim>\<open>readMethods\<close> wider than one byte has a
  width and an endianness in that range.
\<close>

theorem read_uxx_resumption:
  "(xx mod 8 = 0 \<and> 16 \<le> xx \<and> xx \<le> 64 \<and> (e = CHR ''b'' \<or> e = CHR ''l'')
      \<and> tempW (currFunk s) = temp \<and> temp \<le> maxTemp g
      \<and> LHS n = Some mth \<and> LHS mth = Some recv \<and> recvName recv = Inr rn
      \<and> writeCTypeName g (MType n) tPrefix (showNat temp)
           (s\<lparr>currFunk := (currFunk s)\<lparr>tempW := temp + 1\<rparr>\<rparr>) = (Inr (), s1)
      \<and> writeCoroSuspPoint False
           (s1\<lparr>currFunk := (currFunk s1)\<lparr>usesScratch := True\<rparr>,
               buf := buf s1 @ '';\<newline>'' @ fastPathText rn temp xx yy e @ ''} else {\<newline>''
                      @ scratchName (currFunk s1) @ '' = 0;\<newline>''\<rparr>) = (Inr (), s2) \<longrightarrow>
      writeReadUxxAsUyy g n pre xx yy e s
        = (Inr (), s2\<lparr>buf := buf s2 @ ''while (true) {\<newline>'' @ shortRead pre
                               @ renderBody (loopBody (scratchName (currFunk s1)) pre temp xx yy e)
                               @ ''}\<newline>}\<newline>''\<rparr>))
   \<and> (xx mod 8 = 0 \<and> 16 \<le> xx \<and> xx \<le> 64 \<and> xx \<le> yy \<and> (e = CHR ''b'' \<or> e = CHR ''l'') \<longrightarrow>
        (chunks \<noteq> [] \<and> xx div 8 \<le> length (concat chunks) \<longrightarrow>
           readUxx scr pre temp xx yy e chunks = Done (peek e (xx div 8) (concat chunks)))
        \<and> (length (concat chunks) < xx div 8 \<longrightarrow>
             (\<exists>S. readUxx scr pre temp xx yy e chunks = More S))
        \<and> (xx div 8 \<le> length bs \<longrightarrow>
             readUxx scr pre temp xx yy e (map (\<lambda>b. [b]) bs) = readUxx scr pre temp xx yy e [bs]))
   \<and> (readMethods m = (psize, pn, pe) \<and> pn \<noteq> 0 \<and> pn \<noteq> 8 \<longrightarrow>
        pn mod 8 = 0 \<and> 16 \<le> pn \<and> pn \<le> 64 \<and> pn \<le> psize \<and> (pe = CHR ''b'' \<or> pe = CHR ''l''))"
proof (intro conjI)
  show "xx mod 8 = 0 \<and> 16 \<le> xx \<and> xx \<le> 64 \<and> (e = CHR ''b'' \<or> e = CHR ''l'')
      \<and> tempW (currFunk s) = temp \<and> temp \<le> maxTemp g
      \<and> LHS n = Some mth \<and> LHS mth = Some recv \<and> recvName recv = Inr rn
      \<and> writeCTypeName g (MType n) tPrefix (showNat temp)
           (s\<lparr>currFunk := (currFunk s)\<lparr>tempW := temp + 1\<rparr>\<rparr>) = (Inr (), s1)
      \<and> writeCoroSuspPoint False
           (s1\<lparr>currFunk := (currFunk s1)\<lparr>usesScratch := True\<rparr>,
               buf := buf s1 @ '';\<newline>'' @ fastPathText rn temp xx yy e @ ''} else {\<newline>''
                      @ scratchName (currFunk s1) @ '' = 0;\<newline>''\<rparr>) = (Inr (), s2) \<longrightarrow>
      writeReadUxxAsUyy g n pre xx yy e s
        = (Inr (), s2\<lparr>buf := buf s2 @ ''while (true) {\<newline>'' @ shortRead pre
                               @ renderBody (loopBody (scratchName (currFunk s1)) pre temp xx yy e)
                               @ ''}\<newline>}\<newline>''\<rparr>)"
  proof
    assume h: "xx mod 8 = 0 \<and> 16 \<le> xx \<and> xx \<le> 64 \<and> (e = CHR ''b'' \<or> e = CHR ''l'')
      \<and> tempW (currFunk s) = temp \<and> temp \<le> maxTemp g
      \<and> LHS n = Some mth \<and> LHS mth = Some recv \<and> recvName recv = Inr rn
      \<and> writeCTypeName g (MType n) tPrefix (showNat temp)
           (s\<lparr>currFunk := (currFunk s)\<lparr>tempW := temp + 1\<rparr>\<rparr>) = (Inr (), s1)
      \<and> writeCoroSuspPoint False
           (s1\<lparr>currFunk := (currFunk s1)\<lparr>usesScratch := True\<rparr>,
               buf := buf s1 @ '';\<newline>'' @ fastPathText rn temp xx yy e @ ''} else {\<newline>''
                      @ scratchName (currFunk s1) @ '' = 0;\<newline>''\<rparr>) = (Inr (), s2)"
    then show "writeReadUxxAsUyy g n pre xx yy e s
        = (Inr (), s2\<lparr>buf := buf s2 @ ''while (true) {\<newline>'' @ shortRead pre
                               @ renderBody (loopBody (scratchName (currFunk s1)) pre temp xx yy e)
                               @ ''}\<newline>}\<newline>''\<rparr>)"
      by (intro read_text [where mth = mth and recv = recv and rn = rn]) blast+
  qed
next
  show "xx mod 8 = 0 \<and> 16 \<le> xx \<and> xx \<le> 64 \<and> xx \<le> yy \<and> (e = CHR ''b'' \<or> e = CHR ''l'') \<longrightarrow>
        (chunks \<noteq> [] \<and> xx div 8 \<le> length (concat chunks) \<longrightarrow>
           readUxx scr pre temp xx yy e chunks = Done (peek e (xx div 8) (concat chunks)))
        \<and> (length (concat chunks) < xx div 8 \<longrightarrow>
             (\<exists>S. readUxx scr pre temp xx yy e chunks = More S))
        \<and> (xx div 8 \<le> length bs \<longrightarrow>
             readUxx scr pre temp xx yy e (map (\<lambda>b. [b]) bs) = readUxx scr pre temp xx yy e [bs])"
  proof
    assume h: "xx mod 8 = 0 \<and> 16 \<le> xx \<and> xx \<le> 64 \<and> xx \<le> yy \<and> (e = CHR ''b'' \<or> e = CHR ''l'')"
    define k where "k = xx div 8"
    have v: "xx = 8 * k" "2 \<le> k" "k \<le> 8" "xx \<le> yy" "e = CHR ''b'' \<or> e = CHR ''l''"
      using h unfolding k_def by auto
    have a: "readUxx scr pre temp xx yy e chunks = Done (peek e k (concat chunks))"
      if "chunks \<noteq> []" "k \<le> length (concat chunks)"
      by (rule readUxx_value [OF v that])
    have b: "\<exists>S. readUxx scr pre temp xx yy e chunks = More S" if "length (concat chunks) < k"
      by (rule readUxx_short [OF v that])
    have c: "readUxx scr pre temp xx yy e (map (\<lambda>b. [b]) bs) = readUxx scr pre temp xx yy e [bs]"
      if "k \<le> length bs"
    proof -
      have ne: "map (\<lambda>b. [b]) bs \<noteq> []"
        using that v(2) by auto
      have "readUxx scr pre temp xx yy e (map (\<lambda>b. [b]) bs) = Done (peek e k bs)"
        using readUxx_value [OF v ne, of scr pre temp] that by (simp add: per_byte)
      moreover have "readUxx scr pre temp xx yy e [bs] = Done (peek e k bs)"
        using readUxx_value [OF v, of "[bs]" scr pre temp] that by simp
      ultimately show ?thesis by simp
    qed
    show "(chunks \<noteq> [] \<and> xx div 8 \<le> length (concat chunks) \<longrightarrow>
           readUxx scr pre temp xx yy e chunks = Done (peek e (xx div 8) (concat chunks)))
        \<and> (length (concat chunks) < xx div 8 \<longrightarrow>
             (\<exists>S. readUxx scr pre temp xx yy e chunks = More S))
        \<and> (xx div 8 \<le> length bs \<longrightarrow>
             readUxx scr pre temp xx yy e (map (\<lambda>b. [b]) bs) = readUxx scr pre temp xx yy e [bs])"
      using a b c unfolding k_def by blast
  qed
next
  show "readMethods m = (psize, pn, pe) \<and> pn \<noteq> 0 \<and> pn \<noteq> 8 \<longrightarrow>
        pn mod 8 = 0 \<and> 16 \<le> pn \<and> pn \<le> 64 \<and> pn \<le> psize \<and> (pe = CHR ''b'' \<or> pe = CHR ''l'')"
    using readMethods_valid [of m psize pn pe] by blast
qed


theorem read_uxx_resumption_witness:
  "writeReadUxxAsUyy testGen readU24 ''a_src'' 24 32 CHR ''b'' st0
     = (Inr (), st0\<lparr>currFunk := (currFunk st0)\<lparr>tempW := 1, usesScratch := True, coroSuspPoint := 1\<rparr>,
                     buf := ''uint32_t t_0;\<newline>''
                            @ ''if (WUFFS_BASE__LIKELY(io2_a_src - iop_a_src >= 3)) {\<newline>''
                            @ ''t_0 = ((uint32_t)(wuffs_base__peek_u24be__no_bounds_check(iop_a_src)));\<newline>''
                            @ ''iop_a_src += 3;\<newline>''
                            @ ''} else {\<newline>''
                            @ ''self->private_data.s_decode[0].scratch = 0;\<newline>''
                            @ ''WUFFS_BASE__COROUTINE_SUSPENSION_POINT(1);\<newline>''
                            @ ''while (true) {\<newline>''
                            @ ''if (WUFFS_BASE__UNLIKELY(iop_a_src == io2_a_src)) {\<newline>''
                            @ ''status = wuffs_base__make_status(wuffs_base__suspension__short_read);\<newline>''
                            @ ''goto suspend;\<newline>''
                            @ ''}\<newline>''
                            @ ''uint64_t* scratch = &self->private_data.s_decode[0].scratch;\<newline>''
                            @ ''uint32_t num_bits_0 = ((uint32_t)(*scratch & 0xFF));\<newline>''
                            @ ''*scratch >>= 8;\<newline>''
                            @ ''*scratch <<= 8;\<newline>''
                            @ ''*scratch |= ((uint64_t)(*iop_a_src++)) << (56 - num_bits_0);\<newline>''
                            @ ''if (num_bits_0 == 16) {\<newline>''
                            @ ''t_0 = ((uint32_t)(*scratch >> 40));\<newline>''
                            @ ''break;\<newline>''
                            @ ''}\<newline>''
                            @ ''num_bits_0 += 8;\<newline>''
                            @ ''*scratch |= ((uint64_t)(num_bits_0));\<newline>''
                            @ ''}\<newline>''
                            @ ''}\<newline>''\<rparr>)
   \<and> readUxx ''self->private_data.s_decode[0].scratch'' ''a_src'' 0 24 32 CHR ''b''
         [[0x12], [0x34], [0x56]] = Done 0x123456
   \<and> readUxx ''self->private_data.s_decode[0].scratch'' ''a_src'' 0 24 32 CHR ''b''
         [[0x12, 0x34, 0x56]] = Done 0x123456
   \<and> readUxx ''self->private_data.s_decode[0].scratch'' ''a_src'' 0 24 32 CHR ''b''
         [[0x12], [], [0x34, 0x56, 0x78]] = Done 0x123456
   \<and> readUxx ''self->private_data.s_decode[0].scratch'' ''a_src'' 0 24 32 CHR ''l''
         [[0x12], [0x34], [0x56]] = Done 0x563412
   \<and> (\<exists>S. readUxx ''self->private_data.s_decode[0].scratch'' ''a_src'' 0 24 32 CHR ''b''
              [[0x12], [0x34]] = More S)
   \<and> readUxx ''self->private_data.s_decode[0].scratch'' ''a_src'' 0 24 32 CHR ''b''
         (map (\<lambda>b. [b]) [0x12, 0x34, 0x56])
       = readUxx ''self->private_data.s_decode[0].scratch'' ''a_src'' 0 24 32 CHR ''b''
           [[0x12, 0x34, 0x56]]
   \<and> readMethods ''read_u24be_as_u32'' = (32, 24, CHR ''b'')"
proof -
  let ?scr = "''self->private_data.s_decode[0].scratch''"
  let ?mth = "mkDot srcReader ''read_u24be_as_u32'' (baseType ''u32'')"
  let ?s1 = "st0\<lparr>currFunk := (currFunk st0)\<lparr>tempW := 1\<rparr>, buf := ''uint32_t t_0''\<rparr>"
  let ?s2 = "st0\<lparr>currFunk := (currFunk st0)\<lparr>tempW := 1, usesScratch := True, coroSuspPoint := 1\<rparr>,
                 buf := ''uint32_t t_0;\<newline>''
                        @ ''if (WUFFS_BASE__LIKELY(io2_a_src - iop_a_src >= 3)) {\<newline>''
                        @ ''t_0 = ((uint32_t)(wuffs_base__peek_u24be__no_bounds_check(iop_a_src)));\<newline>''
                        @ ''iop_a_src += 3;\<newline>''
                        @ ''} else {\<newline>''
                        @ ''self->private_data.s_decode[0].scratch = 0;\<newline>''
                        @ ''WUFFS_BASE__COROUTINE_SUSPENSION_POINT(1);\<newline>''\<rparr>"
  note sh = showNat.simps digitChar_def
  have n0: "showNat 0 = ''0''" "showNat 3 = ''3''" "showNat 24 = ''24''" "showNat 32 = ''32''"
    "showNat 16 = ''16''" "showNat 40 = ''40''" "showNat 8 = ''8''"
    "showNat 56 = ''56''" "showNat 64 = ''64''"
    by (simp_all add: sh)
  have n1: "showNat (Suc 0) = ''1''"
    by (subst showNat.simps) (simp add: digitChar_def)
  have a1: "writeCTypeName testGen (MType readU24) tPrefix (showNat 0)
              (st0\<lparr>currFunk := (currFunk st0)\<lparr>tempW := 0 + 1\<rparr>\<rparr>) = (Inr (), ?s1)"
    by (simp add: readU24_def writeCTypeName_def IsSliceType_def IsTableType_def cTypeNames_def
          writeVarName_def mk_defs prefix_defs st0_def apply_simps whenM_def n0 cong: lazy_cong)
  have sn: "scratchName (currFunk ?s1) = ?scr"
    by (simp add: scratchName_def st0_def prefix_defs)
  have a2: "writeCoroSuspPoint False
              (?s1\<lparr>currFunk := (currFunk ?s1)\<lparr>usesScratch := True\<rparr>,
                   buf := buf ?s1 @ '';\<newline>'' @ fastPathText ''a_src'' 0 24 32 CHR ''b''
                          @ ''} else {\<newline>'' @ scratchName (currFunk ?s1) @ '' = 0;\<newline>''\<rparr>)
            = (Inr (), ?s2)"
    unfolding sn
    by (simp add: writeCoroSuspPoint_def fastPathText_def st0_def prefix_defs apply_simps n0 n1)
  have h1: "(24::nat) mod 8 = 0 \<and> (16::nat) \<le> 24 \<and> (24::nat) \<le> 64
            \<and> (CHR ''b'' = CHR ''b'' \<or> CHR ''b'' = CHR ''l'')
            \<and> tempW (currFunk st0) = 0 \<and> 0 \<le> maxTemp testGen
            \<and> LHS readU24 = Some ?mth \<and> LHS ?mth = Some srcReader
            \<and> recvName srcReader = Inr ''a_src''
            \<and> writeCTypeName testGen (MType readU24) tPrefix (showNat 0)
                 (st0\<lparr>currFunk := (currFunk st0)\<lparr>tempW := 0 + 1\<rparr>\<rparr>) = (Inr (), ?s1)
            \<and> writeCoroSuspPoint False
                 (?s1\<lparr>currFunk := (currFunk ?s1)\<lparr>usesScratch := True\<rparr>,
                      buf := buf ?s1 @ '';\<newline>'' @ fastPathText ''a_src'' 0 24 32 CHR ''b''
                             @ ''} else {\<newline>'' @ scratchName (currFunk ?s1) @ '' = 0;\<newline>''\<rparr>)
               = (Inr (), ?s2)"
    using a1 a2
    by (simp add: readU24_def srcReader_def recvName_def mk_defs prefix_defs st0_def gen_defs)
  have h2: "(24::nat) mod 8 = 0 \<and> (16::nat) \<le> 24 \<and> (24::nat) \<le> 64 \<and> (24::nat) \<le> 32
            \<and> (CHR ''b'' = CHR ''b'' \<or> CHR ''b'' = CHR ''l'')"
    by simp
  have h3: "(24::nat) mod 8 = 0 \<and> (16::nat) \<le> 24 \<and> (24::nat) \<le> 64 \<and> (24::nat) \<le> 32
            \<and> (CHR ''l'' = CHR ''b'' \<or> CHR ''l'' = CHR ''l'')"
    by simp
  note p1 = read_uxx_resumption
    [where xx = 24 and yy = 32 and e = "CHR ''b''" and s = st0 and temp = 0 and g = testGen
       and n = readU24 and mth = ?mth and recv = srcReader and rn = "''a_src''"
       and pre = "''a_src''" and ?s1.0 = ?s1 and ?s2.0 = ?s2,
     THEN conjunct1, rule_format, OF h1]
  note sb = read_uxx_resumption
    [where xx = 24 and yy = 32 and e = "CHR ''b''" and temp = 0 and pre = "''a_src''"
       and scr = ?scr, THEN conjunct2, THEN conjunct1, rule_format, OF h2]
  note sl = read_uxx_resumption
    [where xx = 24 and yy = 32 and e = "CHR ''l''" and temp = 0 and pre = "''a_src''"
       and scr = ?scr, THEN conjunct2, THEN conjunct1, rule_format, OF h3]
  note tb = read_uxx_resumption
    [where m = "''read_u24be_as_u32''", THEN conjunct2, THEN conjunct2]
  have 1: "writeReadUxxAsUyy testGen readU24 ''a_src'' 24 32 CHR ''b'' st0
             = (Inr (), ?s2\<lparr>buf := buf ?s2 @ ''while (true) {\<newline>'' @ shortRead ''a_src''
                  @ renderBody (loopBody ?scr ''a_src'' 0 24 32 CHR ''b'') @ ''}\<newline>}\<newline>''\<rparr>)"
    using p1 unfolding sn .
  have pk: "peek CHR ''b'' 3 [0x12, 0x34, 0x56] = 0x123456"
    "peek CHR ''b'' 3 [0x12, 0x34, 0x56, 0x78] = 0x123456"
    "peek CHR ''l'' 3 [0x12, 0x34, 0x56] = 0x563412"
    by (simp_all add: peek_def peekBE_def)
  have 2: "readUxx ?scr ''a_src'' 0 24 32 CHR ''b'' [[0x12], [0x34], [0x56]] = Done 0x123456"
    using sb [where chunks = "[[0x12], [0x34], [0x56]]", THEN conjunct1] pk by simp
  have 3: "readUxx ?scr ''a_src'' 0 24 32 CHR ''b'' [[0x12, 0x34, 0x56]] = Done 0x123456"
    using sb [where chunks = "[[0x12, 0x34, 0x56]]", THEN conjunct1] pk by simp
  have 4: "readUxx ?scr ''a_src'' 0 24 32 CHR ''b'' [[0x12], [], [0x34, 0x56, 0x78]] = Done 0x123456"
    using sb [where chunks = "[[0x12], [], [0x34, 0x56, 0x78]]", THEN conjunct1] pk by simp
  have 5: "readUxx ?scr ''a_src'' 0 24 32 CHR ''l'' [[0x12], [0x34], [0x56]] = Done 0x563412"
    using sl [where chunks = "[[0x12], [0x34], [0x56]]", THEN conjunct1] pk by simp
  have 6: "\<exists>S. readUxx ?scr ''a_src'' 0 24 32 CHR ''b'' [[0x12], [0x34]] = More S"
    using sb [where chunks = "[[0x12], [0x34]]", THEN conjunct2, THEN conjunct1] by simp
  have 7: "readUxx ?scr ''a_src'' 0 24 32 CHR ''b'' (map (\<lambda>b. [b]) [0x12, 0x34, 0x56])
           = readUxx ?scr ''a_src'' 0 24 32 CHR ''b'' [[0x12, 0x34, 0x56]]"
    using sb [where bs = "[0x12, 0x34, 0x56]", THEN conjunct2, THEN conjunct2] by simp
  have 8: "readMethods ''read_u24be_as_u32'' = (32, 24, CHR ''b'')"
    by (simp add: readMethods_def lookupDescriptor_def widthTable_def)
  have 9: "(24::nat) mod 8 = 0 \<and> (16::nat) \<le> 24 \<and> (24::nat) \<le> 64 \<and> (24::nat) \<le> 32
           \<and> (CHR ''b'' = CHR ''b'' \<or> CHR ''b'' = CHR ''l'')"
    using tb [of 32 24 "CHR ''b''"] 8 by simp
  have 10: "writeReadUxxAsUyy testGen readU24 ''a_src'' 24 32 CHR ''b'' st0
     = (Inr (), st0\<lparr>currFunk := (currFunk st0)\<lparr>tempW := 1, usesScratch := True, coroSuspPoint := 1\<rparr>,
                     buf := ''uint32_t t_0;\<newline>''
                            @ ''if (WUFFS_BASE__LIKELY(io2_a_src - iop_a_src >= 3)) {\<newline>''
                            @ ''t_0 = ((uint32_t)(wuffs_base__peek_u24be__no_bounds_check(iop_a_src)));\<newline>''
                            @ ''iop_a_src += 3;\<newline>''
                            @ ''} else {\<newline>''
                            @ ''self->private_data.s_decode[0].scratch = 0;\<newline>''
                            @ ''WUFFS_BASE__COROUTINE_SUSPENSION_POINT(1);\<newline>''
                            @ ''while (true) {\<newline>''
                            @ ''if (WUFFS_BASE__UNLIKELY(iop_a_src == io2_a_src)) {\<newline>''
                            @ ''status = wuffs_base__make_status(wuffs_base__suspension__short_read);\<newline>''
                            @ ''goto suspend;\<newline>''
                            @ ''}\<newline>''
                            @ ''uint64_t* scratch = &self->private_data.s_decode[0].scratch;\<newline>''
                            @ ''uint32_t num_bits_0 = ((uint32_t)(*scratch & 0xFF));\<newline>''
                            @ ''*scratch >>= 8;\<newline>''
                            @ ''*scratch <<= 8;\<newline>''
                            @ ''*scratch |= ((uint64_t)(*iop_a_src++)) << (56 - num_bits_0);\<newline>''
                            @ ''if (num_bits_0 == 16) {\<newline>''
                            @ ''t_0 = ((uint32_t)(*scratch >> 40));\<newline>''
                            @ ''break;\<newline>''
                            @ ''}\<newline>''
                            @ ''num_bits_0 += 8;\<newline>''
                            @ ''*scratch |= ((uint64_t)(num_bits_0));\<newline>''
                            @ ''}\<newline>''
                            @ ''}\<newline>''\<rparr>)"
    unfolding 1
    by (simp add: st0_def shortRead_def renderBody_def loopBody_def prefix_defs n0)
  from 10 2 3 4 5 6 7 8 9 show ?thesis
    by blast
qed

end
